theory Spec2Isabelle
  imports Main
begin

section \<open>Python values decoded from JSON\<close>

text \<open>
  The SDK handles loosely typed values: whatever \<open>response.json()\<close> decodes and whatever
  \<open>dict.get\<close> returns. They are modelled by one datatype. \<open>JNull\<close> is Python's \<open>None\<close>; an
  object is the decoded \<open>dict\<close>, kept as an association list in insertion order and read with
  \<open>map_of\<close>. Floating point numbers are left out of the model.
\<close>

datatype jval =
    JNull
  | JBool bool
  | JInt int
  | JStr string
  | JList "jval list"
  | JObj "(string \<times> jval) list"

text \<open>Python truthiness, as tested by \<open>if data\<close>, \<open>x or y\<close> and \<open>a if c else b\<close>.\<close>

fun truthy :: "jval \<Rightarrow> bool" where
  "truthy JNull = False"
| "truthy (JBool b) = b"
| "truthy (JInt i) = (i \<noteq> 0)"
| "truthy (JStr s) = (s \<noteq> [])"
| "truthy (JList xs) = (xs \<noteq> [])"
| "truthy (JObj kvs) = (kvs \<noteq> [])"

section \<open>Exceptions (exceptions.py and the built-in ones the code can raise)\<close>

text \<open>
  Every class of exceptions.py is a constructor carrying \<open>message\<close>, \<open>status_code\<close> and
  \<open>response\<close>, in the order of \<open>FMSError.__init__\<close>; \<open>ValidationError\<close> adds \<open>errors\<close> and
  \<open>RateLimitError\<close> adds \<open>retry_after\<close>. The message is a \<open>jval\<close> because the code passes
  \<open>data.get("detail", ...)\<close> unchecked. The remaining constructors are the built-in
  exceptions raised by the modelled code: \<open>AttributeError\<close> (\<open>.get\<close> on a value that is not a
  dict), \<open>ValueError\<close> (an enum constructor or \<open>int\<close> rejecting its argument), \<open>TypeError\<close>
  (iterating a value that is not iterable), \<open>KeyError\<close> (a missing subscript) and
  \<open>ParserError\<close> (whatever \<open>dateutil.parser.parse\<close> raises).
\<close>

datatype exn =
    FMSError jval "int option" jval
  | AuthenticationError jval "int option" jval
  | AuthorizationError jval "int option" jval
  | NotFoundError jval "int option" jval
  | ValidationError jval "int option" jval jval
  | ConflictError jval "int option" jval
  | RateLimitError jval "int option" jval "int option"
  | ServerError jval "int option" jval
  | ConnectionError jval "int option" jval
  | TimeoutError jval "int option" jval
  | AttributeError
  | ValueError
  | TypeError
  | KeyError
  | ParserError

text \<open>\<open>isinstance(e, FMSError)\<close>: every class of exceptions.py derives from \<open>FMSError\<close>.\<close>

fun is_FMSError :: "exn \<Rightarrow> bool" where
  "is_FMSError (FMSError m s r) = True"
| "is_FMSError (AuthenticationError m s r) = True"
| "is_FMSError (AuthorizationError m s r) = True"
| "is_FMSError (NotFoundError m s r) = True"
| "is_FMSError (ValidationError m s r es) = True"
| "is_FMSError (ConflictError m s r) = True"
| "is_FMSError (RateLimitError m s r ra) = True"
| "is_FMSError (ServerError m s r) = True"
| "is_FMSError (ConnectionError m s r) = True"
| "is_FMSError (TimeoutError m s r) = True"
| "is_FMSError AttributeError = False"
| "is_FMSError ValueError = False"
| "is_FMSError TypeError = False"
| "is_FMSError KeyError = False"
| "is_FMSError ParserError = False"

section \<open>Dictionary access\<close>

text \<open>\<open>d.get(k, dflt)\<close> on a dict.\<close>

definition dict_get :: "(string \<times> jval) list \<Rightarrow> string \<Rightarrow> jval \<Rightarrow> jval" where
  "dict_get d k dflt = (case map_of d k of None \<Rightarrow> dflt | Some v \<Rightarrow> v)"

text \<open>\<open>d[k]\<close> on a dict: a missing key raises \<open>KeyError\<close>.\<close>

definition dict_item :: "(string \<times> jval) list \<Rightarrow> string \<Rightarrow> exn + jval" where
  "dict_item d k = (case map_of d k of None \<Rightarrow> Inl KeyError | Some v \<Rightarrow> Inr v)"

text \<open>\<open>data.get(k, dflt)\<close> on any decoded value: only a dict has the method.\<close>

fun py_get :: "jval \<Rightarrow> string \<Rightarrow> jval \<Rightarrow> exn + jval" where
  "py_get (JObj d) k dflt = Inr (dict_get d k dflt)"
| "py_get JNull k dflt = Inl AttributeError"
| "py_get (JBool b) k dflt = Inl AttributeError"
| "py_get (JInt i) k dflt = Inl AttributeError"
| "py_get (JStr s) k dflt = Inl AttributeError"
| "py_get (JList xs) k dflt = Inl AttributeError"

section \<open>Enumerations (models.py)\<close>

datatype LogLevel = TRACE | DEBUG | INFORMATION | WARNING | ERROR | CRITICAL

fun LogLevel_value :: "LogLevel \<Rightarrow> string" where
  "LogLevel_value TRACE = ''Trace''"
| "LogLevel_value DEBUG = ''Debug''"
| "LogLevel_value INFORMATION = ''Information''"
| "LogLevel_value WARNING = ''Warning''"
| "LogLevel_value ERROR = ''Error''"
| "LogLevel_value CRITICAL = ''Critical''"

definition LogLevel_members :: "LogLevel list" where
  "LogLevel_members = [TRACE, DEBUG, INFORMATION, WARNING, ERROR, CRITICAL]"

datatype ServerStatus = SS_UNKNOWN | SS_ONLINE | SS_OFFLINE | SS_MAINTENANCE | SS_ERROR

fun ServerStatus_value :: "ServerStatus \<Rightarrow> string" where
  "ServerStatus_value SS_UNKNOWN = ''Unknown''"
| "ServerStatus_value SS_ONLINE = ''Online''"
| "ServerStatus_value SS_OFFLINE = ''Offline''"
| "ServerStatus_value SS_MAINTENANCE = ''Maintenance''"
| "ServerStatus_value SS_ERROR = ''Error''"

definition ServerStatus_members :: "ServerStatus list" where
  "ServerStatus_members = [SS_UNKNOWN, SS_ONLINE, SS_OFFLINE, SS_MAINTENANCE, SS_ERROR]"

datatype ExecutionStatus =
  ES_PENDING | ES_RUNNING | ES_SUCCESS | ES_FAILED | ES_CANCELLED | ES_TIMED_OUT

fun ExecutionStatus_value :: "ExecutionStatus \<Rightarrow> string" where
  "ExecutionStatus_value ES_PENDING = ''Pending''"
| "ExecutionStatus_value ES_RUNNING = ''Running''"
| "ExecutionStatus_value ES_SUCCESS = ''Success''"
| "ExecutionStatus_value ES_FAILED = ''Failed''"
| "ExecutionStatus_value ES_CANCELLED = ''Cancelled''"
| "ExecutionStatus_value ES_TIMED_OUT = ''TimedOut''"

definition ExecutionStatus_members :: "ExecutionStatus list" where
  "ExecutionStatus_members =
     [ES_PENDING, ES_RUNNING, ES_SUCCESS, ES_FAILED, ES_CANCELLED, ES_TIMED_OUT]"

datatype JobPriority = JP_LOW | JP_NORMAL | JP_HIGH | JP_CRITICAL

fun JobPriority_value :: "JobPriority \<Rightarrow> string" where
  "JobPriority_value JP_LOW = ''Low''"
| "JobPriority_value JP_NORMAL = ''Normal''"
| "JobPriority_value JP_HIGH = ''High''"
| "JobPriority_value JP_CRITICAL = ''Critical''"

definition JobPriority_members :: "JobPriority list" where
  "JobPriority_members = [JP_LOW, JP_NORMAL, JP_HIGH, JP_CRITICAL]"

datatype TriggerType = TT_MANUAL | TT_SCHEDULED | TT_TRIGGERED | TT_RETRY

fun TriggerType_value :: "TriggerType \<Rightarrow> string" where
  "TriggerType_value TT_MANUAL = ''Manual''"
| "TriggerType_value TT_SCHEDULED = ''Scheduled''"
| "TriggerType_value TT_TRIGGERED = ''Triggered''"
| "TriggerType_value TT_RETRY = ''Retry''"

definition TriggerType_members :: "TriggerType list" where
  "TriggerType_members = [TT_MANUAL, TT_SCHEDULED, TT_TRIGGERED, TT_RETRY]"

datatype AlertType =
  AT_ERROR_THRESHOLD | AT_JOB_FAILURE | AT_SERVER_OFFLINE | AT_EXECUTION_TIMEOUT | AT_CUSTOM

fun AlertType_value :: "AlertType \<Rightarrow> string" where
  "AlertType_value AT_ERROR_THRESHOLD = ''ErrorThreshold''"
| "AlertType_value AT_JOB_FAILURE = ''JobFailure''"
| "AlertType_value AT_SERVER_OFFLINE = ''ServerOffline''"
| "AlertType_value AT_EXECUTION_TIMEOUT = ''ExecutionTimeout''"
| "AlertType_value AT_CUSTOM = ''Custom''"

definition AlertType_members :: "AlertType list" where
  "AlertType_members =
     [AT_ERROR_THRESHOLD, AT_JOB_FAILURE, AT_SERVER_OFFLINE, AT_EXECUTION_TIMEOUT, AT_CUSTOM]"

datatype AlertSeverity = AS_INFO | AS_WARNING | AS_ERROR | AS_CRITICAL

fun AlertSeverity_value :: "AlertSeverity \<Rightarrow> string" where
  "AlertSeverity_value AS_INFO = ''Info''"
| "AlertSeverity_value AS_WARNING = ''Warning''"
| "AlertSeverity_value AS_ERROR = ''Error''"
| "AlertSeverity_value AS_CRITICAL = ''Critical''"

definition AlertSeverity_members :: "AlertSeverity list" where
  "AlertSeverity_members = [AS_INFO, AS_WARNING, AS_ERROR, AS_CRITICAL]"

text \<open>
  Calling an enumeration class on a value, \<open>LogLevel(v)\<close>: the member whose raw value equals
  \<open>v\<close>, looked up among the members in definition order; \<open>ValueError\<close> when there is none.
  Every raw value is a string, so a value that is not a string matches no member.
\<close>

fun enum_call :: "('e \<Rightarrow> string) \<Rightarrow> 'e list \<Rightarrow> jval \<Rightarrow> exn + 'e" where
  "enum_call val members (JStr s) =
     (case find (\<lambda>m. val m = s) members of None \<Rightarrow> Inl ValueError | Some m \<Rightarrow> Inr m)"
| "enum_call val members JNull = Inl ValueError"
| "enum_call val members (JBool b) = Inl ValueError"
| "enum_call val members (JInt i) = Inl ValueError"
| "enum_call val members (JList xs) = Inl ValueError"
| "enum_call val members (JObj d) = Inl ValueError"

definition LogLevel_call :: "jval \<Rightarrow> exn + LogLevel" where
  "LogLevel_call v = enum_call LogLevel_value LogLevel_members v"

definition ServerStatus_call :: "jval \<Rightarrow> exn + ServerStatus" where
  "ServerStatus_call v = enum_call ServerStatus_value ServerStatus_members v"

definition ExecutionStatus_call :: "jval \<Rightarrow> exn + ExecutionStatus" where
  "ExecutionStatus_call v = enum_call ExecutionStatus_value ExecutionStatus_members v"

definition JobPriority_call :: "jval \<Rightarrow> exn + JobPriority" where
  "JobPriority_call v = enum_call JobPriority_value JobPriority_members v"

definition TriggerType_call :: "jval \<Rightarrow> exn + TriggerType" where
  "TriggerType_call v = enum_call TriggerType_value TriggerType_members v"

definition AlertType_call :: "jval \<Rightarrow> exn + AlertType" where
  "AlertType_call v = enum_call AlertType_value AlertType_members v"

definition AlertSeverity_call :: "jval \<Rightarrow> exn + AlertSeverity" where
  "AlertSeverity_call v = enum_call AlertSeverity_value AlertSeverity_members v"


section \<open>Raising and propagating\<close>

text \<open>
  A computation that may raise returns \<open>exn + 'a\<close>, \<open>Inl\<close> being the exception. \<open>try_then\<close>
  sequences two such computations: an exception of the first skips the second, as an
  uncaught exception skips the rest of a Python expression.
\<close>

definition try_then :: "exn + 'a \<Rightarrow> ('a \<Rightarrow> exn + 'b) \<Rightarrow> exn + 'b" where
  "try_then r f = (case r of Inl e \<Rightarrow> Inl e | Inr x \<Rightarrow> f x)"

section \<open>Built-in conversions: \<open>str(int)\<close> and \<open>int(str)\<close>\<close>

definition digit_char :: "nat \<Rightarrow> char" where
  "digit_char n = char_of (48 + n)"

fun str_nat :: "nat \<Rightarrow> string" where
  "str_nat n = (if n < 10 then [digit_char n] else str_nat (n div 10) @ [digit_char (n mod 10)])"

declare str_nat.simps [simp del]

text \<open>The decimal text an f-string gives for an integer, as in \<open>f"HTTP {status_code}"\<close>.\<close>

definition str_int :: "int \<Rightarrow> string" where
  "str_int i = (if i < 0 then CHR ''-'' # str_nat (nat (- i)) else str_nat (nat i))"

text \<open>
  \<open>int(s)\<close> on a string, as the interpreter converts it with its default settings. White
  space around the literal is skipped, one sign is allowed, and the digits may be grouped by
  single underscores; a literal of more than 4300 digits is refused
  (\<open>sys.get_int_max_str_digits()\<close>). Anything else raises \<open>ValueError\<close> as well. Header
  values are Latin-1 text. The white space that \<open>int\<close> skips there is the tab, line feed,
  vertical tab, form feed, carriage return and space, and, above the ASCII range, the next
  line control (133) and the no-break space (160); the separators 28 to 31, which
  \<open>str.isspace\<close> accepts, are not skipped. The only decimal digits of Latin-1 are the ASCII
  ones.
\<close>

definition int_space :: "char \<Rightarrow> bool" where
  "int_space c = (of_char c \<in> set [9, 10, 11, 12, 13, 32, 133, 160 :: nat])"

definition int_strip :: "string \<Rightarrow> string" where
  "int_strip s = rev (dropWhile int_space (rev (dropWhile int_space s)))"

definition is_digit :: "char \<Rightarrow> bool" where
  "is_digit c = (48 \<le> (of_char c :: nat) \<and> (of_char c :: nat) \<le> 57)"

definition digit_val :: "char \<Rightarrow> nat" where
  "digit_val c = of_char c - 48"

fun parse_digits :: "nat \<Rightarrow> string \<Rightarrow> nat option" where
  "parse_digits acc [] = Some acc"
| "parse_digits acc [c] = (if is_digit c then Some (acc * 10 + digit_val c) else None)"
| "parse_digits acc (c # d # ds) =
     (if is_digit c then parse_digits (acc * 10 + digit_val c) (d # ds)
      else if c = CHR ''_'' \<and> is_digit d then parse_digits (acc * 10 + digit_val d) ds
      else None)"

definition int_max_str_digits :: nat where
  "int_max_str_digits = 4300"

text \<open>
  The literal after the sign: it starts with a digit, and its digits, underscores apart, are
  counted against the limit.
\<close>

definition parse_unsigned :: "string \<Rightarrow> nat option" where
  "parse_unsigned s =
     (case s of [] \<Rightarrow> None
      | c # cs \<Rightarrow>
          if is_digit c \<and> length (filter is_digit s) \<le> int_max_str_digits
          then parse_digits (digit_val c) cs else None)"

definition py_int :: "string \<Rightarrow> exn + int" where
  "py_int s =
     (case int_strip s of
        [] \<Rightarrow> Inl ValueError
      | c # cs \<Rightarrow>
          if c = CHR ''-'' then
            (case parse_unsigned cs of None \<Rightarrow> Inl ValueError | Some n \<Rightarrow> Inr (- int n))
          else if c = CHR ''+'' then
            (case parse_unsigned cs of None \<Rightarrow> Inl ValueError | Some n \<Rightarrow> Inr (int n))
          else
            (case parse_unsigned (c # cs) of None \<Rightarrow> Inl ValueError | Some n \<Rightarrow> Inr (int n)))"

section \<open>Response handling (client.py, \<open>FMSClient._handle_response\<close>)\<close>

text \<open>
  What the handler reads of a \<open>requests.Response\<close>: the status code, the raw body
  (\<open>content\<close>), the outcome of \<open>response.json()\<close> (\<open>None\<close> when it raises \<open>ValueError\<close>; the
  JSON parser itself belongs to the HTTP library) and \<open>response.headers.get\<close>.
\<close>

record response =
  status_code :: int
  content :: string
  json_decoded :: "jval option"
  headers :: "string \<Rightarrow> string option"

text \<open>
  The first statement of the handler:
  \<open>try: data = response.json() if response.content else None; except ValueError: data = None\<close>.
\<close>

definition response_data :: "response \<Rightarrow> jval" where
  "response_data response =
     (if content response \<noteq> [] then
        (case json_decoded response of None \<Rightarrow> JNull | Some j \<Rightarrow> j)
      else JNull)"

text \<open>The message argument of every branch: \<open>data.get("detail", dflt) if data else dflt\<close>.\<close>

definition detail_or :: "jval \<Rightarrow> jval \<Rightarrow> exn + jval" where
  "detail_or data dflt = (if truthy data then py_get data ''detail'' dflt else Inr dflt)"

text \<open>\<open>int(retry_after) if retry_after else None\<close>, on the result of \<open>headers.get\<close>.\<close>

definition retry_after_arg :: "string option \<Rightarrow> exn + int option" where
  "retry_after_arg retry_after =
     (case retry_after of
        None \<Rightarrow> Inr None
      | Some h \<Rightarrow> if h \<noteq> [] then try_then (py_int h) (\<lambda>n. Inr (Some n)) else Inr None)"

definition FMSClient_handle_response :: "response \<Rightarrow> exn + jval" where
  "FMSClient_handle_response response =
     (let data = response_data response; sc = status_code response in
      if sc = 200 \<or> sc = 201 then Inr data
      else if sc = 204 then Inr JNull
      else if sc = 400 then
        try_then (if truthy data then py_get data ''errors'' JNull else Inr JNull) (\<lambda>errors.
        try_then (detail_or data (JStr ''Validation failed'')) (\<lambda>msg.
          Inl (ValidationError msg (Some sc) data (if truthy errors then errors else JObj []))))
      else if sc = 401 then
        try_then (detail_or data (JStr ''Authentication failed'')) (\<lambda>msg.
          Inl (AuthenticationError msg (Some sc) data))
      else if sc = 403 then
        try_then (detail_or data (JStr ''Access denied'')) (\<lambda>msg.
          Inl (AuthorizationError msg (Some sc) data))
      else if sc = 404 then
        try_then (detail_or data (JStr ''Resource not found'')) (\<lambda>msg.
          Inl (NotFoundError msg (Some sc) data))
      else if sc = 409 then
        try_then (detail_or data (JStr ''Resource conflict'')) (\<lambda>msg.
          Inl (ConflictError msg (Some sc) data))
      else if sc = 429 then
        (let retry_after = headers response ''Retry-After'' in
         try_then (detail_or data (JStr ''Rate limit exceeded'')) (\<lambda>msg.
         try_then (retry_after_arg retry_after) (\<lambda>ra.
           Inl (RateLimitError msg (Some sc) data ra))))
      else if sc \<ge> 500 then
        try_then (detail_or data (JStr ''Server error'')) (\<lambda>msg.
          Inl (ServerError msg (Some sc) data))
      else
        try_then (detail_or data (JStr (''HTTP '' @ str_int sc))) (\<lambda>msg.
          Inl (FMSError msg (Some sc) data)))"

section \<open>Requests (client.py, \<open>FMSClient._get_headers\<close>, \<open>_request\<close>, \<open>logout\<close>)\<close>

text \<open>
  The client object. \<open>base_url\<close> is stored with its trailing slashes already stripped; the
  three private token attributes lose their leading underscore. The type of time stamps
  (\<open>datetime\<close>) is a parameter \<open>'dt\<close>.
\<close>

record 'dt FMSClient =
  base_url :: string
  api_key :: "string option"
  server_name :: string
  timeout :: int
  access_token :: "string option"
  refresh_token :: "string option"
  token_expires_at :: "'dt option"

text \<open>The keyword arguments of \<open>self._session.request\<close>; \<open>JNull\<close> is \<open>json=None\<close>.\<close>

record http_request =
  req_method :: string
  req_url :: string
  req_headers :: "(string \<times> string) list"
  req_params :: "(string \<times> jval) list option"
  req_json :: jval
  req_timeout :: int

text \<open>
  The outcome of \<open>self._session.request\<close>: a response, or one of the exceptions of the HTTP
  library that \<open>_request\<close> catches, named by the \<open>except\<close> clause that catches it and carrying
  the text \<open>str(e)\<close> where the clause uses it.
\<close>

datatype session_result =
    Returns response
  | RaisesConnectionError string
  | RaisesTimeout
  | RaisesRequestException string

text \<open>
  The surroundings of a call: the HTTP session, \<open>dateutil.parser.parse\<close> (\<open>None\<close> when it
  raises), \<open>datetime.utcnow()\<close>, \<open>datetime.isoformat\<close> and \<open>os.getenv("USER")\<close>, all outside
  the repository.
\<close>

record 'dt env =
  session_request :: "http_request \<Rightarrow> session_result"
  dateutil_parse :: "jval \<Rightarrow> 'dt option"
  datetime_utcnow :: 'dt
  datetime_isoformat :: "'dt \<Rightarrow> string"
  getenv_USER :: "string option"

definition FMSClient_get_headers :: "'dt FMSClient \<Rightarrow> (string \<times> string) list" where
  "FMSClient_get_headers self =
     [(''Accept'', ''application/json''), (''Content-Type'', ''application/json'')] @
     (case api_key self of
        Some k \<Rightarrow>
          if k \<noteq> [] then [(''X-Api-Key'', k)]
          else (case access_token self of
                  Some t \<Rightarrow> if t \<noteq> [] then [(''Authorization'', ''Bearer '' @ t)] else []
                | None \<Rightarrow> [])
      | None \<Rightarrow>
          (case access_token self of
             Some t \<Rightarrow> if t \<noteq> [] then [(''Authorization'', ''Bearer '' @ t)] else []
           | None \<Rightarrow> []))"

text \<open>
  \<open>if params: params = {k: v for k, v in params.items() if v is not None}\<close>: \<open>None\<close> and the
  empty dict are falsy and stay as they are.
\<close>

definition filter_params :: "(string \<times> jval) list option \<Rightarrow> (string \<times> jval) list option" where
  "filter_params params =
     (case params of
        None \<Rightarrow> None
      | Some ps \<Rightarrow> if ps \<noteq> [] then Some (filter (\<lambda>(k, v). v \<noteq> JNull) ps) else Some ps)"

text \<open>The request that \<open>_request\<close> hands to the session.\<close>

definition outgoing_request ::
  "'dt FMSClient \<Rightarrow> string \<Rightarrow> string \<Rightarrow> (string \<times> jval) list option \<Rightarrow> jval \<Rightarrow> http_request" where
  "outgoing_request self method endpoint params data =
     \<lparr>req_method = method,
      req_url = base_url self @ ''/api/'' @ endpoint,
      req_headers = FMSClient_get_headers self,
      req_params = filter_params params,
      req_json = data,
      req_timeout = timeout self\<rparr>"

text \<open>
  \<open>_request\<close> returns its outcome together with the requests it handed to the session (always
  exactly one). Exceptions of \<open>_handle_response\<close> that are not of the HTTP library pass through
  the three \<open>except\<close> clauses.
\<close>

definition FMSClient_request ::
  "'dt env \<Rightarrow> 'dt FMSClient \<Rightarrow> string \<Rightarrow> string \<Rightarrow> (string \<times> jval) list option \<Rightarrow> jval
     \<Rightarrow> (exn + jval) \<times> http_request list" where
  "FMSClient_request env self method endpoint params data =
     (let url = base_url self @ ''/api/'' @ endpoint;
          req = outgoing_request self method endpoint params data
      in ((case session_request env req of
             Returns response \<Rightarrow> FMSClient_handle_response response
           | RaisesConnectionError e \<Rightarrow>
               Inl (ConnectionError
                      (JStr (''Failed to connect to '' @ base_url self @ '': '' @ e)) None JNull)
           | RaisesTimeout \<Rightarrow>
               Inl (TimeoutError (JStr (''Request to '' @ url @ '' timed out'')) None JNull)
           | RaisesRequestException e \<Rightarrow>
               Inl (FMSError (JStr (''Request failed: '' @ e)) None JNull)),
          [req]))"

text \<open>
  \<open>logout\<close> returns its outcome, the client afterwards and the requests sent. An exception
  that is not an \<open>FMSError\<close> leaves the \<open>try\<close> block uncaught, before the three assignments.
\<close>

definition FMSClient_logout ::
  "'dt env \<Rightarrow> 'dt FMSClient \<Rightarrow> (exn + unit) \<times> 'dt FMSClient \<times> http_request list" where
  "FMSClient_logout env self =
     (let cleared = self\<lparr>access_token := None, refresh_token := None, token_expires_at := None\<rparr>
      in case refresh_token self of
           None \<Rightarrow> (Inr (), cleared, [])
         | Some tok \<Rightarrow>
             if tok \<noteq> [] then
               (case FMSClient_request env self ''POST'' ''auth/logout'' None
                       (JObj [(''refreshToken'', JStr tok)]) of
                  (Inr v, sent) \<Rightarrow> (Inr (), cleared, sent)
                | (Inl e, sent) \<Rightarrow>
                    if is_FMSError e then (Inr (), cleared, sent) else (Inl e, self, sent))
             else (Inr (), cleared, []))"

section \<open>Model deserialization (models.py, the \<open>from_dict\<close> class methods)\<close>

text \<open>
  The time-stamp expressions of the factories. \<open>parse_date(data[k]) if data.get(k) else None\<close>
  is \<open>parse_if_present\<close>; with \<open>datetime.utcnow()\<close> as the alternative it is \<open>parse_or_now\<close>.
  The parser is a parameter, \<open>None\<close> standing for any exception it raises.
\<close>

definition parse_if_present ::
  "(jval \<Rightarrow> 'dt option) \<Rightarrow> (string \<times> jval) list \<Rightarrow> string \<Rightarrow> exn + 'dt option" where
  "parse_if_present parse_date d k =
     (if truthy (dict_get d k JNull) then
        try_then (dict_item d k) (\<lambda>v.
          case parse_date v of None \<Rightarrow> Inl ParserError | Some t \<Rightarrow> Inr (Some t))
      else Inr None)"

definition parse_or_now ::
  "(jval \<Rightarrow> 'dt option) \<Rightarrow> 'dt \<Rightarrow> (string \<times> jval) list \<Rightarrow> string \<Rightarrow> exn + 'dt" where
  "parse_or_now parse_date utcnow d k =
     (if truthy (dict_get d k JNull) then
        try_then (dict_item d k) (\<lambda>v.
          case parse_date v of None \<Rightarrow> Inl ParserError | Some t \<Rightarrow> Inr t)
      else Inr utcnow)"

text \<open>
  The data classes. A dataclass does not check the types of its fields, so a field filled by
  \<open>data.get\<close> holds whatever the object holds (a \<open>jval\<close>); only enumeration and time-stamp
  fields are converted. Field names carry a prefix per class (\<open>le_\<close> LogEntry, \<open>sv_\<close> Server,
  \<open>jb_\<close> Job, \<open>ex_\<close> Execution, \<open>al_\<close> Alert, \<open>ai_\<close> AlertInstance), since the classes share
  names.
\<close>

record 'dt LogEntry =
  le_id :: jval
  le_timestamp :: 'dt
  le_level :: LogLevel
  le_message :: jval
  le_server_name :: jval
  le_job_id :: jval
  le_execution_id :: jval
  le_category :: jval
  le_correlation_id :: jval
  le_exception :: jval
  le_properties :: jval
  le_created_at :: "'dt option"

fun LogEntry_from_dict :: "(jval \<Rightarrow> 'dt option) \<Rightarrow> 'dt \<Rightarrow> jval \<Rightarrow> exn + 'dt LogEntry" where
  "LogEntry_from_dict parse_date utcnow (JObj d) =
     try_then (parse_or_now parse_date utcnow d ''timestamp'') (\<lambda>ts.
     try_then (LogLevel_call (dict_get d ''level'' (JStr ''Information''))) (\<lambda>lvl.
     try_then (parse_if_present parse_date d ''createdAt'') (\<lambda>created.
       Inr \<lparr>le_id = dict_get d ''id'' (JStr []),
            le_timestamp = ts,
            le_level = lvl,
            le_message = dict_get d ''message'' (JStr []),
            le_server_name = dict_get d ''serverName'' JNull,
            le_job_id = dict_get d ''jobId'' JNull,
            le_execution_id = dict_get d ''executionId'' JNull,
            le_category = dict_get d ''category'' JNull,
            le_correlation_id = dict_get d ''correlationId'' JNull,
            le_exception = dict_get d ''exception'' JNull,
            le_properties = dict_get d ''properties'' JNull,
            le_created_at = created\<rparr>)))"
| "LogEntry_from_dict parse_date utcnow v = Inl AttributeError"

record 'dt Server =
  sv_server_name :: jval
  sv_display_name :: jval
  sv_status :: ServerStatus
  sv_agent_version :: jval
  sv_last_heartbeat :: "'dt option"
  sv_is_active :: jval
  sv_ip_address :: jval
  sv_os_info :: jval

fun Server_from_dict :: "(jval \<Rightarrow> 'dt option) \<Rightarrow> 'dt \<Rightarrow> jval \<Rightarrow> exn + 'dt Server" where
  "Server_from_dict parse_date utcnow (JObj d) =
     try_then (ServerStatus_call (dict_get d ''status'' (JStr ''Unknown''))) (\<lambda>st.
     try_then (parse_if_present parse_date d ''lastHeartbeat'') (\<lambda>hb.
       Inr \<lparr>sv_server_name = dict_get d ''serverName'' (JStr []),
            sv_display_name = dict_get d ''displayName'' JNull,
            sv_status = st,
            sv_agent_version = dict_get d ''agentVersion'' JNull,
            sv_last_heartbeat = hb,
            sv_is_active = dict_get d ''isActive'' (JBool True),
            sv_ip_address = dict_get d ''ipAddress'' JNull,
            sv_os_info = dict_get d ''osInfo'' JNull\<rparr>))"
| "Server_from_dict parse_date utcnow v = Inl AttributeError"

record 'dt Job =
  jb_job_id :: jval
  jb_display_name :: jval
  jb_server_name :: jval
  jb_description :: jval
  jb_schedule :: jval
  jb_priority :: JobPriority
  jb_is_active :: jval
  jb_timeout_minutes :: jval
  jb_last_execution_at :: "'dt option"
  jb_last_execution_status :: "ExecutionStatus option"
  jb_tags :: jval

text \<open>
  \<open>ExecutionStatus(data["lastExecutionStatus"]) if data.get("lastExecutionStatus") else None\<close>.
\<close>

definition last_execution_status_arg :: "(string \<times> jval) list \<Rightarrow> exn + ExecutionStatus option" where
  "last_execution_status_arg d =
     (if truthy (dict_get d ''lastExecutionStatus'' JNull) then
        try_then (dict_item d ''lastExecutionStatus'') (\<lambda>v.
        try_then (ExecutionStatus_call v) (\<lambda>st. Inr (Some st)))
      else Inr None)"

fun Job_from_dict :: "(jval \<Rightarrow> 'dt option) \<Rightarrow> 'dt \<Rightarrow> jval \<Rightarrow> exn + 'dt Job" where
  "Job_from_dict parse_date utcnow (JObj d) =
     try_then (JobPriority_call (dict_get d ''priority'' (JStr ''Normal''))) (\<lambda>prio.
     try_then (parse_if_present parse_date d ''lastExecutionAt'') (\<lambda>last_at.
     try_then (last_execution_status_arg d) (\<lambda>last_status.
       Inr \<lparr>jb_job_id = dict_get d ''jobId'' (JStr []),
            jb_display_name = dict_get d ''displayName'' (JStr []),
            jb_server_name = dict_get d ''serverName'' (JStr []),
            jb_description = dict_get d ''description'' JNull,
            jb_schedule = dict_get d ''schedule'' JNull,
            jb_priority = prio,
            jb_is_active = dict_get d ''isActive'' (JBool True),
            jb_timeout_minutes = dict_get d ''timeoutMinutes'' JNull,
            jb_last_execution_at = last_at,
            jb_last_execution_status = last_status,
            jb_tags = dict_get d ''tags'' (JList [])\<rparr>)))"
| "Job_from_dict parse_date utcnow v = Inl AttributeError"

record 'dt Execution =
  ex_id :: jval
  ex_job_id :: jval
  ex_server_name :: jval
  ex_status :: ExecutionStatus
  ex_started_at :: "'dt option"
  ex_completed_at :: "'dt option"
  ex_duration_ms :: jval
  ex_trigger_type :: TriggerType
  ex_triggered_by :: jval
  ex_error_message :: jval
  ex_output_message :: jval
  ex_parameters :: jval

fun Execution_from_dict :: "(jval \<Rightarrow> 'dt option) \<Rightarrow> 'dt \<Rightarrow> jval \<Rightarrow> exn + 'dt Execution" where
  "Execution_from_dict parse_date utcnow (JObj d) =
     try_then (ExecutionStatus_call (dict_get d ''status'' (JStr ''Pending''))) (\<lambda>st.
     try_then (parse_if_present parse_date d ''startedAt'') (\<lambda>started.
     try_then (parse_if_present parse_date d ''completedAt'') (\<lambda>completed.
     try_then (TriggerType_call (dict_get d ''triggerType'' (JStr ''Manual''))) (\<lambda>trig.
       Inr \<lparr>ex_id = dict_get d ''id'' (JStr []),
            ex_job_id = dict_get d ''jobId'' (JStr []),
            ex_server_name = dict_get d ''serverName'' (JStr []),
            ex_status = st,
            ex_started_at = started,
            ex_completed_at = completed,
            ex_duration_ms = dict_get d ''durationMs'' JNull,
            ex_trigger_type = trig,
            ex_triggered_by = dict_get d ''triggeredBy'' JNull,
            ex_error_message = dict_get d ''errorMessage'' JNull,
            ex_output_message = dict_get d ''outputMessage'' JNull,
            ex_parameters = dict_get d ''parameters'' JNull\<rparr>))))"
| "Execution_from_dict parse_date utcnow v = Inl AttributeError"

record Alert =
  al_id :: jval
  al_name :: jval
  al_alert_type :: AlertType
  al_severity :: AlertSeverity
  al_is_active :: jval
  al_description :: jval
  al_condition :: jval

fun Alert_from_dict :: "jval \<Rightarrow> exn + Alert" where
  "Alert_from_dict (JObj d) =
     try_then (AlertType_call (dict_get d ''alertType'' (JStr ''Custom''))) (\<lambda>ty.
     try_then (AlertSeverity_call (dict_get d ''severity'' (JStr ''Warning''))) (\<lambda>sev.
       Inr \<lparr>al_id = dict_get d ''id'' (JStr []),
            al_name = dict_get d ''name'' (JStr []),
            al_alert_type = ty,
            al_severity = sev,
            al_is_active = dict_get d ''isActive'' (JBool True),
            al_description = dict_get d ''description'' JNull,
            al_condition = dict_get d ''condition'' JNull\<rparr>))"
| "Alert_from_dict v = Inl AttributeError"

record 'dt AlertInstance =
  ai_id :: jval
  ai_alert_id :: jval
  ai_alert_name :: jval
  ai_severity :: AlertSeverity
  ai_triggered_at :: 'dt
  ai_acknowledged_at :: "'dt option"
  ai_resolved_at :: "'dt option"
  ai_acknowledged_by :: jval
  ai_resolved_by :: jval
  ai_message :: jval

fun AlertInstance_from_dict ::
  "(jval \<Rightarrow> 'dt option) \<Rightarrow> 'dt \<Rightarrow> jval \<Rightarrow> exn + 'dt AlertInstance" where
  "AlertInstance_from_dict parse_date utcnow (JObj d) =
     try_then (AlertSeverity_call (dict_get d ''severity'' (JStr ''Warning''))) (\<lambda>sev.
     try_then (parse_or_now parse_date utcnow d ''triggeredAt'') (\<lambda>trig.
     try_then (parse_if_present parse_date d ''acknowledgedAt'') (\<lambda>ack.
     try_then (parse_if_present parse_date d ''resolvedAt'') (\<lambda>res.
       Inr \<lparr>ai_id = dict_get d ''id'' (JStr []),
            ai_alert_id = dict_get d ''alertId'' (JStr []),
            ai_alert_name = dict_get d ''alertName'' (JStr []),
            ai_severity = sev,
            ai_triggered_at = trig,
            ai_acknowledged_at = ack,
            ai_resolved_at = res,
            ai_acknowledged_by = dict_get d ''acknowledgedBy'' JNull,
            ai_resolved_by = dict_get d ''resolvedBy'' JNull,
            ai_message = dict_get d ''message'' JNull\<rparr>))))"
| "AlertInstance_from_dict parse_date utcnow v = Inl AttributeError"

text \<open>
  \<open>for item in v\<close>: a list gives its elements, a dict its keys, a string its characters;
  \<open>None\<close>, booleans and integers are not iterable.
\<close>

fun py_iter :: "jval \<Rightarrow> exn + jval list" where
  "py_iter (JList xs) = Inr xs"
| "py_iter (JObj d) = Inr (map (\<lambda>kv. JStr (fst kv)) d)"
| "py_iter (JStr s) = Inr (map (\<lambda>c. JStr [c]) s)"
| "py_iter JNull = Inl TypeError"
| "py_iter (JBool b) = Inl TypeError"
| "py_iter (JInt i) = Inl TypeError"

text \<open>
  The list comprehension \<open>[f(item) for item in xs]\<close>: the elements are converted from left to
  right and the first exception ends the comprehension.
\<close>

fun comprehension :: "('a \<Rightarrow> exn + 'b) \<Rightarrow> 'a list \<Rightarrow> exn + 'b list" where
  "comprehension f [] = Inr []"
| "comprehension f (x # xs) =
     try_then (f x) (\<lambda>y. try_then (comprehension f xs) (\<lambda>ys. Inr (y # ys)))"

record 'a PagedResult =
  items :: "'a list"
  page :: jval
  page_size :: jval
  total_count :: jval
  total_pages :: jval

text \<open>\<open>item_class\<close> is given by its \<open>from_dict\<close> factory, the only attribute used.\<close>

fun PagedResult_from_dict :: "jval \<Rightarrow> (jval \<Rightarrow> exn + 'a) \<Rightarrow> exn + 'a PagedResult" where
  "PagedResult_from_dict (JObj d) item_class =
     try_then (py_iter (dict_get d ''items'' (JList []))) (\<lambda>xs.
     try_then (comprehension item_class xs) (\<lambda>ys.
       Inr \<lparr>items = ys,
            page = dict_get d ''page'' (JInt 1),
            page_size = dict_get d ''pageSize'' (JInt 20),
            total_count = dict_get d ''totalCount'' (JInt 0),
            total_pages = dict_get d ''totalPages'' (JInt 0)\<rparr>))"
| "PagedResult_from_dict v item_class = Inl AttributeError"

section \<open>Resource sub-clients (client.py): the operations with an enumeration argument\<close>

text \<open>
  An argument typed \<open>Union[E, str]\<close> is a member of \<open>E\<close> or a raw string. Every enumeration
  derives from \<open>str\<close>, so \<open>isinstance(x, str)\<close> holds for both and \<open>x = E(x)\<close> runs for both:
  on a member \<open>E(x)\<close> is the member itself, on a raw string it is the lookup by raw value.
\<close>

datatype 'e enum_arg = Member 'e | Raw string

definition enum_coerce :: "('e \<Rightarrow> string) \<Rightarrow> 'e list \<Rightarrow> 'e enum_arg \<Rightarrow> exn + 'e" where
  "enum_coerce val members x =
     (case x of Member m \<Rightarrow> Inr m | Raw s \<Rightarrow> enum_call val members (JStr s))"

text \<open>Optional arguments as they appear in a request body or parameter dict.\<close>

definition opt_str :: "string option \<Rightarrow> jval" where
  "opt_str x = (case x of None \<Rightarrow> JNull | Some s \<Rightarrow> JStr s)"

definition opt_int :: "int option \<Rightarrow> jval" where
  "opt_int x = (case x of None \<Rightarrow> JNull | Some i \<Rightarrow> JInt i)"

definition opt_dict :: "(string \<times> jval) list option \<Rightarrow> jval" where
  "opt_dict x = (case x of None \<Rightarrow> JNull | Some d \<Rightarrow> JObj d)"

definition opt_str_list :: "string list option \<Rightarrow> jval" where
  "opt_str_list x = (case x of None \<Rightarrow> JNull | Some xs \<Rightarrow> JList (map JStr xs))"

text \<open>
  Each operation returns its outcome and the requests handed to the session. An exception
  raised before \<open>_request\<close> is called leaves the list of requests empty.
\<close>

definition LogClient_create ::
  "'dt env \<Rightarrow> 'dt FMSClient \<Rightarrow> string \<Rightarrow> LogLevel enum_arg \<Rightarrow> string option \<Rightarrow> string option
     \<Rightarrow> string option \<Rightarrow> string option \<Rightarrow> string option \<Rightarrow> (string \<times> jval) list option
     \<Rightarrow> (exn + 'dt LogEntry) \<times> http_request list" where
  "LogClient_create env client message level job_id execution_id category correlation_id
       exception properties =
     (case enum_coerce LogLevel_value LogLevel_members level of
        Inl e \<Rightarrow> (Inl e, [])
      | Inr lvl \<Rightarrow>
          (let data = JObj
                 [(''timestamp'', JStr (datetime_isoformat env (datetime_utcnow env) @ ''Z'')),
                  (''level'', JStr (LogLevel_value lvl)),
                  (''message'', JStr message),
                  (''serverName'', JStr (server_name client)),
                  (''jobId'', opt_str job_id),
                  (''executionId'', opt_str execution_id),
                  (''category'', opt_str category),
                  (''correlationId'', opt_str correlation_id),
                  (''exception'', opt_str exception),
                  (''properties'', opt_dict properties)];
               (response, sent) = FMSClient_request env client ''POST'' ''logs'' None data
           in (try_then response (LogEntry_from_dict (dateutil_parse env) (datetime_utcnow env)),
               sent)))"

definition LogClient_search ::
  "'dt env \<Rightarrow> 'dt FMSClient \<Rightarrow> string option \<Rightarrow> string option \<Rightarrow> LogLevel enum_arg option
     \<Rightarrow> 'dt option \<Rightarrow> 'dt option \<Rightarrow> int \<Rightarrow> int
     \<Rightarrow> (exn + 'dt LogEntry PagedResult) \<times> http_request list" where
  "LogClient_search env client server_name' job_id level start_date end_date page' page_size' =
     (let params =
            [(''serverName'', opt_str server_name'),
             (''jobId'', opt_str job_id),
             (''level'', (case level of
                            Some (Member m) \<Rightarrow> JStr (LogLevel_value m)
                          | Some (Raw s) \<Rightarrow> JStr s
                          | None \<Rightarrow> JNull)),
             (''startDate'', (case start_date of
                                Some t \<Rightarrow> JStr (datetime_isoformat env t) | None \<Rightarrow> JNull)),
             (''endDate'', (case end_date of
                              Some t \<Rightarrow> JStr (datetime_isoformat env t) | None \<Rightarrow> JNull)),
             (''page'', JInt page'),
             (''pageSize'', JInt page_size')];
          (response, sent) =
              FMSClient_request env client ''GET'' ''logs/search'' (Some params) JNull
      in (try_then response (\<lambda>r.
            PagedResult_from_dict r
              (LogEntry_from_dict (dateutil_parse env) (datetime_utcnow env))),
          sent))"

definition ServerClient_heartbeat ::
  "'dt env \<Rightarrow> 'dt FMSClient \<Rightarrow> ServerStatus enum_arg \<Rightarrow> string \<Rightarrow> (string \<times> jval) list option
     \<Rightarrow> (exn + unit) \<times> http_request list" where
  "ServerClient_heartbeat env client status agent_version system_info =
     (case enum_coerce ServerStatus_value ServerStatus_members status of
        Inl e \<Rightarrow> (Inl e, [])
      | Inr st \<Rightarrow>
          (let data = JObj
                 [(''serverName'', JStr (server_name client)),
                  (''status'', JStr (ServerStatus_value st)),
                  (''agentVersion'', JStr agent_version),
                  (''systemInfo'', opt_dict system_info)];
               (response, sent) =
                 FMSClient_request env client ''POST'' ''servers/heartbeat'' None data
           in (try_then response (\<lambda>r. Inr ()), sent)))"

definition JobClient_register ::
  "'dt env \<Rightarrow> 'dt FMSClient \<Rightarrow> string \<Rightarrow> string \<Rightarrow> string option \<Rightarrow> string option
     \<Rightarrow> JobPriority enum_arg \<Rightarrow> int option \<Rightarrow> string list option
     \<Rightarrow> (exn + 'dt Job) \<times> http_request list" where
  "JobClient_register env client job_id display_name description schedule priority
       timeout_minutes tags =
     (case enum_coerce JobPriority_value JobPriority_members priority of
        Inl e \<Rightarrow> (Inl e, [])
      | Inr prio \<Rightarrow>
          (let data = JObj
                 [(''jobId'', JStr job_id),
                  (''displayName'', JStr display_name),
                  (''description'', opt_str description),
                  (''serverName'', JStr (server_name client)),
                  (''schedule'', opt_str schedule),
                  (''priority'', JStr (JobPriority_value prio)),
                  (''timeoutMinutes'', opt_int timeout_minutes),
                  (''tags'', opt_str_list tags)];
               (response, sent) = FMSClient_request env client ''POST'' ''jobs/register'' None data
           in (try_then response (Job_from_dict (dateutil_parse env) (datetime_utcnow env)),
               sent)))"

text \<open>\<open>triggered_by or os.getenv("USER", "unknown")\<close>.\<close>

definition triggered_by_arg :: "'dt env \<Rightarrow> string option \<Rightarrow> string" where
  "triggered_by_arg env triggered_by =
     (let user = (case getenv_USER env of None \<Rightarrow> ''unknown'' | Some u \<Rightarrow> u)
      in case triggered_by of
           None \<Rightarrow> user
         | Some t \<Rightarrow> if t \<noteq> [] then t else user)"

definition ExecutionClient_start ::
  "'dt env \<Rightarrow> 'dt FMSClient \<Rightarrow> string \<Rightarrow> TriggerType enum_arg \<Rightarrow> string option
     \<Rightarrow> (string \<times> jval) list option \<Rightarrow> (exn + 'dt Execution) \<times> http_request list" where
  "ExecutionClient_start env client job_id trigger_type triggered_by parameters =
     (case enum_coerce TriggerType_value TriggerType_members trigger_type of
        Inl e \<Rightarrow> (Inl e, [])
      | Inr trig \<Rightarrow>
          (let data = JObj
                 [(''jobId'', JStr job_id),
                  (''serverName'', JStr (server_name client)),
                  (''triggerType'', JStr (TriggerType_value trig)),
                  (''triggeredBy'', JStr (triggered_by_arg env triggered_by)),
                  (''parameters'', opt_dict parameters)];
               (response, sent) = FMSClient_request env client ''POST'' ''executions'' None data
           in (try_then response
                 (Execution_from_dict (dateutil_parse env) (datetime_utcnow env)),
               sent)))"

definition ExecutionClient_complete ::
  "'dt env \<Rightarrow> 'dt FMSClient \<Rightarrow> string \<Rightarrow> ExecutionStatus enum_arg \<Rightarrow> string option
     \<Rightarrow> string option \<Rightarrow> (exn + 'dt Execution) \<times> http_request list" where
  "ExecutionClient_complete env client execution_id status output_message error_message =
     (case enum_coerce ExecutionStatus_value ExecutionStatus_members status of
        Inl e \<Rightarrow> (Inl e, [])
      | Inr st \<Rightarrow>
          (let data = JObj
                 [(''status'', JStr (ExecutionStatus_value st)),
                  (''outputMessage'', opt_str output_message),
                  (''errorMessage'', opt_str error_message)];
               (response, sent) =
                 FMSClient_request env client ''PUT''
                   (''executions/'' @ execution_id @ ''/complete'') None data
           in (try_then response
                 (Execution_from_dict (dateutil_parse env) (datetime_utcnow env)),
               sent)))"

section \<open>Vocabulary of the statements about response handling\<close>

text \<open>
  The message the specification asks for: the \<open>detail\<close> field of the payload when the payload
  has one, the generic per-status message otherwise. This definition follows the
  specification's words; the theorems compare it with what \<open>_handle_response\<close> computes.
\<close>

definition spec_message :: "jval \<Rightarrow> jval \<Rightarrow> jval" where
  "spec_message data generic =
     (case data of
        JObj d \<Rightarrow> (case map_of d ''detail'' of Some v \<Rightarrow> v | None \<Rightarrow> generic)
      | _ \<Rightarrow> generic)"

text \<open>
  The payloads the error classes are typed for (\<open>Optional[Dict[str, Any]]\<close>), together with
  every payload that \<open>if data\<close> treats like a missing one: a JSON object, or any falsy value.
\<close>

definition dict_or_falsy :: "jval \<Rightarrow> bool" where
  "dict_or_falsy data = (case data of JObj d \<Rightarrow> True | _ \<Rightarrow> \<not> truthy data)"

section \<open>Optional fields of the data classes\<close>

text \<open>
  The JSON keys of the dataclass fields that are declared with a default value (the
  optional fields), per class, in declaration order. The remaining fields of a class are
  its required fields.
\<close>

definition LogEntry_optional_keys :: "string list" where
  "LogEntry_optional_keys =
     [''serverName'', ''jobId'', ''executionId'', ''category'', ''correlationId'',
      ''exception'', ''properties'', ''createdAt'']"

definition Server_optional_keys :: "string list" where
  "Server_optional_keys =
     [''displayName'', ''status'', ''agentVersion'', ''lastHeartbeat'', ''isActive'',
      ''ipAddress'', ''osInfo'']"

definition Job_optional_keys :: "string list" where
  "Job_optional_keys =
     [''description'', ''schedule'', ''priority'', ''isActive'', ''timeoutMinutes'',
      ''lastExecutionAt'', ''lastExecutionStatus'', ''tags'']"

definition Execution_optional_keys :: "string list" where
  "Execution_optional_keys =
     [''status'', ''startedAt'', ''completedAt'', ''durationMs'', ''triggerType'',
      ''triggeredBy'', ''errorMessage'', ''outputMessage'', ''parameters'']"

definition Alert_optional_keys :: "string list" where
  "Alert_optional_keys = [''isActive'', ''description'', ''condition'']"

definition AlertInstance_optional_keys :: "string list" where
  "AlertInstance_optional_keys =
     [''acknowledgedAt'', ''resolvedAt'', ''acknowledgedBy'', ''resolvedBy'', ''message'']"

section \<open>Enumerations: construction from raw strings\<close>

lemma enum_call_valid:
  assumes "m \<in> set ms"
  shows "\<exists>m'. enum_call val ms (JStr (val m)) = Inr m' \<and> val m' = val m"
proof (cases "find (\<lambda>m'. val m' = val m) ms")
  case None
  with assms show ?thesis by (auto simp: find_None_iff)
next
  case (Some m')
  then have "val m' = val m" by (auto simp: find_Some_iff)
  with Some show ?thesis by simp
qed

lemma enum_call_invalid:
  assumes "\<forall>m. val m \<noteq> s"
  shows "enum_call val ms (JStr s) = Inl ValueError"
proof -
  from assms have "find (\<lambda>m. val m = s) ms = None" by (simp add: find_None_iff)
  then show ?thesis by simp
qed

lemma LogLevel_members_all: "m \<in> set LogLevel_members"
  by (cases m) (simp_all add: LogLevel_members_def)

lemma ServerStatus_members_all: "m \<in> set ServerStatus_members"
  by (cases m) (simp_all add: ServerStatus_members_def)

lemma ExecutionStatus_members_all: "m \<in> set ExecutionStatus_members"
  by (cases m) (simp_all add: ExecutionStatus_members_def)

lemma JobPriority_members_all: "m \<in> set JobPriority_members"
  by (cases m) (simp_all add: JobPriority_members_def)

lemma TriggerType_members_all: "m \<in> set TriggerType_members"
  by (cases m) (simp_all add: TriggerType_members_def)

lemma AlertType_members_all: "m \<in> set AlertType_members"
  by (cases m) (simp_all add: AlertType_members_def)

lemma AlertSeverity_members_all: "m \<in> set AlertSeverity_members"
  by (cases m) (simp_all add: AlertSeverity_members_def)

text \<open>
  Claim C5. For each of the seven enumerations: a string that is the raw value of some member
  constructs a member whose raw value is that string again, and a string that is the raw
  value of no member is rejected (the constructor raises \<open>ValueError\<close>).
\<close>

theorem C5_enum_roundtrip:
  "(\<forall>s. ((\<exists>m. LogLevel_value m = s) \<longrightarrow>
          (\<exists>m. LogLevel_call (JStr s) = Inr m \<and> LogLevel_value m = s)) \<and>
        ((\<forall>m. LogLevel_value m \<noteq> s) \<longrightarrow> LogLevel_call (JStr s) = Inl ValueError)) \<and>
   (\<forall>s. ((\<exists>m. ServerStatus_value m = s) \<longrightarrow>
          (\<exists>m. ServerStatus_call (JStr s) = Inr m \<and> ServerStatus_value m = s)) \<and>
        ((\<forall>m. ServerStatus_value m \<noteq> s) \<longrightarrow> ServerStatus_call (JStr s) = Inl ValueError)) \<and>
   (\<forall>s. ((\<exists>m. ExecutionStatus_value m = s) \<longrightarrow>
          (\<exists>m. ExecutionStatus_call (JStr s) = Inr m \<and> ExecutionStatus_value m = s)) \<and>
        ((\<forall>m. ExecutionStatus_value m \<noteq> s) \<longrightarrow>
          ExecutionStatus_call (JStr s) = Inl ValueError)) \<and>
   (\<forall>s. ((\<exists>m. JobPriority_value m = s) \<longrightarrow>
          (\<exists>m. JobPriority_call (JStr s) = Inr m \<and> JobPriority_value m = s)) \<and>
        ((\<forall>m. JobPriority_value m \<noteq> s) \<longrightarrow> JobPriority_call (JStr s) = Inl ValueError)) \<and>
   (\<forall>s. ((\<exists>m. TriggerType_value m = s) \<longrightarrow>
          (\<exists>m. TriggerType_call (JStr s) = Inr m \<and> TriggerType_value m = s)) \<and>
        ((\<forall>m. TriggerType_value m \<noteq> s) \<longrightarrow> TriggerType_call (JStr s) = Inl ValueError)) \<and>
   (\<forall>s. ((\<exists>m. AlertType_value m = s) \<longrightarrow>
          (\<exists>m. AlertType_call (JStr s) = Inr m \<and> AlertType_value m = s)) \<and>
        ((\<forall>m. AlertType_value m \<noteq> s) \<longrightarrow> AlertType_call (JStr s) = Inl ValueError)) \<and>
   (\<forall>s. ((\<exists>m. AlertSeverity_value m = s) \<longrightarrow>
          (\<exists>m. AlertSeverity_call (JStr s) = Inr m \<and> AlertSeverity_value m = s)) \<and>
        ((\<forall>m. AlertSeverity_value m \<noteq> s) \<longrightarrow>
          AlertSeverity_call (JStr s) = Inl ValueError))"
proof (intro conjI allI impI)
  fix s assume "\<exists>m. LogLevel_value m = s"
  then show "\<exists>m. LogLevel_call (JStr s) = Inr m \<and> LogLevel_value m = s"
    unfolding LogLevel_call_def using enum_call_valid [OF LogLevel_members_all] by blast
next
  fix s assume "\<forall>m. LogLevel_value m \<noteq> s"
  then show "LogLevel_call (JStr s) = Inl ValueError"
    unfolding LogLevel_call_def by (rule enum_call_invalid)
next
  fix s assume "\<exists>m. ServerStatus_value m = s"
  then show "\<exists>m. ServerStatus_call (JStr s) = Inr m \<and> ServerStatus_value m = s"
    unfolding ServerStatus_call_def using enum_call_valid [OF ServerStatus_members_all] by blast
next
  fix s assume "\<forall>m. ServerStatus_value m \<noteq> s"
  then show "ServerStatus_call (JStr s) = Inl ValueError"
    unfolding ServerStatus_call_def by (rule enum_call_invalid)
next
  fix s assume "\<exists>m. ExecutionStatus_value m = s"
  then show "\<exists>m. ExecutionStatus_call (JStr s) = Inr m \<and> ExecutionStatus_value m = s"
    unfolding ExecutionStatus_call_def
    using enum_call_valid [OF ExecutionStatus_members_all] by blast
next
  fix s assume "\<forall>m. ExecutionStatus_value m \<noteq> s"
  then show "ExecutionStatus_call (JStr s) = Inl ValueError"
    unfolding ExecutionStatus_call_def by (rule enum_call_invalid)
next
  fix s assume "\<exists>m. JobPriority_value m = s"
  then show "\<exists>m. JobPriority_call (JStr s) = Inr m \<and> JobPriority_value m = s"
    unfolding JobPriority_call_def using enum_call_valid [OF JobPriority_members_all] by blast
next
  fix s assume "\<forall>m. JobPriority_value m \<noteq> s"
  then show "JobPriority_call (JStr s) = Inl ValueError"
    unfolding JobPriority_call_def by (rule enum_call_invalid)
next
  fix s assume "\<exists>m. TriggerType_value m = s"
  then show "\<exists>m. TriggerType_call (JStr s) = Inr m \<and> TriggerType_value m = s"
    unfolding TriggerType_call_def using enum_call_valid [OF TriggerType_members_all] by blast
next
  fix s assume "\<forall>m. TriggerType_value m \<noteq> s"
  then show "TriggerType_call (JStr s) = Inl ValueError"
    unfolding TriggerType_call_def by (rule enum_call_invalid)
next
  fix s assume "\<exists>m. AlertType_value m = s"
  then show "\<exists>m. AlertType_call (JStr s) = Inr m \<and> AlertType_value m = s"
    unfolding AlertType_call_def using enum_call_valid [OF AlertType_members_all] by blast
next
  fix s assume "\<forall>m. AlertType_value m \<noteq> s"
  then show "AlertType_call (JStr s) = Inl ValueError"
    unfolding AlertType_call_def by (rule enum_call_invalid)
next
  fix s assume "\<exists>m. AlertSeverity_value m = s"
  then show "\<exists>m. AlertSeverity_call (JStr s) = Inr m \<and> AlertSeverity_value m = s"
    unfolding AlertSeverity_call_def using enum_call_valid [OF AlertSeverity_members_all] by blast
next
  fix s assume "\<forall>m. AlertSeverity_value m \<noteq> s"
  then show "AlertSeverity_call (JStr s) = Inl ValueError"
    unfolding AlertSeverity_call_def by (rule enum_call_invalid)
qed


theorem C5_enum_roundtrip_witness:
  "LogLevel_call (JStr ''Trace'') = Inr TRACE \<and>
   LogLevel_value TRACE = ''Trace'' \<and>
   LogLevel_call (JStr ''trace'') = Inl ValueError \<and>
   AlertSeverity_call (JStr ''Critical'') = Inr AS_CRITICAL \<and>
   AlertSeverity_call (JStr ''Fatal'') = Inl ValueError"
proof -
  note L = C5_enum_roundtrip [THEN conjunct1]
  note A = C5_enum_roundtrip [THEN conjunct2, THEN conjunct2, THEN conjunct2,
      THEN conjunct2, THEN conjunct2, THEN conjunct2]
  have "\<exists>m. LogLevel_value m = ''Trace''"
    by (rule exI [of _ TRACE]) simp
  with L [THEN spec, of "''Trace''", THEN conjunct1]
  obtain m where m: "LogLevel_call (JStr ''Trace'') = Inr m" "LogLevel_value m = ''Trace''"
    by blast
  from m(2) have "m = TRACE" by (cases m) simp_all
  with m(1) have 1: "LogLevel_call (JStr ''Trace'') = Inr TRACE" by simp
  have "\<forall>m. LogLevel_value m \<noteq> ''trace''"
  proof
    fix m show "LogLevel_value m \<noteq> ''trace''" by (cases m) simp_all
  qed
  with L [THEN spec, of "''trace''", THEN conjunct2]
  have 2: "LogLevel_call (JStr ''trace'') = Inl ValueError" by blast
  have "\<exists>m. AlertSeverity_value m = ''Critical''"
    by (rule exI [of _ AS_CRITICAL]) simp
  with A [THEN spec, of "''Critical''", THEN conjunct1]
  obtain a where a: "AlertSeverity_call (JStr ''Critical'') = Inr a"
      "AlertSeverity_value a = ''Critical''"
    by blast
  from a(2) have "a = AS_CRITICAL" by (cases a) simp_all
  with a(1) have 3: "AlertSeverity_call (JStr ''Critical'') = Inr AS_CRITICAL" by simp
  have "\<forall>m. AlertSeverity_value m \<noteq> ''Fatal''"
  proof
    fix m show "AlertSeverity_value m \<noteq> ''Fatal''" by (cases m) simp_all
  qed
  with A [THEN spec, of "''Fatal''", THEN conjunct2]
  have 4: "AlertSeverity_call (JStr ''Fatal'') = Inl ValueError" by blast
  from 1 2 3 4 show ?thesis by simp
qed

section \<open>Requests: what reaches the session\<close>

lemma filter_params_eq:
  "filter_params params = map_option (filter (\<lambda>kv. snd kv \<noteq> JNull)) params"
  by (cases params) (auto simp: filter_params_def case_prod_unfold)

lemma FMSClient_request_sent:
  "snd (FMSClient_request env self method endpoint params data) =
     [outgoing_request self method endpoint params data]"
  by (simp add: FMSClient_request_def Let_def)

lemma FMSClient_request_outcome:
  "fst (FMSClient_request env self method endpoint params data) =
     (case session_request env (outgoing_request self method endpoint params data) of
        Returns response \<Rightarrow> FMSClient_handle_response response
      | RaisesConnectionError e \<Rightarrow>
          Inl (ConnectionError
                 (JStr (''Failed to connect to '' @ base_url self @ '': '' @ e)) None JNull)
      | RaisesTimeout \<Rightarrow>
          Inl (TimeoutError
                 (JStr (''Request to '' @ (base_url self @ ''/api/'' @ endpoint) @ '' timed out''))
                 None JNull)
      | RaisesRequestException e \<Rightarrow>
          Inl (FMSError (JStr (''Request failed: '' @ e)) None JNull))"
  by (cases "session_request env (outgoing_request self method endpoint params data)")
     (simp_all add: FMSClient_request_def Let_def)

text \<open>
  Claim C9. For every request built by \<open>_request\<close>, the parameter mapping handed to the
  session is the caller's mapping without the entries whose value is \<open>None\<close>: no entry with
  value \<open>None\<close> remains, every entry with a set value is kept unchanged and in order, and the
  outcome of \<open>_request\<close> depends on the session only through this filtered request.
\<close>

theorem C9_unset_params_dropped:
  "\<exists>req. snd (FMSClient_request env self method endpoint params data) = [req] \<and>
         req_params req = map_option (filter (\<lambda>kv. snd kv \<noteq> JNull)) params \<and>
         (\<forall>ps'. req_params req = Some ps' \<longrightarrow>
            (\<forall>k. (k, JNull) \<notin> set ps') \<and>
            (\<forall>ps k v. params = Some ps \<longrightarrow> (k, v) \<in> set ps \<longrightarrow> v \<noteq> JNull \<longrightarrow> (k, v) \<in> set ps')) \<and>
         (\<forall>env'. session_request env' req = session_request env req \<longrightarrow>
            fst (FMSClient_request env' self method endpoint params data) =
            fst (FMSClient_request env self method endpoint params data))"
proof -
  let ?req = "outgoing_request self method endpoint params data"
  have p: "req_params ?req = map_option (filter (\<lambda>kv. snd kv \<noteq> JNull)) params"
    by (simp add: outgoing_request_def filter_params_eq)
  have a: "\<forall>ps'. req_params ?req = Some ps' \<longrightarrow>
            (\<forall>k. (k, JNull) \<notin> set ps') \<and>
            (\<forall>ps k v. params = Some ps \<longrightarrow> (k, v) \<in> set ps \<longrightarrow> v \<noteq> JNull \<longrightarrow> (k, v) \<in> set ps')"
    unfolding p by (cases params) auto
  have b: "\<forall>env'. session_request env' ?req = session_request env ?req \<longrightarrow>
            fst (FMSClient_request env' self method endpoint params data) =
            fst (FMSClient_request env self method endpoint params data)"
    by (simp add: FMSClient_request_outcome)
  from FMSClient_request_sent p a b show ?thesis by blast
qed

theorem C9_unset_params_dropped_witness:
  "snd (FMSClient_request
     \<lparr>session_request = (\<lambda>r. RaisesTimeout), dateutil_parse = (\<lambda>v. None),
      datetime_utcnow = (0::nat), datetime_isoformat = (\<lambda>t. ''2024-01-01T00:00:00''),
      getenv_USER = None\<rparr>
     \<lparr>base_url = ''http://fms'', api_key = Some ''k'', server_name = ''web01'', timeout = 30,
      access_token = None, refresh_token = None, token_expires_at = None\<rparr>
     ''GET'' ''logs/search''
     (Some [(''serverName'', JNull), (''level'', JStr ''Error''), (''jobId'', JNull),
            (''page'', JInt 1)])
     JNull)
   = [\<lparr>req_method = ''GET'', req_url = ''http://fms/api/logs/search'',
       req_headers = [(''Accept'', ''application/json''),
                      (''Content-Type'', ''application/json''), (''X-Api-Key'', ''k'')],
       req_params = Some [(''level'', JStr ''Error''), (''page'', JInt 1)],
       req_json = JNull, req_timeout = 30\<rparr>]"
proof -
  let ?env = "\<lparr>session_request = (\<lambda>r. RaisesTimeout), dateutil_parse = (\<lambda>v. None),
      datetime_utcnow = (0::nat), datetime_isoformat = (\<lambda>t. ''2024-01-01T00:00:00''),
      getenv_USER = None\<rparr>"
  let ?self = "\<lparr>base_url = ''http://fms'', api_key = Some ''k'', server_name = ''web01'',
      timeout = 30, access_token = None, refresh_token = None, token_expires_at =
          None :: nat option\<rparr>"
  let ?ps = "[(''serverName'', JNull), (''level'', JStr ''Error''), (''jobId'', JNull),
            (''page'', JInt 1)]"
  from C9_unset_params_dropped [of ?env ?self "''GET''" "''logs/search''" "Some ?ps" JNull]
  obtain req where
    s: "snd (FMSClient_request ?env ?self ''GET'' ''logs/search'' (Some ?ps) JNull) = [req]"
    and p: "req_params req = map_option (filter (\<lambda>kv. snd kv \<noteq> JNull)) (Some ?ps)"
    by blast
  from p have "req_params req = Some [(''level'', JStr ''Error''), (''page'', JInt 1)]"
    by simp
  with s show ?thesis
    by (simp add: FMSClient_request_def Let_def outgoing_request_def FMSClient_get_headers_def
        filter_params_def)
qed

section \<open>Logout\<close>

lemma FMSClient_logout_no_token:
  assumes "refresh_token self = None \<or> refresh_token self = Some []"
  shows "FMSClient_logout env self =
    (Inr (), self\<lparr>access_token := None, refresh_token := None, token_expires_at := None\<rparr>, [])"
  using assms by (auto simp: FMSClient_logout_def)

lemma FMSClient_logout_cases:
  assumes "refresh_token self = Some tok" and "tok \<noteq> []"
    and "FMSClient_request env self ''POST'' ''auth/logout'' None
           (JObj [(''refreshToken'', JStr tok)]) = (r, sent)"
  shows "FMSClient_logout env self =
    (case r of
       Inr v \<Rightarrow> (Inr (),
         self\<lparr>access_token := None, refresh_token := None, token_expires_at := None\<rparr>, sent)
     | Inl e \<Rightarrow>
         if is_FMSError e
         then (Inr (),
           self\<lparr>access_token := None, refresh_token := None, token_expires_at := None\<rparr>, sent)
         else (Inl e, self, sent))"
  using assms by (cases r) (simp_all add: FMSClient_logout_def)

lemma FMSClient_logout_returns_cleared:
  assumes "FMSClient_logout env self = (Inr u, self', sent)"
  shows "self' = self\<lparr>access_token := None, refresh_token := None, token_expires_at := None\<rparr>"
proof (cases "refresh_token self = None \<or> refresh_token self = Some []")
  case True
  from FMSClient_logout_no_token [OF True, of env] assms show ?thesis by simp
next
  case False
  then obtain tok where tok: "refresh_token self = Some tok" "tok \<noteq> []" by auto
  obtain r s where rs: "FMSClient_request env self ''POST'' ''auth/logout'' None
           (JObj [(''refreshToken'', JStr tok)]) = (r, s)"
    by (cases "FMSClient_request env self ''POST'' ''auth/logout'' None
           (JObj [(''refreshToken'', JStr tok)])")
  from FMSClient_logout_cases [OF tok rs] assms show ?thesis
    by (cases r) (auto split: if_splits)
qed

lemma FMSClient_logout_propagates:
  assumes "FMSClient_logout env self = (Inl e, self', sent)"
  shows "\<not> is_FMSError e \<and> self' = self"
proof (cases "refresh_token self = None \<or> refresh_token self = Some []")
  case True
  from FMSClient_logout_no_token [OF True, of env] assms show ?thesis by simp
next
  case False
  then obtain tok where tok: "refresh_token self = Some tok" "tok \<noteq> []" by auto
  obtain r s where rs: "FMSClient_request env self ''POST'' ''auth/logout'' None
           (JObj [(''refreshToken'', JStr tok)]) = (r, s)"
    by (cases "FMSClient_request env self ''POST'' ''auth/logout'' None
           (JObj [(''refreshToken'', JStr tok)])")
  from FMSClient_logout_cases [OF tok rs] assms show ?thesis
    by (cases r) (auto split: if_splits)
qed

text \<open>
  What \<open>logout\<close> does on every client state. Whenever it returns, the access token, the
  refresh token and the token expiry are \<open>None\<close>. When a refresh token is set, it returns both
  when the remote logout request succeeds and when it raises any error of the FMS taxonomy:
  such an error is swallowed. When no refresh token is set, no request is sent and the state
  is cleared all the same. An exception that \<open>logout\<close> lets through is outside the FMS
  taxonomy.
\<close>

lemma FMSClient_logout_clears_tokens:
  "(\<forall>u self' sent. FMSClient_logout env self = (Inr u, self', sent) \<longrightarrow>
      access_token self' = None \<and> refresh_token self' = None \<and> token_expires_at self' = None) \<and>
   (\<forall>tok r sent.
      refresh_token self = Some tok \<and> tok \<noteq> [] \<and>
      FMSClient_request env self ''POST'' ''auth/logout'' None
        (JObj [(''refreshToken'', JStr tok)]) = (r, sent) \<and>
      ((\<exists>v. r = Inr v) \<or> (\<exists>e. r = Inl e \<and> is_FMSError e)) \<longrightarrow>
      FMSClient_logout env self =
        (Inr (),
         self\<lparr>access_token := None, refresh_token := None, token_expires_at := None\<rparr>, sent)) \<and>
   (refresh_token self = None \<or> refresh_token self = Some [] \<longrightarrow>
      FMSClient_logout env self =
        (Inr (),
         self\<lparr>access_token := None, refresh_token := None, token_expires_at := None\<rparr>, [])) \<and>
   (\<forall>e self' sent. FMSClient_logout env self = (Inl e, self', sent) \<longrightarrow> \<not> is_FMSError e)"
proof (intro conjI allI impI)
  fix u self' sent
  assume "FMSClient_logout env self = (Inr u, self', sent)"
  from FMSClient_logout_returns_cleared [OF this]
  show "access_token self' = None" "refresh_token self' = None" "token_expires_at self' = None"
    by simp_all
next
  fix tok r sent
  assume a: "refresh_token self = Some tok \<and> tok \<noteq> [] \<and>
      FMSClient_request env self ''POST'' ''auth/logout'' None
        (JObj [(''refreshToken'', JStr tok)]) = (r, sent) \<and>
      ((\<exists>v. r = Inr v) \<or> (\<exists>e. r = Inl e \<and> is_FMSError e))"
  then have t: "refresh_token self = Some tok" "tok \<noteq> []"
      "FMSClient_request env self ''POST'' ''auth/logout'' None
        (JObj [(''refreshToken'', JStr tok)]) = (r, sent)"
    by blast+
  have "FMSClient_logout env self =
    (case r of
       Inr v \<Rightarrow> (Inr (),
         self\<lparr>access_token := None, refresh_token := None, token_expires_at := None\<rparr>, sent)
     | Inl e \<Rightarrow>
         if is_FMSError e
         then (Inr (),
           self\<lparr>access_token := None, refresh_token := None, token_expires_at := None\<rparr>, sent)
         else (Inl e, self, sent))"
    by (rule FMSClient_logout_cases [OF t])
  with a show "FMSClient_logout env self =
        (Inr (),
         self\<lparr>access_token := None, refresh_token := None, token_expires_at := None\<rparr>, sent)"
    by auto
next
  assume "refresh_token self = None \<or> refresh_token self = Some []"
  then show "FMSClient_logout env self =
        (Inr (),
         self\<lparr>access_token := None, refresh_token := None, token_expires_at := None\<rparr>, [])"
    by (rule FMSClient_logout_no_token)
next
  fix e self' sent
  assume "FMSClient_logout env self = (Inl e, self', sent)"
  from FMSClient_logout_propagates [OF this] show "\<not> is_FMSError e" by simp
qed

lemma FMSClient_logout_swallows_401:
  \<open>FMSClient_logout
     \<lparr>session_request = (\<lambda>r. Returns \<lparr>status_code = 401, content = ''{"detail": "expired"}'',
          json_decoded = Some (JObj [(''detail'', JStr ''expired'')]), headers = (\<lambda>h. None)\<rparr>),
      dateutil_parse = (\<lambda>v. None), datetime_utcnow = (0::nat),
      datetime_isoformat = (\<lambda>t. ''2024-01-01T00:00:00''), getenv_USER = None\<rparr>
     \<lparr>base_url = ''http://fms'', api_key = None, server_name = ''web01'', timeout = 30,
      access_token = Some ''acc'', refresh_token = Some ''ref'', token_expires_at = Some 7\<rparr>
   = (Inr (),
      \<lparr>base_url = ''http://fms'', api_key = None, server_name = ''web01'', timeout = 30,
       access_token = None, refresh_token = None, token_expires_at = None\<rparr>,
      [\<lparr>req_method = ''POST'', req_url = ''http://fms/api/auth/logout'',
        req_headers = [(''Accept'', ''application/json''),
                       (''Content-Type'', ''application/json''),
                       (''Authorization'', ''Bearer acc'')],
        req_params = None, req_json = JObj [(''refreshToken'', JStr ''ref'')],
        req_timeout = 30\<rparr>])\<close>
proof -
  let ?env = \<open>\<lparr>session_request = (\<lambda>r. Returns \<lparr>status_code = 401,
          content = ''{"detail": "expired"}'',
          json_decoded = Some (JObj [(''detail'', JStr ''expired'')]), headers = (\<lambda>h. None)\<rparr>),
      dateutil_parse = (\<lambda>v. None), datetime_utcnow = (0::nat),
      datetime_isoformat = (\<lambda>t. ''2024-01-01T00:00:00''), getenv_USER = None\<rparr>\<close>
  let ?self = "\<lparr>base_url = ''http://fms'', api_key = None, server_name = ''web01'',
      timeout = 30, access_token = Some ''acc'', refresh_token = Some ''ref'',
      token_expires_at = Some (7::nat)\<rparr>"
  let ?req = "\<lparr>req_method = ''POST'', req_url = ''http://fms/api/auth/logout'',
        req_headers = [(''Accept'', ''application/json''),
                       (''Content-Type'', ''application/json''),
                       (''Authorization'', ''Bearer acc'')],
        req_params = None, req_json = JObj [(''refreshToken'', JStr ''ref'')],
        req_timeout = 30\<rparr>"
  have r: "FMSClient_request ?env ?self ''POST'' ''auth/logout'' None
        (JObj [(''refreshToken'', JStr ''ref'')])
      = (Inl (AuthenticationError (JStr ''expired'') (Some 401)
               (JObj [(''detail'', JStr ''expired'')])), [?req])"
    by (simp add: FMSClient_request_def Let_def outgoing_request_def FMSClient_get_headers_def
        filter_params_def FMSClient_handle_response_def response_data_def detail_or_def
        try_then_def dict_get_def)
  have "FMSClient_logout ?env ?self =
        (Inr (),
         ?self\<lparr>access_token := None, refresh_token := None, token_expires_at := None\<rparr>, [?req])"
    by (rule FMSClient_logout_clears_tokens [THEN conjunct2, THEN conjunct1, rule_format,
          where tok = "''ref''" and r = "Inl (AuthenticationError (JStr ''expired'') (Some 401)
               (JObj [(''detail'', JStr ''expired'')]))"]) (simp add: r)
  then show ?thesis by simp
qed

text \<open>
  Claim C4. The claim asks that a failure of the remote invalidation call never reaches the
  caller of \<open>logout\<close> and that the local tokens are cleared whatever the outcome. The code
  misses this when \<open>_handle_response\<close> raises outside the FMS taxonomy. Here the server answers
  the logout request with status 401 and the JSON array \<open>["Token expired"]\<close> as body:
  \<open>data.get\<close> raises \<open>AttributeError\<close>, which \<open>except FMSError\<close> does not catch, so \<open>logout\<close>
  raises it to its caller and the three assignments never run. The access token, the refresh
  token and the expiry are still in place afterwards.
\<close>

theorem C4_logout_raises_and_keeps_tokens:
  \<open>FMSClient_logout
     \<lparr>session_request = (\<lambda>r. Returns \<lparr>status_code = 401, content = ''["Token expired"]'',
          json_decoded = Some (JList [JStr ''Token expired'']), headers = (\<lambda>h. None)\<rparr>),
      dateutil_parse = (\<lambda>v. None), datetime_utcnow = (0::nat),
      datetime_isoformat = (\<lambda>t. ''2024-01-01T00:00:00''), getenv_USER = None\<rparr>
     \<lparr>base_url = ''http://fms'', api_key = None, server_name = ''web01'', timeout = 30,
      access_token = Some ''acc'', refresh_token = Some ''ref'', token_expires_at = Some 7\<rparr>
   = (Inl AttributeError,
      \<lparr>base_url = ''http://fms'', api_key = None, server_name = ''web01'', timeout = 30,
       access_token = Some ''acc'', refresh_token = Some ''ref'', token_expires_at = Some 7\<rparr>,
      [\<lparr>req_method = ''POST'', req_url = ''http://fms/api/auth/logout'',
        req_headers = [(''Accept'', ''application/json''),
                       (''Content-Type'', ''application/json''),
                       (''Authorization'', ''Bearer acc'')],
        req_params = None, req_json = JObj [(''refreshToken'', JStr ''ref'')],
        req_timeout = 30\<rparr>])\<close>
  by (simp add: FMSClient_logout_def FMSClient_request_def Let_def outgoing_request_def
      FMSClient_get_headers_def filter_params_def FMSClient_handle_response_def
      response_data_def detail_or_def try_then_def)

section \<open>Response handling: the status dispatch\<close>

lemma detail_or_spec_message:
  assumes "dict_or_falsy data"
  shows "detail_or data generic = Inr (spec_message data generic)"
  using assms
  by (cases data)
     (auto simp: detail_or_def spec_message_def dict_or_falsy_def dict_get_def
           split: option.splits)

lemma errors_arg_defined:
  assumes "dict_or_falsy data"
  shows "\<exists>errors. (if truthy data then py_get data ''errors'' JNull else Inr JNull) = Inr errors"
  using assms by (cases data) (auto simp: dict_or_falsy_def)

text \<open>
  \<open>int\<close> on header text: the separators 28 to 31 are not skipped, the Latin-1 white space
  above the ASCII range is, digits may be grouped, and a literal of more than 4300 digits is
  refused.
\<close>

lemma py_int_separator_before: "py_int (CHR 0x1C # ''30'') = Inl ValueError"
  by (simp add: py_int_def int_strip_def int_space_def parse_unsigned_def is_digit_def)

lemma py_int_separator_after: "py_int (''30'' @ [CHR 0x1F]) = Inl ValueError"
  by (simp add: py_int_def int_strip_def int_space_def parse_unsigned_def is_digit_def
      digit_val_def int_max_str_digits_def)

lemma py_int_latin1_space: "py_int (CHR 0x85 # ''30'' @ [CHR 0xA0]) = Inr 30"
  by (simp add: py_int_def int_strip_def int_space_def parse_unsigned_def is_digit_def
      digit_val_def int_max_str_digits_def)

lemma py_int_grouped: "py_int '' +1_000 '' = Inr 1000"
  by (simp add: py_int_def int_strip_def int_space_def parse_unsigned_def is_digit_def
      digit_val_def int_max_str_digits_def)

lemma int_strip_digits:
  assumes "is_digit c"
  shows "int_strip (replicate n c) = replicate n c"
proof -
  from assms have "\<not> int_space c"
    by (auto simp: is_digit_def int_space_def)
  then show ?thesis
    by (simp add: int_strip_def dropWhile_replicate)
qed

lemma py_int_too_many_digits:
  assumes "is_digit c" and "n > int_max_str_digits"
  shows "py_int (replicate n c) = Inl ValueError"
proof -
  from assms(2) obtain k where n: "n = Suc k" by (cases n) simp_all
  from assms(1) have s: "c \<noteq> CHR ''-''" "c \<noteq> CHR ''+''"
    by (auto simp: is_digit_def)
  have "length (filter is_digit (replicate n c)) = n"
    using assms(1) by simp
  with assms(2) have "parse_unsigned (replicate n c) = None"
    unfolding n by (simp add: parse_unsigned_def)
  then show ?thesis
    using s unfolding py_int_def int_strip_digits [OF assms(1)] n by simp
qed

lemma py_int_4301_nines: "py_int (replicate 4301 (CHR ''9'')) = Inl ValueError"
  by (rule py_int_too_many_digits) (simp_all add: is_digit_def int_max_str_digits_def)

lemma py_int_nonempty: "py_int h = Inr n \<Longrightarrow> h \<noteq> []"
  by (auto simp: py_int_def int_strip_def)

lemma retry_after_arg_absent: "retry_after_arg None = Inr None"
  by (simp add: retry_after_arg_def)

lemma retry_after_arg_empty: "retry_after_arg (Some []) = Inr None"
  by (simp add: retry_after_arg_def)

lemma retry_after_arg_int:
  assumes "py_int h = Inr n"
  shows "retry_after_arg (Some h) = Inr (Some n)"
  using assms py_int_nonempty [OF assms] by (simp add: retry_after_arg_def try_then_def)

lemma handle_response_ok:
  assumes "status_code response = 200 \<or> status_code response = 201"
  shows "FMSClient_handle_response response = Inr (response_data response)"
  using assms by (auto simp: FMSClient_handle_response_def Let_def)

lemma handle_response_no_content:
  assumes "status_code response = 204"
  shows "FMSClient_handle_response response = Inr JNull"
  using assms by (simp add: FMSClient_handle_response_def Let_def)

lemma handle_response_400:
  assumes "status_code response = 400" and "dict_or_falsy (response_data response)"
  shows "\<exists>errors. FMSClient_handle_response response =
    Inl (ValidationError (spec_message (response_data response) (JStr ''Validation failed''))
           (Some 400) (response_data response) errors)"
proof -
  from errors_arg_defined [OF assms(2)] obtain errors where
    e: "(if truthy (response_data response)
         then py_get (response_data response) ''errors'' JNull else Inr JNull) = Inr errors"
    by blast
  have "FMSClient_handle_response response =
    Inl (ValidationError (spec_message (response_data response) (JStr ''Validation failed''))
           (Some 400) (response_data response) (if truthy errors then errors else JObj []))"
    unfolding FMSClient_handle_response_def Let_def
    using assms(1) by (simp add: e detail_or_spec_message [OF assms(2)] try_then_def)
  then show ?thesis by blast
qed

lemma handle_response_401:
  assumes "status_code response = 401" and "dict_or_falsy (response_data response)"
  shows "FMSClient_handle_response response =
    Inl (AuthenticationError
           (spec_message (response_data response) (JStr ''Authentication failed''))
           (Some 401) (response_data response))"
  unfolding FMSClient_handle_response_def Let_def
  using assms(1) by (simp add: detail_or_spec_message [OF assms(2)] try_then_def)

lemma handle_response_403:
  assumes "status_code response = 403" and "dict_or_falsy (response_data response)"
  shows "FMSClient_handle_response response =
    Inl (AuthorizationError (spec_message (response_data response) (JStr ''Access denied''))
           (Some 403) (response_data response))"
  unfolding FMSClient_handle_response_def Let_def
  using assms(1) by (simp add: detail_or_spec_message [OF assms(2)] try_then_def)

lemma handle_response_404:
  assumes "status_code response = 404" and "dict_or_falsy (response_data response)"
  shows "FMSClient_handle_response response =
    Inl (NotFoundError (spec_message (response_data response) (JStr ''Resource not found''))
           (Some 404) (response_data response))"
  unfolding FMSClient_handle_response_def Let_def
  using assms(1) by (simp add: detail_or_spec_message [OF assms(2)] try_then_def)

lemma handle_response_409:
  assumes "status_code response = 409" and "dict_or_falsy (response_data response)"
  shows "FMSClient_handle_response response =
    Inl (ConflictError (spec_message (response_data response) (JStr ''Resource conflict''))
           (Some 409) (response_data response))"
  unfolding FMSClient_handle_response_def Let_def
  using assms(1) by (simp add: detail_or_spec_message [OF assms(2)] try_then_def)

lemma handle_response_429:
  assumes "status_code response = 429" and "dict_or_falsy (response_data response)"
    and "retry_after_arg (headers response ''Retry-After'') = Inr ra"
  shows "FMSClient_handle_response response =
    Inl (RateLimitError (spec_message (response_data response) (JStr ''Rate limit exceeded''))
           (Some 429) (response_data response) ra)"
  unfolding FMSClient_handle_response_def Let_def
  using assms(1) by (simp add: detail_or_spec_message [OF assms(2)] assms(3) try_then_def)

lemma handle_response_5xx:
  assumes "status_code response \<ge> 500" and "dict_or_falsy (response_data response)"
  shows "FMSClient_handle_response response =
    Inl (ServerError (spec_message (response_data response) (JStr ''Server error''))
           (Some (status_code response)) (response_data response))"
  unfolding FMSClient_handle_response_def Let_def
  using assms(1) by (simp add: detail_or_spec_message [OF assms(2)] try_then_def)

lemma handle_response_other:
  assumes "status_code response < 500"
    and "status_code response \<notin> {200, 201, 204, 400, 401, 403, 404, 409, 429}"
    and "dict_or_falsy (response_data response)"
  shows "FMSClient_handle_response response =
    Inl (FMSError
           (spec_message (response_data response)
              (JStr (''HTTP '' @ str_int (status_code response))))
           (Some (status_code response)) (response_data response))"
  unfolding FMSClient_handle_response_def Let_def
  using assms(1,2) by (simp add: detail_or_spec_message [OF assms(3)] try_then_def)

text \<open>
  The dispatch on payloads the handler is written for. \<open>_handle_response\<close> returns the
  decoded payload on status 200 or 201 and no payload on status 204, whatever the body. For
  every other status code, and every response whose decoded payload is a JSON object or is
  falsy (missing, unparsable, null, empty), it raises the error kind keyed to the status
  (400 ValidationError, 401 AuthenticationError, 403 AuthorizationError, 404 NotFoundError,
  409 ConflictError, 429 RateLimitError provided the Retry-After header is absent, empty or
  an integer literal, 500 and above ServerError, anything else the base FMSError), carrying
  the status code, the payload, and as message the payload's \<open>detail\<close> field when present and
  the generic per-status message otherwise.
\<close>

lemma handle_response_dispatch:
  "(status_code response = 200 \<or> status_code response = 201 \<longrightarrow>
      FMSClient_handle_response response = Inr (response_data response)) \<and>
   (status_code response = 204 \<longrightarrow> FMSClient_handle_response response = Inr JNull) \<and>
   (dict_or_falsy (response_data response) \<longrightarrow>
      (status_code response = 400 \<longrightarrow>
         (\<exists>errors. FMSClient_handle_response response =
            Inl (ValidationError
                   (spec_message (response_data response) (JStr ''Validation failed''))
                   (Some 400) (response_data response) errors))) \<and>
      (status_code response = 401 \<longrightarrow>
         FMSClient_handle_response response =
           Inl (AuthenticationError
                  (spec_message (response_data response) (JStr ''Authentication failed''))
                  (Some 401) (response_data response))) \<and>
      (status_code response = 403 \<longrightarrow>
         FMSClient_handle_response response =
           Inl (AuthorizationError
                  (spec_message (response_data response) (JStr ''Access denied''))
                  (Some 403) (response_data response))) \<and>
      (status_code response = 404 \<longrightarrow>
         FMSClient_handle_response response =
           Inl (NotFoundError
                  (spec_message (response_data response) (JStr ''Resource not found''))
                  (Some 404) (response_data response))) \<and>
      (status_code response = 409 \<longrightarrow>
         FMSClient_handle_response response =
           Inl (ConflictError
                  (spec_message (response_data response) (JStr ''Resource conflict''))
                  (Some 409) (response_data response))) \<and>
      (status_code response = 429 \<and>
       (headers response ''Retry-After'' = None \<or>
        headers response ''Retry-After'' = Some [] \<or>
        (\<exists>h n. headers response ''Retry-After'' = Some h \<and> py_int h = Inr n)) \<longrightarrow>
         (\<exists>ra. FMSClient_handle_response response =
            Inl (RateLimitError
                   (spec_message (response_data response) (JStr ''Rate limit exceeded''))
                   (Some 429) (response_data response) ra))) \<and>
      (status_code response \<ge> 500 \<longrightarrow>
         FMSClient_handle_response response =
           Inl (ServerError
                  (spec_message (response_data response) (JStr ''Server error''))
                  (Some (status_code response)) (response_data response))) \<and>
      (status_code response < 500 \<and>
       status_code response \<notin> {200, 201, 204, 400, 401, 403, 404, 409, 429} \<longrightarrow>
         FMSClient_handle_response response =
           Inl (FMSError
                  (spec_message (response_data response)
                     (JStr (''HTTP '' @ str_int (status_code response))))
                  (Some (status_code response)) (response_data response))))"
proof (intro conjI impI)
  assume "status_code response = 200 \<or> status_code response = 201"
  then show "FMSClient_handle_response response = Inr (response_data response)"
    by (rule handle_response_ok)
next
  assume "status_code response = 204"
  then show "FMSClient_handle_response response = Inr JNull"
    by (rule handle_response_no_content)
next
  assume "dict_or_falsy (response_data response)" "status_code response = 400"
  then show "\<exists>errors. FMSClient_handle_response response =
            Inl (ValidationError
                   (spec_message (response_data response) (JStr ''Validation failed''))
                   (Some 400) (response_data response) errors)"
    by (intro handle_response_400)
next
  assume "dict_or_falsy (response_data response)" "status_code response = 401"
  then show "FMSClient_handle_response response =
           Inl (AuthenticationError
                  (spec_message (response_data response) (JStr ''Authentication failed''))
                  (Some 401) (response_data response))"
    by (intro handle_response_401)
next
  assume "dict_or_falsy (response_data response)" "status_code response = 403"
  then show "FMSClient_handle_response response =
           Inl (AuthorizationError
                  (spec_message (response_data response) (JStr ''Access denied''))
                  (Some 403) (response_data response))"
    by (intro handle_response_403)
next
  assume "dict_or_falsy (response_data response)" "status_code response = 404"
  then show "FMSClient_handle_response response =
           Inl (NotFoundError
                  (spec_message (response_data response) (JStr ''Resource not found''))
                  (Some 404) (response_data response))"
    by (intro handle_response_404)
next
  assume "dict_or_falsy (response_data response)" "status_code response = 409"
  then show "FMSClient_handle_response response =
           Inl (ConflictError
                  (spec_message (response_data response) (JStr ''Resource conflict''))
                  (Some 409) (response_data response))"
    by (intro handle_response_409)
next
  assume d: "dict_or_falsy (response_data response)"
    and a: "status_code response = 429 \<and>
       (headers response ''Retry-After'' = None \<or>
        headers response ''Retry-After'' = Some [] \<or>
        (\<exists>h n. headers response ''Retry-After'' = Some h \<and> py_int h = Inr n))"
  then have "\<exists>ra. retry_after_arg (headers response ''Retry-After'') = Inr ra"
    by (auto simp: retry_after_arg_absent retry_after_arg_empty retry_after_arg_int)
  then obtain ra where "retry_after_arg (headers response ''Retry-After'') = Inr ra" ..
  with d a have "FMSClient_handle_response response =
            Inl (RateLimitError
                   (spec_message (response_data response) (JStr ''Rate limit exceeded''))
                   (Some 429) (response_data response) ra)"
    by (intro handle_response_429) simp_all
  then show "\<exists>ra. FMSClient_handle_response response =
            Inl (RateLimitError
                   (spec_message (response_data response) (JStr ''Rate limit exceeded''))
                   (Some 429) (response_data response) ra)" ..
next
  assume "dict_or_falsy (response_data response)" "status_code response \<ge> 500"
  then show "FMSClient_handle_response response =
           Inl (ServerError
                  (spec_message (response_data response) (JStr ''Server error''))
                  (Some (status_code response)) (response_data response))"
    by (intro handle_response_5xx)
next
  assume d: "dict_or_falsy (response_data response)"
    and a: "status_code response < 500 \<and>
       status_code response \<notin> {200, 201, 204, 400, 401, 403, 404, 409, 429}"
  then show "FMSClient_handle_response response =
           Inl (FMSError
                  (spec_message (response_data response)
                     (JStr (''HTTP '' @ str_int (status_code response))))
                  (Some (status_code response)) (response_data response))"
    by (intro handle_response_other) simp_all
qed

lemma handle_response_job_not_found:
  \<open>FMSClient_handle_response
     \<lparr>status_code = 404, content = ''{"detail": "Job not found"}'',
      json_decoded = Some (JObj [(''detail'', JStr ''Job not found'')]),
      headers = (\<lambda>h. None)\<rparr>
   = Inl (NotFoundError (JStr ''Job not found'') (Some 404)
            (JObj [(''detail'', JStr ''Job not found'')]))\<close>
proof -
  let ?r = \<open>\<lparr>status_code = 404, content = ''{"detail": "Job not found"}'',
      json_decoded = Some (JObj [(''detail'', JStr ''Job not found'')]),
      headers = (\<lambda>h. None)\<rparr>\<close>
  have d: "response_data ?r = JObj [(''detail'', JStr ''Job not found'')]"
    by (simp add: response_data_def)
  note dispatch = handle_response_dispatch [of ?r, THEN conjunct2, THEN conjunct2, THEN mp,
      THEN conjunct2, THEN conjunct2, THEN conjunct2, THEN conjunct1, THEN mp]
  have "dict_or_falsy (response_data ?r)" and "status_code ?r = 404"
    by (simp_all add: d dict_or_falsy_def)
  then have "FMSClient_handle_response ?r =
           Inl (NotFoundError
                  (spec_message (response_data ?r) (JStr ''Resource not found''))
                  (Some 404) (response_data ?r))"
    by (rule dispatch)
  then show ?thesis by (simp add: d spec_message_def)
qed

text \<open>
  Claim C1. The claim asks, for every response whose status is not 200, 201 or 204, for the
  error of the taxonomy keyed to the status, with the generic message when the payload has
  no \<open>detail\<close> field. The handler guards \<open>data.get\<close> by \<open>if data\<close> only, so a truthy payload
  that is no JSON object reaches it. Here the response has status 404 and the JSON array
  \<open>["Job not found"]\<close> as body: a list has no \<open>get\<close>, and instead of a \<open>NotFoundError\<close> with
  the message \<open>Resource not found\<close> the handler raises \<open>AttributeError\<close>, which is outside the
  taxonomy and which \<open>_request\<close> does not catch.
\<close>

theorem C1_non_object_payload_raises_AttributeError:
  \<open>FMSClient_handle_response
     \<lparr>status_code = 404, content = ''["Job not found"]'',
      json_decoded = Some (JList [JStr ''Job not found'']), headers = (\<lambda>h. None)\<rparr>
   = Inl AttributeError\<close>
  by (simp add: FMSClient_handle_response_def response_data_def detail_or_def try_then_def)

text \<open>
  The Retry-After header as the handler reads it. For every response with status 429 whose
  decoded payload is a JSON object or is falsy: when the header is absent (or empty)
  \<open>_handle_response\<close> raises a \<open>RateLimitError\<close> whose \<open>retry_after\<close> is \<open>None\<close>, and when the
  header holds an integer literal it raises a \<open>RateLimitError\<close> whose \<open>retry_after\<close> is that
  integer; the header \<open>Retry-After: 30\<close> is such a literal, of value 30.
\<close>

lemma handle_response_retry_after:
  "(status_code response = 429 \<and> dict_or_falsy (response_data response) \<longrightarrow>
     (headers response ''Retry-After'' = None \<or> headers response ''Retry-After'' = Some [] \<longrightarrow>
        FMSClient_handle_response response =
          Inl (RateLimitError
                 (spec_message (response_data response) (JStr ''Rate limit exceeded''))
                 (Some 429) (response_data response) None)) \<and>
     (\<forall>h n. headers response ''Retry-After'' = Some h \<and> py_int h = Inr n \<longrightarrow>
        FMSClient_handle_response response =
          Inl (RateLimitError
                 (spec_message (response_data response) (JStr ''Rate limit exceeded''))
                 (Some 429) (response_data response) (Some n)))) \<and>
   py_int ''30'' = Inr 30"
proof (intro conjI impI allI)
  assume a: "status_code response = 429 \<and> dict_or_falsy (response_data response)"
    and h: "headers response ''Retry-After'' = None \<or> headers response ''Retry-After'' = Some []"
  from h have "retry_after_arg (headers response ''Retry-After'') = Inr None"
    by (auto simp: retry_after_arg_absent retry_after_arg_empty)
  with a show "FMSClient_handle_response response =
          Inl (RateLimitError
                 (spec_message (response_data response) (JStr ''Rate limit exceeded''))
                 (Some 429) (response_data response) None)"
    by (intro handle_response_429) simp_all
next
  fix h n
  assume a: "status_code response = 429 \<and> dict_or_falsy (response_data response)"
    and h: "headers response ''Retry-After'' = Some h \<and> py_int h = Inr n"
  from h have "retry_after_arg (headers response ''Retry-After'') = Inr (Some n)"
    by (simp add: retry_after_arg_int)
  with a show "FMSClient_handle_response response =
          Inl (RateLimitError
                 (spec_message (response_data response) (JStr ''Rate limit exceeded''))
                 (Some 429) (response_data response) (Some n))"
    by (intro handle_response_429) simp_all
next
  show "py_int ''30'' = Inr 30"
    by (simp add: py_int_def int_strip_def int_space_def parse_unsigned_def is_digit_def
        digit_val_def int_max_str_digits_def)
qed

lemma handle_response_retry_after_30:
  "FMSClient_handle_response
     \<lparr>status_code = 429, content = [], json_decoded = None,
      headers = [''Retry-After'' \<mapsto> ''30'']\<rparr>
   = Inl (RateLimitError (JStr ''Rate limit exceeded'') (Some 429) JNull (Some 30)) \<and>
   FMSClient_handle_response
     \<lparr>status_code = 429, content = [], json_decoded = None, headers = (\<lambda>h. None)\<rparr>
   = Inl (RateLimitError (JStr ''Rate limit exceeded'') (Some 429) JNull None)"
proof -
  let ?r = "\<lparr>status_code = 429, content = [], json_decoded = None,
      headers = [''Retry-After'' \<mapsto> ''30'']\<rparr>"
  let ?q = "\<lparr>status_code = 429, content = [], json_decoded = None,
      headers = (\<lambda>h. None) :: string \<Rightarrow> string option\<rparr>"
  have pre: "status_code ?r = 429 \<and> dict_or_falsy (response_data ?r)"
    by (simp add: response_data_def dict_or_falsy_def)
  have hdr: "headers ?r ''Retry-After'' = Some ''30'' \<and> py_int ''30'' = Inr 30"
    using handle_response_retry_after [of ?r, THEN conjunct2]
    by simp
  have 1: "FMSClient_handle_response ?r =
          Inl (RateLimitError
                 (spec_message (response_data ?r) (JStr ''Rate limit exceeded''))
                 (Some 429) (response_data ?r) (Some 30))"
    by (rule handle_response_retry_after [of ?r, THEN conjunct1, THEN mp, OF pre,
          THEN conjunct2, rule_format, OF hdr])
  have pre': "status_code ?q = 429 \<and> dict_or_falsy (response_data ?q)"
    by (simp add: response_data_def dict_or_falsy_def)
  have 2: "FMSClient_handle_response ?q =
          Inl (RateLimitError
                 (spec_message (response_data ?q) (JStr ''Rate limit exceeded''))
                 (Some 429) (response_data ?q) None)"
    by (rule handle_response_retry_after [of ?q, THEN conjunct1, THEN mp, OF pre',
          THEN conjunct1, THEN mp])
       simp
  from 1 2 show ?thesis by (simp add: response_data_def spec_message_def)
qed

text \<open>
  Claim C8. The claim asks for a \<open>RateLimitError\<close> on every response with status 429. The
  handler converts the Retry-After header with \<open>int(retry_after)\<close>, guarded by
  \<open>if retry_after\<close> only, so a header that is no integer literal makes the conversion raise.
  Here the header holds an HTTP date, the other form the header may take:
  instead of a \<open>RateLimitError\<close> the handler raises \<open>ValueError\<close>, which is outside the
  taxonomy and which \<open>_request\<close> does not catch.
\<close>

theorem C8_retry_after_date_raises_ValueError:
  "FMSClient_handle_response
     \<lparr>status_code = 429, content = [], json_decoded = None,
      headers = [''Retry-After'' \<mapsto> ''Wed, 21 Oct 2015 07:28:00 GMT'']\<rparr>
   = Inl ValueError"
  by (simp add: FMSClient_handle_response_def response_data_def detail_or_def try_then_def
      retry_after_arg_def py_int_def int_strip_def int_space_def parse_unsigned_def
      is_digit_def)

section \<open>Sub-clients: enumeration arguments\<close>

lemma enum_coerce_invalid:
  assumes "\<forall>m. val m \<noteq> s"
  shows "enum_coerce val ms (Raw s) = Inl ValueError"
  using enum_call_invalid [OF assms] by (simp add: enum_coerce_def)

lemma LogLevel_coerce_raw:
  "enum_coerce LogLevel_value LogLevel_members (Raw (LogLevel_value m)) =
   enum_coerce LogLevel_value LogLevel_members (Member m)"
  by (cases m) (simp_all add: enum_coerce_def LogLevel_members_def)

lemma ServerStatus_coerce_raw:
  "enum_coerce ServerStatus_value ServerStatus_members (Raw (ServerStatus_value m)) =
   enum_coerce ServerStatus_value ServerStatus_members (Member m)"
  by (cases m) (simp_all add: enum_coerce_def ServerStatus_members_def)

lemma JobPriority_coerce_raw:
  "enum_coerce JobPriority_value JobPriority_members (Raw (JobPriority_value m)) =
   enum_coerce JobPriority_value JobPriority_members (Member m)"
  by (cases m) (simp_all add: enum_coerce_def JobPriority_members_def)

lemma TriggerType_coerce_raw:
  "enum_coerce TriggerType_value TriggerType_members (Raw (TriggerType_value m)) =
   enum_coerce TriggerType_value TriggerType_members (Member m)"
  by (cases m) (simp_all add: enum_coerce_def TriggerType_members_def)

lemma ExecutionStatus_coerce_raw:
  "enum_coerce ExecutionStatus_value ExecutionStatus_members (Raw (ExecutionStatus_value m)) =
   enum_coerce ExecutionStatus_value ExecutionStatus_members (Member m)"
  by (cases m) (simp_all add: enum_coerce_def ExecutionStatus_members_def)

lemma LogClient_create_raw:
  "LogClient_create env client message (Raw (LogLevel_value m)) job_id execution_id category
     correlation_id exception properties =
   LogClient_create env client message (Member m) job_id execution_id category
     correlation_id exception properties"
  unfolding LogClient_create_def LogLevel_coerce_raw ..

lemma LogClient_create_invalid:
  assumes "\<forall>m. LogLevel_value m \<noteq> s"
  shows "LogClient_create env client message (Raw s) job_id execution_id category
     correlation_id exception properties = (Inl ValueError, [])"
  unfolding LogClient_create_def enum_coerce_invalid [OF assms] by simp

lemma ServerClient_heartbeat_raw:
  "ServerClient_heartbeat env client (Raw (ServerStatus_value m)) agent_version system_info =
   ServerClient_heartbeat env client (Member m) agent_version system_info"
  unfolding ServerClient_heartbeat_def ServerStatus_coerce_raw ..

lemma ServerClient_heartbeat_invalid:
  assumes "\<forall>m. ServerStatus_value m \<noteq> s"
  shows "ServerClient_heartbeat env client (Raw s) agent_version system_info =
    (Inl ValueError, [])"
  unfolding ServerClient_heartbeat_def enum_coerce_invalid [OF assms] by simp

lemma JobClient_register_raw:
  "JobClient_register env client job_id display_name description schedule
     (Raw (JobPriority_value m)) timeout_minutes tags =
   JobClient_register env client job_id display_name description schedule
     (Member m) timeout_minutes tags"
  unfolding JobClient_register_def JobPriority_coerce_raw ..

lemma JobClient_register_invalid:
  assumes "\<forall>m. JobPriority_value m \<noteq> s"
  shows "JobClient_register env client job_id display_name description schedule
     (Raw s) timeout_minutes tags = (Inl ValueError, [])"
  unfolding JobClient_register_def enum_coerce_invalid [OF assms] by simp

lemma ExecutionClient_start_raw:
  "ExecutionClient_start env client job_id (Raw (TriggerType_value m)) triggered_by parameters =
   ExecutionClient_start env client job_id (Member m) triggered_by parameters"
  unfolding ExecutionClient_start_def TriggerType_coerce_raw ..

lemma ExecutionClient_start_invalid:
  assumes "\<forall>m. TriggerType_value m \<noteq> s"
  shows "ExecutionClient_start env client job_id (Raw s) triggered_by parameters =
    (Inl ValueError, [])"
  unfolding ExecutionClient_start_def enum_coerce_invalid [OF assms] by simp

lemma ExecutionClient_complete_raw:
  "ExecutionClient_complete env client execution_id (Raw (ExecutionStatus_value m))
     output_message error_message =
   ExecutionClient_complete env client execution_id (Member m) output_message error_message"
  unfolding ExecutionClient_complete_def ExecutionStatus_coerce_raw ..

lemma ExecutionClient_complete_invalid:
  assumes "\<forall>m. ExecutionStatus_value m \<noteq> s"
  shows "ExecutionClient_complete env client execution_id (Raw s) output_message
     error_message = (Inl ValueError, [])"
  unfolding ExecutionClient_complete_def enum_coerce_invalid [OF assms] by simp

lemma LogClient_create_member:
  "LogClient_create env client message (Member ml) job_id execution_id category
     correlation_id exception properties =
     (try_then
        (fst (FMSClient_request env client ''POST'' ''logs'' None
           (JObj
            [(''timestamp'', JStr (datetime_isoformat env (datetime_utcnow env) @ ''Z'')),
             (''level'', JStr (LogLevel_value ml)),
             (''message'', JStr message),
             (''serverName'', JStr (server_name client)),
             (''jobId'', opt_str job_id),
             (''executionId'', opt_str execution_id),
             (''category'', opt_str category),
             (''correlationId'', opt_str correlation_id),
             (''exception'', opt_str exception),
             (''properties'', opt_dict properties)])))
        (LogEntry_from_dict (dateutil_parse env) (datetime_utcnow env)),
      [outgoing_request client ''POST'' ''logs'' None
           (JObj
            [(''timestamp'', JStr (datetime_isoformat env (datetime_utcnow env) @ ''Z'')),
             (''level'', JStr (LogLevel_value ml)),
             (''message'', JStr message),
             (''serverName'', JStr (server_name client)),
             (''jobId'', opt_str job_id),
             (''executionId'', opt_str execution_id),
             (''category'', opt_str category),
             (''correlationId'', opt_str correlation_id),
             (''exception'', opt_str exception),
             (''properties'', opt_dict properties)])])"
  by (simp add: LogClient_create_def enum_coerce_def Let_def FMSClient_request_def)

lemma ServerClient_heartbeat_member:
  "ServerClient_heartbeat env client (Member ms) agent_version system_info =
     (try_then
        (fst (FMSClient_request env client ''POST'' ''servers/heartbeat'' None
           (JObj
            [(''serverName'', JStr (server_name client)),
             (''status'', JStr (ServerStatus_value ms)),
             (''agentVersion'', JStr agent_version),
             (''systemInfo'', opt_dict system_info)])))
        (\<lambda>r. Inr ()),
      [outgoing_request client ''POST'' ''servers/heartbeat'' None
           (JObj
            [(''serverName'', JStr (server_name client)),
             (''status'', JStr (ServerStatus_value ms)),
             (''agentVersion'', JStr agent_version),
             (''systemInfo'', opt_dict system_info)])])"
  by (simp add: ServerClient_heartbeat_def enum_coerce_def Let_def FMSClient_request_def)

lemma JobClient_register_member:
  "JobClient_register env client jid display_name description schedule (Member mp)
     timeout_minutes tags =
     (try_then
        (fst (FMSClient_request env client ''POST'' ''jobs/register'' None
           (JObj
            [(''jobId'', JStr jid),
             (''displayName'', JStr display_name),
             (''description'', opt_str description),
             (''serverName'', JStr (server_name client)),
             (''schedule'', opt_str schedule),
             (''priority'', JStr (JobPriority_value mp)),
             (''timeoutMinutes'', opt_int timeout_minutes),
             (''tags'', opt_str_list tags)])))
        (Job_from_dict (dateutil_parse env) (datetime_utcnow env)),
      [outgoing_request client ''POST'' ''jobs/register'' None
           (JObj
            [(''jobId'', JStr jid),
             (''displayName'', JStr display_name),
             (''description'', opt_str description),
             (''serverName'', JStr (server_name client)),
             (''schedule'', opt_str schedule),
             (''priority'', JStr (JobPriority_value mp)),
             (''timeoutMinutes'', opt_int timeout_minutes),
             (''tags'', opt_str_list tags)])])"
  by (simp add: JobClient_register_def enum_coerce_def Let_def FMSClient_request_def)

lemma ExecutionClient_start_member:
  "ExecutionClient_start env client jid (Member mt) triggered_by parameters =
     (try_then
        (fst (FMSClient_request env client ''POST'' ''executions'' None
           (JObj
            [(''jobId'', JStr jid),
             (''serverName'', JStr (server_name client)),
             (''triggerType'', JStr (TriggerType_value mt)),
             (''triggeredBy'', JStr (triggered_by_arg env triggered_by)),
             (''parameters'', opt_dict parameters)])))
        (Execution_from_dict (dateutil_parse env) (datetime_utcnow env)),
      [outgoing_request client ''POST'' ''executions'' None
           (JObj
            [(''jobId'', JStr jid),
             (''serverName'', JStr (server_name client)),
             (''triggerType'', JStr (TriggerType_value mt)),
             (''triggeredBy'', JStr (triggered_by_arg env triggered_by)),
             (''parameters'', opt_dict parameters)])])"
  by (simp add: ExecutionClient_start_def enum_coerce_def Let_def FMSClient_request_def)

lemma ExecutionClient_complete_member:
  "ExecutionClient_complete env client eid (Member me) output_message error_message =
     (try_then
        (fst (FMSClient_request env client ''PUT'' (''executions/'' @ eid @ ''/complete'') None
           (JObj
            [(''status'', JStr (ExecutionStatus_value me)),
             (''outputMessage'', opt_str output_message),
             (''errorMessage'', opt_str error_message)])))
        (Execution_from_dict (dateutil_parse env) (datetime_utcnow env)),
      [outgoing_request client ''PUT'' (''executions/'' @ eid @ ''/complete'') None
           (JObj
            [(''status'', JStr (ExecutionStatus_value me)),
             (''outputMessage'', opt_str output_message),
             (''errorMessage'', opt_str error_message)])])"
  by (simp add: ExecutionClient_complete_def enum_coerce_def Let_def FMSClient_request_def)

lemma LogClient_search_raw:
  "LogClient_search env client server_name' job_id (Some (Raw (LogLevel_value m)))
     start_date end_date page' page_size' =
   LogClient_search env client server_name' job_id (Some (Member m))
     start_date end_date page' page_size'"
  by (simp add: LogClient_search_def)

lemma LogClient_search_sent:
  "snd (LogClient_search env client server_name' job_id (Some (Raw s))
          start_date end_date page' page_size') =
   [outgoing_request client ''GET'' ''logs/search''
      (Some [(''serverName'', opt_str server_name'),
             (''jobId'', opt_str job_id),
             (''level'', JStr s),
             (''startDate'', (case start_date of
                                Some t \<Rightarrow> JStr (datetime_isoformat env t) | None \<Rightarrow> JNull)),
             (''endDate'', (case end_date of
                              Some t \<Rightarrow> JStr (datetime_isoformat env t) | None \<Rightarrow> JNull)),
             (''page'', JInt page'),
             (''pageSize'', JInt page_size')])
      JNull]"
  by (simp add: LogClient_search_def Let_def FMSClient_request_def split: prod.splits)

text \<open>
  Claim C2, as stated, fails for \<open>LogClient.search\<close>: the raw string \<open>Bogus\<close>, which is no
  member of \<open>LogLevel\<close>, raises nothing; it is sent as the \<open>level\<close> query parameter and the
  search returns what the server answers.
\<close>

theorem C2_search_invalid_level_counterexample:
  \<open>LogClient_search
     \<lparr>session_request = (\<lambda>r. Returns \<lparr>status_code = 200, content = ''{"items": []}'',
          json_decoded = Some (JObj [(''items'', JList [])]), headers = (\<lambda>h. None)\<rparr>),
      dateutil_parse = (\<lambda>v. None), datetime_utcnow = (0::nat),
      datetime_isoformat = (\<lambda>t. ''2024-01-01T00:00:00''), getenv_USER = None\<rparr>
     \<lparr>base_url = ''http://fms'', api_key = Some ''k'', server_name = ''web01'', timeout = 30,
      access_token = None, refresh_token = None, token_expires_at = None\<rparr>
     None None (Some (Raw ''Bogus'')) None None 1 50
   = (Inr \<lparr>items = [], page = JInt 1, page_size = JInt 20, total_count = JInt 0,
           total_pages = JInt 0\<rparr>,
      [\<lparr>req_method = ''GET'', req_url = ''http://fms/api/logs/search'',
        req_headers = [(''Accept'', ''application/json''),
                       (''Content-Type'', ''application/json''), (''X-Api-Key'', ''k'')],
        req_params = Some [(''level'', JStr ''Bogus''), (''page'', JInt 1),
                           (''pageSize'', JInt 50)],
        req_json = JNull, req_timeout = 30\<rparr>])\<close>
  by (simp add: LogClient_search_def Let_def FMSClient_request_def outgoing_request_def
      FMSClient_get_headers_def filter_params_def opt_str_def FMSClient_handle_response_def
      response_data_def try_then_def dict_get_def)

text \<open>
  Claim C2, amended. For \<open>LogClient.create\<close>, \<open>ServerClient.heartbeat\<close>, \<open>JobClient.register\<close>,
  \<open>ExecutionClient.start\<close> and \<open>ExecutionClient.complete\<close>, passing an enum member sends
  exactly one request, whose body holds the member's raw string, and the outcome is the
  converted answer to that request; passing the member's raw string gives the same request
  and the same outcome; and a raw string that is the raw value of no member raises
  \<open>ValueError\<close> with no request sent. For \<open>LogClient.search\<close>, passing the member or its raw
  string gives the same request and outcome as well, but a raw string is not validated:
  whatever it is, it is sent as the \<open>level\<close> query parameter.
\<close>

theorem C2_enum_arguments:
  "LogClient_create env client message (Member ml) job_id execution_id category
     correlation_id exception properties =
     (try_then
        (fst (FMSClient_request env client ''POST'' ''logs'' None
           (JObj
            [(''timestamp'', JStr (datetime_isoformat env (datetime_utcnow env) @ ''Z'')),
             (''level'', JStr (LogLevel_value ml)),
             (''message'', JStr message),
             (''serverName'', JStr (server_name client)),
             (''jobId'', opt_str job_id),
             (''executionId'', opt_str execution_id),
             (''category'', opt_str category),
             (''correlationId'', opt_str correlation_id),
             (''exception'', opt_str exception),
             (''properties'', opt_dict properties)])))
        (LogEntry_from_dict (dateutil_parse env) (datetime_utcnow env)),
      [outgoing_request client ''POST'' ''logs'' None
           (JObj
            [(''timestamp'', JStr (datetime_isoformat env (datetime_utcnow env) @ ''Z'')),
             (''level'', JStr (LogLevel_value ml)),
             (''message'', JStr message),
             (''serverName'', JStr (server_name client)),
             (''jobId'', opt_str job_id),
             (''executionId'', opt_str execution_id),
             (''category'', opt_str category),
             (''correlationId'', opt_str correlation_id),
             (''exception'', opt_str exception),
             (''properties'', opt_dict properties)])]) \<and>
   LogClient_create env client message (Raw (LogLevel_value ml)) job_id execution_id category
     correlation_id exception properties =
   LogClient_create env client message (Member ml) job_id execution_id category
     correlation_id exception properties \<and>
   ((\<forall>m. LogLevel_value m \<noteq> sl) \<longrightarrow>
      LogClient_create env client message (Raw sl) job_id execution_id category
        correlation_id exception properties =
        (Inl ValueError, [])) \<and>
   ServerClient_heartbeat env client (Member ms) agent_version system_info =
     (try_then
        (fst (FMSClient_request env client ''POST'' ''servers/heartbeat'' None
           (JObj
            [(''serverName'', JStr (server_name client)),
             (''status'', JStr (ServerStatus_value ms)),
             (''agentVersion'', JStr agent_version),
             (''systemInfo'', opt_dict system_info)])))
        (\<lambda>r. Inr ()),
      [outgoing_request client ''POST'' ''servers/heartbeat'' None
           (JObj
            [(''serverName'', JStr (server_name client)),
             (''status'', JStr (ServerStatus_value ms)),
             (''agentVersion'', JStr agent_version),
             (''systemInfo'', opt_dict system_info)])]) \<and>
   ServerClient_heartbeat env client (Raw (ServerStatus_value ms)) agent_version system_info =
   ServerClient_heartbeat env client (Member ms) agent_version system_info \<and>
   ((\<forall>m. ServerStatus_value m \<noteq> ss) \<longrightarrow>
      ServerClient_heartbeat env client (Raw ss) agent_version system_info =
        (Inl ValueError, [])) \<and>
   JobClient_register env client jid display_name description schedule (Member mp)
     timeout_minutes tags =
     (try_then
        (fst (FMSClient_request env client ''POST'' ''jobs/register'' None
           (JObj
            [(''jobId'', JStr jid),
             (''displayName'', JStr display_name),
             (''description'', opt_str description),
             (''serverName'', JStr (server_name client)),
             (''schedule'', opt_str schedule),
             (''priority'', JStr (JobPriority_value mp)),
             (''timeoutMinutes'', opt_int timeout_minutes),
             (''tags'', opt_str_list tags)])))
        (Job_from_dict (dateutil_parse env) (datetime_utcnow env)),
      [outgoing_request client ''POST'' ''jobs/register'' None
           (JObj
            [(''jobId'', JStr jid),
             (''displayName'', JStr display_name),
             (''description'', opt_str description),
             (''serverName'', JStr (server_name client)),
             (''schedule'', opt_str schedule),
             (''priority'', JStr (JobPriority_value mp)),
             (''timeoutMinutes'', opt_int timeout_minutes),
             (''tags'', opt_str_list tags)])]) \<and>
   JobClient_register env client jid display_name description schedule (Raw
     (JobPriority_value mp)) timeout_minutes tags =
   JobClient_register env client jid display_name description schedule (Member mp)
     timeout_minutes tags \<and>
   ((\<forall>m. JobPriority_value m \<noteq> sp) \<longrightarrow>
      JobClient_register env client jid display_name description schedule (Raw sp)
        timeout_minutes tags =
        (Inl ValueError, [])) \<and>
   ExecutionClient_start env client jid (Member mt) triggered_by parameters =
     (try_then
        (fst (FMSClient_request env client ''POST'' ''executions'' None
           (JObj
            [(''jobId'', JStr jid),
             (''serverName'', JStr (server_name client)),
             (''triggerType'', JStr (TriggerType_value mt)),
             (''triggeredBy'', JStr (triggered_by_arg env triggered_by)),
             (''parameters'', opt_dict parameters)])))
        (Execution_from_dict (dateutil_parse env) (datetime_utcnow env)),
      [outgoing_request client ''POST'' ''executions'' None
           (JObj
            [(''jobId'', JStr jid),
             (''serverName'', JStr (server_name client)),
             (''triggerType'', JStr (TriggerType_value mt)),
             (''triggeredBy'', JStr (triggered_by_arg env triggered_by)),
             (''parameters'', opt_dict parameters)])]) \<and>
   ExecutionClient_start env client jid (Raw (TriggerType_value mt)) triggered_by parameters =
   ExecutionClient_start env client jid (Member mt) triggered_by parameters \<and>
   ((\<forall>m. TriggerType_value m \<noteq> st) \<longrightarrow>
      ExecutionClient_start env client jid (Raw st) triggered_by parameters =
        (Inl ValueError, [])) \<and>
   ExecutionClient_complete env client eid (Member me) output_message error_message =
     (try_then
        (fst (FMSClient_request env client ''PUT'' (''executions/'' @ eid @ ''/complete'') None
           (JObj
            [(''status'', JStr (ExecutionStatus_value me)),
             (''outputMessage'', opt_str output_message),
             (''errorMessage'', opt_str error_message)])))
        (Execution_from_dict (dateutil_parse env) (datetime_utcnow env)),
      [outgoing_request client ''PUT'' (''executions/'' @ eid @ ''/complete'') None
           (JObj
            [(''status'', JStr (ExecutionStatus_value me)),
             (''outputMessage'', opt_str output_message),
             (''errorMessage'', opt_str error_message)])]) \<and>
   ExecutionClient_complete env client eid (Raw (ExecutionStatus_value me)) output_message
     error_message =
   ExecutionClient_complete env client eid (Member me) output_message error_message \<and>
   ((\<forall>m. ExecutionStatus_value m \<noteq> se) \<longrightarrow>
      ExecutionClient_complete env client eid (Raw se) output_message error_message =
        (Inl ValueError, [])) \<and>
   LogClient_search env client server_name' job_id (Some (Raw (LogLevel_value ml)))
     start_date end_date page' page_size' =
   LogClient_search env client server_name' job_id (Some (Member ml))
     start_date end_date page' page_size' \<and>
   snd (LogClient_search env client server_name' job_id (Some (Raw sl))
          start_date end_date page' page_size') =
   [outgoing_request client ''GET'' ''logs/search''
      (Some [(''serverName'', opt_str server_name'),
             (''jobId'', opt_str job_id),
             (''level'', JStr sl),
             (''startDate'', (case start_date of
                                Some t \<Rightarrow> JStr (datetime_isoformat env t) | None \<Rightarrow> JNull)),
             (''endDate'', (case end_date of
                              Some t \<Rightarrow> JStr (datetime_isoformat env t) | None \<Rightarrow> JNull)),
             (''page'', JInt page'),
             (''pageSize'', JInt page_size')])
      JNull]"
proof (intro conjI impI)
  show "LogClient_create env client message (Member ml) job_id execution_id category
     correlation_id exception properties =
     (try_then
        (fst (FMSClient_request env client ''POST'' ''logs'' None
           (JObj
            [(''timestamp'', JStr (datetime_isoformat env (datetime_utcnow env) @ ''Z'')),
             (''level'', JStr (LogLevel_value ml)),
             (''message'', JStr message),
             (''serverName'', JStr (server_name client)),
             (''jobId'', opt_str job_id),
             (''executionId'', opt_str execution_id),
             (''category'', opt_str category),
             (''correlationId'', opt_str correlation_id),
             (''exception'', opt_str exception),
             (''properties'', opt_dict properties)])))
        (LogEntry_from_dict (dateutil_parse env) (datetime_utcnow env)),
      [outgoing_request client ''POST'' ''logs'' None
           (JObj
            [(''timestamp'', JStr (datetime_isoformat env (datetime_utcnow env) @ ''Z'')),
             (''level'', JStr (LogLevel_value ml)),
             (''message'', JStr message),
             (''serverName'', JStr (server_name client)),
             (''jobId'', opt_str job_id),
             (''executionId'', opt_str execution_id),
             (''category'', opt_str category),
             (''correlationId'', opt_str correlation_id),
             (''exception'', opt_str exception),
             (''properties'', opt_dict properties)])])"
    by (rule LogClient_create_member)
next
  show "LogClient_create env client message (Raw (LogLevel_value ml)) job_id execution_id category
     correlation_id exception properties =
   LogClient_create env client message (Member ml) job_id execution_id category
     correlation_id exception properties"
    by (rule LogClient_create_raw)
next
  assume "\<forall>m. LogLevel_value m \<noteq> sl"
  then show "LogClient_create env client message (Raw sl) job_id execution_id category
        correlation_id exception properties =
        (Inl ValueError, [])"
    by (rule LogClient_create_invalid)
next
  show "ServerClient_heartbeat env client (Member ms) agent_version system_info =
     (try_then
        (fst (FMSClient_request env client ''POST'' ''servers/heartbeat'' None
           (JObj
            [(''serverName'', JStr (server_name client)),
             (''status'', JStr (ServerStatus_value ms)),
             (''agentVersion'', JStr agent_version),
             (''systemInfo'', opt_dict system_info)])))
        (\<lambda>r. Inr ()),
      [outgoing_request client ''POST'' ''servers/heartbeat'' None
           (JObj
            [(''serverName'', JStr (server_name client)),
             (''status'', JStr (ServerStatus_value ms)),
             (''agentVersion'', JStr agent_version),
             (''systemInfo'', opt_dict system_info)])])"
    by (rule ServerClient_heartbeat_member)
next
  show "ServerClient_heartbeat env client (Raw (ServerStatus_value ms)) agent_version system_info =
   ServerClient_heartbeat env client (Member ms) agent_version system_info"
    by (rule ServerClient_heartbeat_raw)
next
  assume "\<forall>m. ServerStatus_value m \<noteq> ss"
  then show "ServerClient_heartbeat env client (Raw ss) agent_version system_info =
        (Inl ValueError, [])"
    by (rule ServerClient_heartbeat_invalid)
next
  show "JobClient_register env client jid display_name description schedule (Member mp)
     timeout_minutes tags =
     (try_then
        (fst (FMSClient_request env client ''POST'' ''jobs/register'' None
           (JObj
            [(''jobId'', JStr jid),
             (''displayName'', JStr display_name),
             (''description'', opt_str description),
             (''serverName'', JStr (server_name client)),
             (''schedule'', opt_str schedule),
             (''priority'', JStr (JobPriority_value mp)),
             (''timeoutMinutes'', opt_int timeout_minutes),
             (''tags'', opt_str_list tags)])))
        (Job_from_dict (dateutil_parse env) (datetime_utcnow env)),
      [outgoing_request client ''POST'' ''jobs/register'' None
           (JObj
            [(''jobId'', JStr jid),
             (''displayName'', JStr display_name),
             (''description'', opt_str description),
             (''serverName'', JStr (server_name client)),
             (''schedule'', opt_str schedule),
             (''priority'', JStr (JobPriority_value mp)),
             (''timeoutMinutes'', opt_int timeout_minutes),
             (''tags'', opt_str_list tags)])])"
    by (rule JobClient_register_member)
next
  show "JobClient_register env client jid display_name description schedule (Raw
     (JobPriority_value mp)) timeout_minutes tags =
   JobClient_register env client jid display_name description schedule (Member mp)
     timeout_minutes tags"
    by (rule JobClient_register_raw)
next
  assume "\<forall>m. JobPriority_value m \<noteq> sp"
  then show "JobClient_register env client jid display_name description schedule (Raw sp)
        timeout_minutes tags =
        (Inl ValueError, [])"
    by (rule JobClient_register_invalid)
next
  show "ExecutionClient_start env client jid (Member mt) triggered_by parameters =
     (try_then
        (fst (FMSClient_request env client ''POST'' ''executions'' None
           (JObj
            [(''jobId'', JStr jid),
             (''serverName'', JStr (server_name client)),
             (''triggerType'', JStr (TriggerType_value mt)),
             (''triggeredBy'', JStr (triggered_by_arg env triggered_by)),
             (''parameters'', opt_dict parameters)])))
        (Execution_from_dict (dateutil_parse env) (datetime_utcnow env)),
      [outgoing_request client ''POST'' ''executions'' None
           (JObj
            [(''jobId'', JStr jid),
             (''serverName'', JStr (server_name client)),
             (''triggerType'', JStr (TriggerType_value mt)),
             (''triggeredBy'', JStr (triggered_by_arg env triggered_by)),
             (''parameters'', opt_dict parameters)])])"
    by (rule ExecutionClient_start_member)
next
  show "ExecutionClient_start env client jid (Raw (TriggerType_value mt)) triggered_by parameters =
   ExecutionClient_start env client jid (Member mt) triggered_by parameters"
    by (rule ExecutionClient_start_raw)
next
  assume "\<forall>m. TriggerType_value m \<noteq> st"
  then show "ExecutionClient_start env client jid (Raw st) triggered_by parameters =
        (Inl ValueError, [])"
    by (rule ExecutionClient_start_invalid)
next
  show "ExecutionClient_complete env client eid (Member me) output_message error_message =
     (try_then
        (fst (FMSClient_request env client ''PUT'' (''executions/'' @ eid @ ''/complete'') None
           (JObj
            [(''status'', JStr (ExecutionStatus_value me)),
             (''outputMessage'', opt_str output_message),
             (''errorMessage'', opt_str error_message)])))
        (Execution_from_dict (dateutil_parse env) (datetime_utcnow env)),
      [outgoing_request client ''PUT'' (''executions/'' @ eid @ ''/complete'') None
           (JObj
            [(''status'', JStr (ExecutionStatus_value me)),
             (''outputMessage'', opt_str output_message),
             (''errorMessage'', opt_str error_message)])])"
    by (rule ExecutionClient_complete_member)
next
  show "ExecutionClient_complete env client eid (Raw (ExecutionStatus_value me)) output_message
     error_message =
   ExecutionClient_complete env client eid (Member me) output_message error_message"
    by (rule ExecutionClient_complete_raw)
next
  assume "\<forall>m. ExecutionStatus_value m \<noteq> se"
  then show "ExecutionClient_complete env client eid (Raw se) output_message error_message =
        (Inl ValueError, [])"
    by (rule ExecutionClient_complete_invalid)
next
  show "LogClient_search env client server_name' job_id (Some (Raw (LogLevel_value ml)))
     start_date end_date page' page_size' =
   LogClient_search env client server_name' job_id (Some (Member ml))
     start_date end_date page' page_size'"
    by (rule LogClient_search_raw)
next
  show "snd (LogClient_search env client server_name' job_id (Some (Raw sl))
          start_date end_date page' page_size') =
   [outgoing_request client ''GET'' ''logs/search''
      (Some [(''serverName'', opt_str server_name'),
             (''jobId'', opt_str job_id),
             (''level'', JStr sl),
             (''startDate'', (case start_date of
                                Some t \<Rightarrow> JStr (datetime_isoformat env t) | None \<Rightarrow> JNull)),
             (''endDate'', (case end_date of
                              Some t \<Rightarrow> JStr (datetime_isoformat env t) | None \<Rightarrow> JNull)),
             (''page'', JInt page'),
             (''pageSize'', JInt page_size')])
      JNull]"
    by (rule LogClient_search_sent)
qed

theorem C2_enum_arguments_witness:
  "LogClient_create
     \<lparr>session_request = (\<lambda>r. RaisesTimeout), dateutil_parse = (\<lambda>v. None),
      datetime_utcnow = (0::nat), datetime_isoformat = (\<lambda>t. ''2024-01-01T00:00:00''),
      getenv_USER = None\<rparr>
     \<lparr>base_url = ''http://fms'', api_key = Some ''k'', server_name = ''web01'', timeout = 30,
      access_token = None, refresh_token = None, token_expires_at = None\<rparr>
     ''disk full'' (Raw ''Warning'') None None None None None None
   = LogClient_create
     \<lparr>session_request = (\<lambda>r. RaisesTimeout), dateutil_parse = (\<lambda>v. None),
      datetime_utcnow = (0::nat), datetime_isoformat = (\<lambda>t. ''2024-01-01T00:00:00''),
      getenv_USER = None\<rparr>
     \<lparr>base_url = ''http://fms'', api_key = Some ''k'', server_name = ''web01'', timeout = 30,
      access_token = None, refresh_token = None, token_expires_at = None\<rparr>
     ''disk full'' (Member WARNING) None None None None None None \<and>
   LogClient_create
     \<lparr>session_request = (\<lambda>r. RaisesTimeout), dateutil_parse = (\<lambda>v. None),
      datetime_utcnow = (0::nat), datetime_isoformat = (\<lambda>t. ''2024-01-01T00:00:00''),
      getenv_USER = None\<rparr>
     \<lparr>base_url = ''http://fms'', api_key = Some ''k'', server_name = ''web01'', timeout = 30,
      access_token = None, refresh_token = None, token_expires_at = None\<rparr>
     ''disk full'' (Raw ''warning'') None None None None None None
   = (Inl ValueError, []) \<and>
   LogClient_create
     \<lparr>session_request = (\<lambda>r. RaisesTimeout), dateutil_parse = (\<lambda>v. None),
      datetime_utcnow = (0::nat), datetime_isoformat = (\<lambda>t. ''2024-01-01T00:00:00''),
      getenv_USER = None\<rparr>
     \<lparr>base_url = ''http://fms'', api_key = Some ''k'', server_name = ''web01'', timeout = 30,
      access_token = None, refresh_token = None, token_expires_at = None\<rparr>
     ''disk full'' (Member WARNING) None None None None None None
   = (Inl (TimeoutError (JStr ''Request to http://fms/api/logs timed out'') None JNull),
      [\<lparr>req_method = ''POST'', req_url = ''http://fms/api/logs'',
        req_headers = [(''Accept'', ''application/json''),
                       (''Content-Type'', ''application/json''), (''X-Api-Key'', ''k'')],
        req_params = None,
        req_json = JObj
          [(''timestamp'', JStr ''2024-01-01T00:00:00Z''),
           (''level'', JStr ''Warning''),
           (''message'', JStr ''disk full''),
           (''serverName'', JStr ''web01''),
           (''jobId'', JNull),
           (''executionId'', JNull),
           (''category'', JNull),
           (''correlationId'', JNull),
           (''exception'', JNull),
           (''properties'', JNull)],
        req_timeout = 30\<rparr>])"
proof -
  let ?env = "\<lparr>session_request = (\<lambda>r. RaisesTimeout), dateutil_parse = (\<lambda>v. None),
      datetime_utcnow = (0::nat), datetime_isoformat = (\<lambda>t. ''2024-01-01T00:00:00''),
      getenv_USER = None\<rparr>"
  let ?c = "\<lparr>base_url = ''http://fms'', api_key = Some ''k'', server_name = ''web01'',
      timeout = 30, access_token = None, refresh_token = None,
      token_expires_at = None :: nat option\<rparr>"
  note t = C2_enum_arguments [where env = ?env and client = ?c and message = "''disk full''"
      and ml = WARNING and job_id = None and execution_id = None and category = None
      and correlation_id = None and exception = None and properties = None
      and sl = "''warning''"]
  have v: "LogLevel_value WARNING = ''Warning''" by simp
  have 1: "LogClient_create ?env ?c ''disk full'' (Raw ''Warning'') None None None None None
      None = LogClient_create ?env ?c ''disk full'' (Member WARNING) None None None None None
      None"
    using t [THEN conjunct2, THEN conjunct1] unfolding v .
  have "\<forall>m. LogLevel_value m \<noteq> ''warning''"
  proof
    fix m show "LogLevel_value m \<noteq> ''warning''" by (cases m) simp_all
  qed
  with t [THEN conjunct2, THEN conjunct2, THEN conjunct1]
  have 2: "LogClient_create ?env ?c ''disk full'' (Raw ''warning'') None None None None None
      None = (Inl ValueError, [])"
    by (rule mp)
  have 3: "LogClient_create ?env ?c ''disk full'' (Member WARNING) None None None None None
      None =
    (Inl (TimeoutError (JStr ''Request to http://fms/api/logs timed out'') None JNull),
      [\<lparr>req_method = ''POST'', req_url = ''http://fms/api/logs'',
        req_headers = [(''Accept'', ''application/json''),
                       (''Content-Type'', ''application/json''), (''X-Api-Key'', ''k'')],
        req_params = None,
        req_json = JObj
          [(''timestamp'', JStr ''2024-01-01T00:00:00Z''),
           (''level'', JStr ''Warning''),
           (''message'', JStr ''disk full''),
           (''serverName'', JStr ''web01''),
           (''jobId'', JNull),
           (''executionId'', JNull),
           (''category'', JNull),
           (''correlationId'', JNull),
           (''exception'', JNull),
           (''properties'', JNull)],
        req_timeout = 30\<rparr>])"
    unfolding t [THEN conjunct1]
    by (simp add: FMSClient_request_def Let_def outgoing_request_def FMSClient_get_headers_def
        filter_params_def opt_str_def opt_dict_def try_then_def)
  from 1 2 3 show ?thesis by (intro conjI)
qed

section \<open>Paged results\<close>

lemma comprehension_Inr_iff:
  "comprehension f xs = Inr ys \<longleftrightarrow> map f xs = map Inr ys"
proof (induction xs arbitrary: ys)
  case Nil
  show ?case by auto
next
  case (Cons x xs)
  show ?case
  proof (cases "f x")
    case (Inl e)
    then show ?thesis by (cases ys) (auto simp: try_then_def)
  next
    case (Inr y)
    show ?thesis
    proof (cases "comprehension f xs")
      case (Inl e)
      with Cons.IH have "\<And>zs. map f xs \<noteq> map Inr zs" by auto
      with Inl Inr show ?thesis by (cases ys) (auto simp: try_then_def)
    next
      case r: (Inr zs)
      from Cons.IH [of zs] r have m: "map f xs = map Inr zs" by blast
      show ?thesis
        by (cases ys) (auto simp: try_then_def m r Inr inj_map_eq_map [OF inj_Inr])
    qed
  qed
qed

lemma comprehension_succeeds:
  assumes "\<forall>x\<in>set xs. \<exists>y. f x = Inr y"
  shows "\<exists>ys. comprehension f xs = Inr ys"
  using assms by (induction xs) (auto simp: try_then_def)

lemma comprehension_fails:
  assumes "\<exists>x\<in>set xs. \<exists>e. f x = Inl e"
  shows "\<exists>e. comprehension f xs = Inl e"
proof (cases "comprehension f xs")
  case (Inl e)
  then show ?thesis by blast
next
  case (Inr ys)
  then have "map f xs = map Inr ys" by (simp add: comprehension_Inr_iff)
  then have "\<forall>x\<in>set xs. \<exists>y. f x = Inr y"
    by (metis (no_types, lifting) image_iff list.set_map)
  with assms show ?thesis by auto
qed

lemma PagedResult_from_dict_list:
  assumes "dict_get d ''items'' (JList []) = JList xs"
  shows "PagedResult_from_dict (JObj d) f =
    (case comprehension f xs of
       Inl e \<Rightarrow> Inl e
     | Inr ys \<Rightarrow>
         Inr \<lparr>items = ys,
              page = dict_get d ''page'' (JInt 1),
              page_size = dict_get d ''pageSize'' (JInt 20),
              total_count = dict_get d ''totalCount'' (JInt 0),
              total_pages = dict_get d ''totalPages'' (JInt 0)\<rparr>)"
  using assms by (simp add: try_then_def split: sum.splits)

text \<open>
  Claim C7. For every JSON object whose \<open>items\<close> entry is an array (or is missing, which
  counts as the empty array) and every item factory: a result of \<open>PagedResult.from_dict\<close>
  holds, in order, exactly the factory's results on the elements of the array, and its four
  pagination scalars are the object's \<open>page\<close>, \<open>pageSize\<close>, \<open>totalCount\<close> and \<open>totalPages\<close>
  entries, with 1, 20, 0 and 0 for a missing key. \<open>from_dict\<close> returns such a result when
  the factory accepts every element, and raises when the factory rejects one.
\<close>

theorem C7_paged_result_from_dict:
  "(case map_of d ''items'' of None \<Rightarrow> JList [] | Some v \<Rightarrow> v) = JList xs \<longrightarrow>
     (\<forall>r. PagedResult_from_dict (JObj d) f = Inr r \<longrightarrow>
        map f xs = map Inr (items r) \<and>
        page r = (case map_of d ''page'' of None \<Rightarrow> JInt 1 | Some v \<Rightarrow> v) \<and>
        page_size r = (case map_of d ''pageSize'' of None \<Rightarrow> JInt 20 | Some v \<Rightarrow> v) \<and>
        total_count r = (case map_of d ''totalCount'' of None \<Rightarrow> JInt 0 | Some v \<Rightarrow> v) \<and>
        total_pages r = (case map_of d ''totalPages'' of None \<Rightarrow> JInt 0 | Some v \<Rightarrow> v)) \<and>
     ((\<forall>x\<in>set xs. \<exists>y. f x = Inr y) \<longrightarrow> (\<exists>r. PagedResult_from_dict (JObj d) f = Inr r)) \<and>
     ((\<exists>x\<in>set xs. \<exists>e. f x = Inl e) \<longrightarrow> (\<exists>e. PagedResult_from_dict (JObj d) f = Inl e))"
proof (intro impI)
  assume "(case map_of d ''items'' of None \<Rightarrow> JList [] | Some v \<Rightarrow> v) = JList xs"
  then have "dict_get d ''items'' (JList []) = JList xs"
    by (simp add: dict_get_def)
  note eq = PagedResult_from_dict_list [OF this, of f]
  have 1: "\<forall>r. PagedResult_from_dict (JObj d) f = Inr r \<longrightarrow>
        map f xs = map Inr (items r) \<and>
        page r = (case map_of d ''page'' of None \<Rightarrow> JInt 1 | Some v \<Rightarrow> v) \<and>
        page_size r = (case map_of d ''pageSize'' of None \<Rightarrow> JInt 20 | Some v \<Rightarrow> v) \<and>
        total_count r = (case map_of d ''totalCount'' of None \<Rightarrow> JInt 0 | Some v \<Rightarrow> v) \<and>
        total_pages r = (case map_of d ''totalPages'' of None \<Rightarrow> JInt 0 | Some v \<Rightarrow> v)"
  proof (intro allI impI)
    fix r assume r: "PagedResult_from_dict (JObj d) f = Inr r"
    show "map f xs = map Inr (items r) \<and>
        page r = (case map_of d ''page'' of None \<Rightarrow> JInt 1 | Some v \<Rightarrow> v) \<and>
        page_size r = (case map_of d ''pageSize'' of None \<Rightarrow> JInt 20 | Some v \<Rightarrow> v) \<and>
        total_count r = (case map_of d ''totalCount'' of None \<Rightarrow> JInt 0 | Some v \<Rightarrow> v) \<and>
        total_pages r = (case map_of d ''totalPages'' of None \<Rightarrow> JInt 0 | Some v \<Rightarrow> v)"
    proof (cases "comprehension f xs")
      case (Inl e)
      with eq r show ?thesis by simp
    next
      case (Inr ys)
      then have "map f xs = map Inr ys" by (simp add: comprehension_Inr_iff)
      with eq r Inr show ?thesis by (auto simp: dict_get_def)
    qed
  qed
  have 2: "(\<forall>x\<in>set xs. \<exists>y. f x = Inr y) \<longrightarrow> (\<exists>r. PagedResult_from_dict (JObj d) f = Inr r)"
  proof
    assume "\<forall>x\<in>set xs. \<exists>y. f x = Inr y"
    from comprehension_succeeds [OF this] obtain ys where "comprehension f xs = Inr ys" ..
    with eq show "\<exists>r. PagedResult_from_dict (JObj d) f = Inr r" by simp
  qed
  have 3: "(\<exists>x\<in>set xs. \<exists>e. f x = Inl e) \<longrightarrow> (\<exists>e. PagedResult_from_dict (JObj d) f = Inl e)"
  proof
    assume "\<exists>x\<in>set xs. \<exists>e. f x = Inl e"
    from comprehension_fails [OF this] obtain e where "comprehension f xs = Inl e" ..
    with eq show "\<exists>e. PagedResult_from_dict (JObj d) f = Inl e" by simp
  qed
  from 1 2 3 show "(\<forall>r. PagedResult_from_dict (JObj d) f = Inr r \<longrightarrow>
        map f xs = map Inr (items r) \<and>
        page r = (case map_of d ''page'' of None \<Rightarrow> JInt 1 | Some v \<Rightarrow> v) \<and>
        page_size r = (case map_of d ''pageSize'' of None \<Rightarrow> JInt 20 | Some v \<Rightarrow> v) \<and>
        total_count r = (case map_of d ''totalCount'' of None \<Rightarrow> JInt 0 | Some v \<Rightarrow> v) \<and>
        total_pages r = (case map_of d ''totalPages'' of None \<Rightarrow> JInt 0 | Some v \<Rightarrow> v)) \<and>
     ((\<forall>x\<in>set xs. \<exists>y. f x = Inr y) \<longrightarrow> (\<exists>r. PagedResult_from_dict (JObj d) f = Inr r)) \<and>
     ((\<exists>x\<in>set xs. \<exists>e. f x = Inl e) \<longrightarrow> (\<exists>e. PagedResult_from_dict (JObj d) f = Inl e))"
    by (intro conjI)
qed

theorem C7_paged_result_from_dict_witness:
  "PagedResult_from_dict
     (JObj [(''items'', JList []), (''page'', JInt 1), (''pageSize'', JInt 20),
            (''totalCount'', JInt 0), (''totalPages'', JInt 0)])
     (LogEntry_from_dict (\<lambda>v. None) (0::nat))
   = Inr \<lparr>items = [], page = JInt 1, page_size = JInt 20, total_count = JInt 0,
          total_pages = JInt 0\<rparr> \<and>
   PagedResult_from_dict
     (JObj [(''items'', JList [JObj [(''jobId'', JStr ''J1'')], JObj [(''jobId'', JStr ''J2'')]]),
            (''page'', JInt 2)])
     (\<lambda>item. try_then (py_get item ''jobId'' JNull) Inr)
   = Inr \<lparr>items = [JStr ''J1'', JStr ''J2''], page = JInt 2, page_size = JInt 20,
          total_count = JInt 0, total_pages = JInt 0\<rparr>"
proof -
  let ?d = "[(''items'', JList []), (''page'', JInt 1), (''pageSize'', JInt 20),
            (''totalCount'', JInt 0), (''totalPages'', JInt 0)]"
  let ?f = "LogEntry_from_dict (\<lambda>v. None) (0::nat)"
  note t = C7_paged_result_from_dict [of ?d "[]" ?f, THEN mp]
  have i: "(case map_of ?d ''items'' of None \<Rightarrow> JList [] | Some v \<Rightarrow> v) = JList []"
    by simp
  from t [OF i, THEN conjunct2, THEN conjunct1]
  obtain r where r: "PagedResult_from_dict (JObj ?d) ?f = Inr r" by auto
  from t [OF i, THEN conjunct1, rule_format, OF r]
  have "items r = []" "page r = JInt 1" "page_size r = JInt 20" "total_count r = JInt 0"
    "total_pages r = JInt 0"
    by simp_all
  then have "r = \<lparr>items = [], page = JInt 1, page_size = JInt 20, total_count = JInt 0,
          total_pages = JInt 0\<rparr>"
    by (cases r) simp
  with r have 1: "PagedResult_from_dict (JObj ?d) ?f =
      Inr \<lparr>items = [], page = JInt 1, page_size = JInt 20, total_count = JInt 0,
          total_pages = JInt 0\<rparr>"
    by simp
  have 2: "PagedResult_from_dict
     (JObj [(''items'', JList [JObj [(''jobId'', JStr ''J1'')], JObj [(''jobId'', JStr ''J2'')]]),
            (''page'', JInt 2)])
     (\<lambda>item. try_then (py_get item ''jobId'' JNull) Inr)
   = Inr \<lparr>items = [JStr ''J1'', JStr ''J2''], page = JInt 2, page_size = JInt 20,
          total_count = JInt 0, total_pages = JInt 0\<rparr>"
    by (simp add: try_then_def dict_get_def)
  from 1 2 show ?thesis by (rule conjI)
qed

section \<open>Model deserialization: time stamps and defaults\<close>

lemma dict_get_absent: "map_of d k = None \<Longrightarrow> dict_get d k dflt = dflt"
  by (simp add: dict_get_def)

lemma dict_get_present: "map_of d k = Some v \<Longrightarrow> dict_get d k dflt = v"
  by (simp add: dict_get_def)

lemma dict_item_truthy:
  assumes "truthy (dict_get d k JNull)"
  shows "dict_item d k = Inr (dict_get d k JNull)"
  using assms by (cases "map_of d k") (simp_all add: dict_get_def dict_item_def)

lemma parse_if_present_falsy:
  assumes "\<not> truthy (dict_get d k JNull)"
  shows "parse_if_present p d k = Inr None"
  using assms by (simp add: parse_if_present_def)

lemma parse_if_present_accepted:
  assumes "truthy (dict_get d k JNull)" and "p (dict_get d k JNull) = Some t"
  shows "parse_if_present p d k = Inr (Some t)"
  using assms by (simp add: parse_if_present_def dict_item_truthy try_then_def)

lemma parse_if_present_rejected:
  assumes "truthy (dict_get d k JNull)" and "p (dict_get d k JNull) = None"
  shows "parse_if_present p d k = Inl ParserError"
  using assms by (simp add: parse_if_present_def dict_item_truthy try_then_def)

lemma parse_if_present_absent:
  assumes "map_of d k = None"
  shows "parse_if_present p d k = Inr None"
  using assms by (simp add: parse_if_present_falsy dict_get_absent)

lemma parse_if_present_Inr:
  assumes "parse_if_present p d k = Inr c"
  shows "(truthy (dict_get d k JNull) \<longrightarrow> (\<exists>t. p (dict_get d k JNull) = Some t \<and> c = Some t)) \<and>
         (\<not> truthy (dict_get d k JNull) \<longrightarrow> c = None)"
proof (cases "truthy (dict_get d k JNull)")
  case False
  with assms show ?thesis by (simp add: parse_if_present_def)
next
  case True
  show ?thesis
  proof (cases "p (dict_get d k JNull)")
    case None
    with assms True show ?thesis
      by (simp add: parse_if_present_def dict_item_truthy try_then_def)
  next
    case (Some t)
    with True have "parse_if_present p d k = Inr (Some t)"
      by (simp add: parse_if_present_def dict_item_truthy try_then_def)
    with assms have "c = Some t" by simp
    with Some True show ?thesis by simp
  qed
qed

lemma parse_if_present_ok:
  assumes "\<not> truthy (dict_get d k JNull) \<or> p (dict_get d k JNull) \<noteq> None"
  shows "\<exists>c. parse_if_present p d k = Inr c"
  using assms
  by (cases "p (dict_get d k JNull)")
     (auto simp: parse_if_present_def dict_item_truthy try_then_def split: if_splits)

lemma parse_or_now_falsy:
  assumes "\<not> truthy (dict_get d k JNull)"
  shows "parse_or_now p now d k = Inr now"
  using assms by (simp add: parse_or_now_def)

lemma parse_or_now_accepted:
  assumes "truthy (dict_get d k JNull)" and "p (dict_get d k JNull) = Some t"
  shows "parse_or_now p now d k = Inr t"
  using assms by (simp add: parse_or_now_def dict_item_truthy try_then_def)

lemma parse_or_now_rejected:
  assumes "truthy (dict_get d k JNull)" and "p (dict_get d k JNull) = None"
  shows "parse_or_now p now d k = Inl ParserError"
  using assms by (simp add: parse_or_now_def dict_item_truthy try_then_def)

lemma parse_or_now_Inr:
  assumes "parse_or_now p now d k = Inr t"
  shows "(truthy (dict_get d k JNull) \<longrightarrow> p (dict_get d k JNull) = Some t) \<and>
         (\<not> truthy (dict_get d k JNull) \<longrightarrow> t = now)"
  using assms
  by (cases "p (dict_get d k JNull)")
     (auto simp: parse_or_now_def dict_item_truthy try_then_def split: if_splits)

lemma parse_or_now_ok:
  assumes "\<not> truthy (dict_get d k JNull) \<or> p (dict_get d k JNull) \<noteq> None"
  shows "\<exists>t. parse_or_now p now d k = Inr t"
  using assms
  by (cases "p (dict_get d k JNull)")
     (auto simp: parse_or_now_def dict_item_truthy try_then_def split: if_splits)

lemma try_then_Inr: "try_then (Inr x) f = f x"
  by (simp add: try_then_def)

lemma LogLevel_call_default: "LogLevel_call (JStr ''Information'') = Inr INFORMATION"
  by (simp add: LogLevel_call_def LogLevel_members_def)

lemma LogLevel_call_falsy:
  assumes "\<not> truthy v"
  shows "LogLevel_call v = Inl ValueError"
  using assms by (cases v) (simp_all add: LogLevel_call_def LogLevel_members_def)

lemma LogEntry_from_dict_Inr:
  assumes "LogEntry_from_dict p now (JObj d) = Inr r"
  shows "parse_or_now p now d ''timestamp'' = Inr (le_timestamp r) \<and>
         LogLevel_call (dict_get d ''level'' (JStr ''Information'')) = Inr (le_level r) \<and>
         parse_if_present p d ''createdAt'' = Inr (le_created_at r)"
proof -
  from assms obtain ts where ts: "parse_or_now p now d ''timestamp'' = Inr ts"
    by (cases "parse_or_now p now d ''timestamp''") (simp_all add: try_then_def)
  from assms ts obtain lvl where
    lvl: "LogLevel_call (dict_get d ''level'' (JStr ''Information'')) = Inr lvl"
    by (cases "LogLevel_call (dict_get d ''level'' (JStr ''Information''))")
       (simp_all add: try_then_def)
  from assms ts lvl obtain c where c: "parse_if_present p d ''createdAt'' = Inr c"
    by (cases "parse_if_present p d ''createdAt''") (simp_all add: try_then_def)
  from assms have "le_timestamp r = ts \<and> le_level r = lvl \<and> le_created_at r = c"
    by (auto simp add: ts lvl c try_then_def)
  with ts lvl c show ?thesis by simp
qed

lemma LogEntry_from_dict_succeeds:
  assumes "parse_or_now p now d ''timestamp'' = Inr ts"
    and "LogLevel_call (dict_get d ''level'' (JStr ''Information'')) = Inr lvl"
    and "parse_if_present p d ''createdAt'' = Inr created"
  shows "LogEntry_from_dict p now (JObj d) =
    Inr \<lparr>le_id = dict_get d ''id'' (JStr []),
         le_timestamp = ts,
         le_level = lvl,
         le_message = dict_get d ''message'' (JStr []),
         le_server_name = dict_get d ''serverName'' JNull,
         le_job_id = dict_get d ''jobId'' JNull,
         le_execution_id = dict_get d ''executionId'' JNull,
         le_category = dict_get d ''category'' JNull,
         le_correlation_id = dict_get d ''correlationId'' JNull,
         le_exception = dict_get d ''exception'' JNull,
         le_properties = dict_get d ''properties'' JNull,
         le_created_at = created\<rparr>"
  by (simp only: LogEntry_from_dict.simps assms try_then_Inr)

lemma LogEntry_from_dict_level_rejected:
  assumes "LogLevel_call (dict_get d ''level'' (JStr ''Information'')) = Inl e"
  shows "\<exists>e'. LogEntry_from_dict p now (JObj d) = Inl e'"
proof (cases "LogEntry_from_dict p now (JObj d)")
  case (Inl e')
  then show ?thesis by blast
next
  case (Inr r)
  from LogEntry_from_dict_Inr [OF Inr] assms show ?thesis by simp
qed

lemma try_then_Inl: "try_then (Inl e) f = Inl e"
  by (simp add: try_then_def)

lemma LogEntry_from_dict_level_raises:
  assumes "parse_or_now p now d ''timestamp'' = Inr ts"
    and "LogLevel_call (dict_get d ''level'' (JStr ''Information'')) = Inl e"
  shows "LogEntry_from_dict p now (JObj d) = Inl e"
  by (simp only: LogEntry_from_dict.simps assms try_then_Inr try_then_Inl)

lemma LogEntry_from_dict_timestamp_raises:
  assumes "parse_or_now p now d ''timestamp'' = Inl e"
  shows "LogEntry_from_dict p now (JObj d) = Inl e"
  by (simp only: LogEntry_from_dict.simps assms try_then_Inl)

text \<open>
  Claim C10, as stated, fails: on the object \<open>{"level": null}\<close>, whose \<open>level\<close> value is
  falsy, \<open>LogEntry.from_dict\<close> raises \<open>ValueError\<close> instead of giving level Information.
\<close>

theorem C10_falsy_level_counterexample:
  "LogEntry_from_dict (\<lambda>v. None) (0::nat) (JObj [(''level'', JNull)]) = Inl ValueError"
  by (simp add: parse_or_now_def dict_get_def LogLevel_call_def try_then_def)

text \<open>
  Claim C10, amended. For every JSON object that has no \<open>level\<close> key, every result of
  \<open>LogEntry.from_dict\<close> has level Information, and \<open>from_dict\<close> does return a result when the
  \<open>timestamp\<close> and \<open>createdAt\<close> values are each falsy (or missing) or accepted by the date
  parser. The default stands in for a missing key only: when the \<open>level\<close> key is present
  with a falsy value (null, the empty string, ...), \<open>from_dict\<close> fails. It then raises the
  \<open>ValueError\<close> of the enumeration when the \<open>timestamp\<close> value is falsy (or missing) or
  accepted by the date parser, and the error of the date parser when the \<open>timestamp\<close> value
  is truthy and rejected, the time stamp being converted before the level.
\<close>

theorem C10_missing_level_defaults:
  "(map_of d ''level'' = None \<longrightarrow>
      (\<forall>r. LogEntry_from_dict p now (JObj d) = Inr r \<longrightarrow> le_level r = INFORMATION) \<and>
      ((\<not> truthy (dict_get d ''timestamp'' JNull) \<or> p (dict_get d ''timestamp'' JNull) \<noteq> None) \<and>
       (\<not> truthy (dict_get d ''createdAt'' JNull) \<or> p (dict_get d ''createdAt'' JNull) \<noteq> None) \<longrightarrow>
       (\<exists>r. LogEntry_from_dict p now (JObj d) = Inr r \<and> le_level r = INFORMATION))) \<and>
   (\<forall>v. map_of d ''level'' = Some v \<and> \<not> truthy v \<longrightarrow>
      (\<exists>e. LogEntry_from_dict p now (JObj d) = Inl e) \<and>
      (\<not> truthy (dict_get d ''timestamp'' JNull) \<or> p (dict_get d ''timestamp'' JNull) \<noteq> None \<longrightarrow>
         LogEntry_from_dict p now (JObj d) = Inl ValueError) \<and>
      (truthy (dict_get d ''timestamp'' JNull) \<and> p (dict_get d ''timestamp'' JNull) = None \<longrightarrow>
         LogEntry_from_dict p now (JObj d) = Inl ParserError))"
proof (intro conjI impI allI)
  fix r
  assume n: "map_of d ''level'' = None" and r: "LogEntry_from_dict p now (JObj d) = Inr r"
  from LogEntry_from_dict_Inr [OF r] n show "le_level r = INFORMATION"
    by (simp add: dict_get_absent LogLevel_call_default)
next
  assume n: "map_of d ''level'' = None"
    and ok: "(\<not> truthy (dict_get d ''timestamp'' JNull) \<or> p (dict_get d ''timestamp'' JNull) \<noteq> None) \<and>
       (\<not> truthy (dict_get d ''createdAt'' JNull) \<or> p (dict_get d ''createdAt'' JNull) \<noteq> None)"
  from ok have "\<exists>ts. parse_or_now p now d ''timestamp'' = Inr ts"
    by (intro parse_or_now_ok) simp
  then obtain ts where ts: "parse_or_now p now d ''timestamp'' = Inr ts" ..
  from ok have "\<exists>c. parse_if_present p d ''createdAt'' = Inr c"
    by (intro parse_if_present_ok) simp
  then obtain c where c: "parse_if_present p d ''createdAt'' = Inr c" ..
  from n have l: "LogLevel_call (dict_get d ''level'' (JStr ''Information'')) = Inr INFORMATION"
    by (simp add: dict_get_absent LogLevel_call_default)
  from LogEntry_from_dict_succeeds [OF ts l c]
  show "\<exists>r. LogEntry_from_dict p now (JObj d) = Inr r \<and> le_level r = INFORMATION"
    by simp
next
  fix v
  assume a: "map_of d ''level'' = Some v \<and> \<not> truthy v"
  then have "LogLevel_call (dict_get d ''level'' (JStr ''Information'')) = Inl ValueError"
    by (simp add: dict_get_present LogLevel_call_falsy)
  then show "\<exists>e. LogEntry_from_dict p now (JObj d) = Inl e"
    by (rule LogEntry_from_dict_level_rejected)
next
  fix v
  assume a: "map_of d ''level'' = Some v \<and> \<not> truthy v"
    and ok: "\<not> truthy (dict_get d ''timestamp'' JNull) \<or> p (dict_get d ''timestamp'' JNull) \<noteq> None"
  from a have l: "LogLevel_call (dict_get d ''level'' (JStr ''Information'')) = Inl ValueError"
    by (simp add: dict_get_present LogLevel_call_falsy)
  from ok have "\<exists>ts. parse_or_now p now d ''timestamp'' = Inr ts"
    by (intro parse_or_now_ok) simp
  then obtain ts where ts: "parse_or_now p now d ''timestamp'' = Inr ts" ..
  from ts l show "LogEntry_from_dict p now (JObj d) = Inl ValueError"
    by (rule LogEntry_from_dict_level_raises)
next
  fix v
  assume bad: "truthy (dict_get d ''timestamp'' JNull) \<and> p (dict_get d ''timestamp'' JNull) = None"
  then have "parse_or_now p now d ''timestamp'' = Inl ParserError"
    by (intro parse_or_now_rejected) simp_all
  then show "LogEntry_from_dict p now (JObj d) = Inl ParserError"
    by (rule LogEntry_from_dict_timestamp_raises)
qed

theorem C10_missing_level_defaults_witness:
  "(\<exists>r. LogEntry_from_dict (\<lambda>v. None) (0::nat)
          (JObj [(''id'', JStr ''42''), (''message'', JStr ''started'')]) = Inr r \<and>
        le_level r = INFORMATION) \<and>
   LogEntry_from_dict (\<lambda>v. None) (0::nat)
     (JObj [(''id'', JStr ''42''), (''level'', JStr [])]) = Inl ValueError \<and>
   LogEntry_from_dict (\<lambda>v. None) (0::nat)
     (JObj [(''timestamp'', JStr ''garbage''), (''level'', JNull)]) = Inl ParserError"
proof -
  let ?d = "[(''id'', JStr ''42''), (''message'', JStr ''started'')]"
  let ?d' = "[(''id'', JStr ''42''), (''level'', JStr [])]"
  let ?d'' = "[(''timestamp'', JStr ''garbage''), (''level'', JNull)]"
  let ?p = "(\<lambda>v. None) :: jval \<Rightarrow> nat option"
  have n: "map_of ?d ''level'' = None" by simp
  have ok: "(\<not> truthy (dict_get ?d ''timestamp'' JNull) \<or> ?p (dict_get ?d ''timestamp'' JNull) \<noteq> None) \<and>
       (\<not> truthy (dict_get ?d ''createdAt'' JNull) \<or> ?p (dict_get ?d ''createdAt'' JNull) \<noteq> None)"
    by (simp add: dict_get_def)
  have 1: "\<exists>r. LogEntry_from_dict ?p 0 (JObj ?d) = Inr r \<and> le_level r = INFORMATION"
    by (rule C10_missing_level_defaults [of ?d ?p 0, THEN conjunct1, THEN mp, OF n,
          THEN conjunct2, THEN mp, OF ok])
  have f: "map_of ?d' ''level'' = Some (JStr []) \<and> \<not> truthy (JStr [])" by simp
  have ok': "\<not> truthy (dict_get ?d' ''timestamp'' JNull) \<or> ?p (dict_get ?d' ''timestamp'' JNull) \<noteq> None"
    by (simp add: dict_get_def)
  have 2: "LogEntry_from_dict ?p 0 (JObj ?d') = Inl ValueError"
    by (rule C10_missing_level_defaults [of ?d' ?p 0, THEN conjunct2, rule_format, OF f,
          THEN conjunct2, THEN conjunct1, THEN mp, OF ok'])
  have f'': "map_of ?d'' ''level'' = Some JNull \<and> \<not> truthy JNull" by simp
  have bad: "truthy (dict_get ?d'' ''timestamp'' JNull) \<and> ?p (dict_get ?d'' ''timestamp'' JNull) = None"
    by (simp add: dict_get_def)
  have 3: "LogEntry_from_dict ?p 0 (JObj ?d'') = Inl ParserError"
    by (rule C10_missing_level_defaults [of ?d'' ?p 0, THEN conjunct2, rule_format, OF f'',
          THEN conjunct2, THEN conjunct2, THEN mp, OF bad])
  from 1 2 3 show ?thesis by (intro conjI)
qed

section \<open>Model deserialization: the six factories\<close>

lemma Server_from_dict_succeeds:
  assumes "ServerStatus_call (dict_get d ''status'' (JStr ''Unknown'')) = Inr st" and
    "parse_if_present parse_date d ''lastHeartbeat'' = Inr hb"
  shows "Server_from_dict parse_date utcnow (JObj d) =
    Inr \<lparr>sv_server_name = dict_get d ''serverName'' (JStr []),
    sv_display_name = dict_get d ''displayName'' JNull,
    sv_status = st,
    sv_agent_version = dict_get d ''agentVersion'' JNull,
    sv_last_heartbeat = hb,
    sv_is_active = dict_get d ''isActive'' (JBool True),
    sv_ip_address = dict_get d ''ipAddress'' JNull,
    sv_os_info = dict_get d ''osInfo'' JNull\<rparr>"
  by (simp only: Server_from_dict.simps assms try_then_Inr)

lemma Server_from_dict_Inr:
  assumes "Server_from_dict parse_date utcnow (JObj d) = Inr r"
  shows "ServerStatus_call (dict_get d ''status'' (JStr ''Unknown'')) = Inr (sv_status r) \<and>
         parse_if_present parse_date d ''lastHeartbeat'' = Inr (sv_last_heartbeat r)"
proof -
  from assms obtain st where st: "ServerStatus_call (dict_get d ''status'' (JStr ''Unknown'')) =
      Inr st"
    by (cases "ServerStatus_call (dict_get d ''status'' (JStr ''Unknown''))")
       (simp_all add: try_then_def)
  from assms st obtain hb where hb: "parse_if_present parse_date d ''lastHeartbeat'' = Inr hb"
    by (cases "parse_if_present parse_date d ''lastHeartbeat''")
       (simp_all add: try_then_def)
  from assms have "sv_status r = st \<and> sv_last_heartbeat r = hb"
    by (auto simp add: st hb try_then_def)
  with st hb show ?thesis by simp
qed

lemma Job_from_dict_succeeds:
  assumes "JobPriority_call (dict_get d ''priority'' (JStr ''Normal'')) = Inr prio" and
    "parse_if_present parse_date d ''lastExecutionAt'' = Inr last_at" and
    "last_execution_status_arg d = Inr last_status"
  shows "Job_from_dict parse_date utcnow (JObj d) =
    Inr \<lparr>jb_job_id = dict_get d ''jobId'' (JStr []),
    jb_display_name = dict_get d ''displayName'' (JStr []),
    jb_server_name = dict_get d ''serverName'' (JStr []),
    jb_description = dict_get d ''description'' JNull,
    jb_schedule = dict_get d ''schedule'' JNull,
    jb_priority = prio,
    jb_is_active = dict_get d ''isActive'' (JBool True),
    jb_timeout_minutes = dict_get d ''timeoutMinutes'' JNull,
    jb_last_execution_at = last_at,
    jb_last_execution_status = last_status,
    jb_tags = dict_get d ''tags'' (JList [])\<rparr>"
  by (simp only: Job_from_dict.simps assms try_then_Inr)

lemma Job_from_dict_Inr:
  assumes "Job_from_dict parse_date utcnow (JObj d) = Inr r"
  shows "JobPriority_call (dict_get d ''priority'' (JStr ''Normal'')) = Inr (jb_priority r) \<and>
         parse_if_present parse_date d ''lastExecutionAt'' = Inr (jb_last_execution_at r) \<and>
         last_execution_status_arg d = Inr (jb_last_execution_status r)"
proof -
  from assms obtain prio
      where prio: "JobPriority_call (dict_get d ''priority'' (JStr ''Normal'')) = Inr prio"
    by (cases "JobPriority_call (dict_get d ''priority'' (JStr ''Normal''))")
       (simp_all add: try_then_def)
  from assms prio obtain last_at
      where last_at: "parse_if_present parse_date d ''lastExecutionAt'' = Inr last_at"
    by (cases "parse_if_present parse_date d ''lastExecutionAt''")
       (simp_all add: try_then_def)
  from assms prio last_at obtain last_status where last_status: "last_execution_status_arg d =
      Inr last_status"
    by (cases "last_execution_status_arg d")
       (simp_all add: try_then_def)
  from assms have "jb_priority r = prio \<and> jb_last_execution_at r = last_at \<and>
      jb_last_execution_status r = last_status"
    by (auto simp add: prio last_at last_status try_then_def)
  with prio last_at last_status show ?thesis by simp
qed

lemma Execution_from_dict_succeeds:
  assumes "ExecutionStatus_call (dict_get d ''status'' (JStr ''Pending'')) = Inr st" and
    "parse_if_present parse_date d ''startedAt'' = Inr started" and
    "parse_if_present parse_date d ''completedAt'' = Inr completed" and
    "TriggerType_call (dict_get d ''triggerType'' (JStr ''Manual'')) = Inr trig"
  shows "Execution_from_dict parse_date utcnow (JObj d) =
    Inr \<lparr>ex_id = dict_get d ''id'' (JStr []),
    ex_job_id = dict_get d ''jobId'' (JStr []),
    ex_server_name = dict_get d ''serverName'' (JStr []),
    ex_status = st,
    ex_started_at = started,
    ex_completed_at = completed,
    ex_duration_ms = dict_get d ''durationMs'' JNull,
    ex_trigger_type = trig,
    ex_triggered_by = dict_get d ''triggeredBy'' JNull,
    ex_error_message = dict_get d ''errorMessage'' JNull,
    ex_output_message = dict_get d ''outputMessage'' JNull,
    ex_parameters = dict_get d ''parameters'' JNull\<rparr>"
  by (simp only: Execution_from_dict.simps assms try_then_Inr)

lemma Execution_from_dict_Inr:
  assumes "Execution_from_dict parse_date utcnow (JObj d) = Inr r"
  shows "ExecutionStatus_call (dict_get d ''status'' (JStr ''Pending'')) = Inr (ex_status r) \<and>
         parse_if_present parse_date d ''startedAt'' = Inr (ex_started_at r) \<and>
         parse_if_present parse_date d ''completedAt'' = Inr (ex_completed_at r) \<and>
         TriggerType_call (dict_get d ''triggerType'' (JStr ''Manual'')) = Inr (ex_trigger_type r)"
proof -
  from assms obtain st
      where st: "ExecutionStatus_call (dict_get d ''status'' (JStr ''Pending'')) = Inr st"
    by (cases "ExecutionStatus_call (dict_get d ''status'' (JStr ''Pending''))")
       (simp_all add: try_then_def)
  from assms st obtain started where started: "parse_if_present parse_date d ''startedAt'' =
      Inr started"
    by (cases "parse_if_present parse_date d ''startedAt''")
       (simp_all add: try_then_def)
  from assms st started obtain completed
      where completed: "parse_if_present parse_date d ''completedAt'' = Inr completed"
    by (cases "parse_if_present parse_date d ''completedAt''")
       (simp_all add: try_then_def)
  from assms st started completed obtain trig
      where trig: "TriggerType_call (dict_get d ''triggerType'' (JStr ''Manual'')) = Inr trig"
    by (cases "TriggerType_call (dict_get d ''triggerType'' (JStr ''Manual''))")
       (simp_all add: try_then_def)
  from assms have "ex_status r = st \<and> ex_started_at r = started \<and> ex_completed_at r = completed \<and>
      ex_trigger_type r = trig"
    by (auto simp add: st started completed trig try_then_def)
  with st started completed trig show ?thesis by simp
qed

lemma Alert_from_dict_succeeds:
  assumes "AlertType_call (dict_get d ''alertType'' (JStr ''Custom'')) = Inr ty" and
    "AlertSeverity_call (dict_get d ''severity'' (JStr ''Warning'')) = Inr sev"
  shows "Alert_from_dict (JObj d) =
    Inr \<lparr>al_id = dict_get d ''id'' (JStr []),
    al_name = dict_get d ''name'' (JStr []),
    al_alert_type = ty,
    al_severity = sev,
    al_is_active = dict_get d ''isActive'' (JBool True),
    al_description = dict_get d ''description'' JNull,
    al_condition = dict_get d ''condition'' JNull\<rparr>"
  by (simp only: Alert_from_dict.simps assms try_then_Inr)

lemma Alert_from_dict_Inr:
  assumes "Alert_from_dict (JObj d) = Inr r"
  shows "AlertType_call (dict_get d ''alertType'' (JStr ''Custom'')) = Inr (al_alert_type r) \<and>
         AlertSeverity_call (dict_get d ''severity'' (JStr ''Warning'')) = Inr (al_severity r)"
proof -
  from assms obtain ty where ty: "AlertType_call (dict_get d ''alertType'' (JStr ''Custom'')) =
      Inr ty"
    by (cases "AlertType_call (dict_get d ''alertType'' (JStr ''Custom''))")
       (simp_all add: try_then_def)
  from assms ty obtain sev
      where sev: "AlertSeverity_call (dict_get d ''severity'' (JStr ''Warning'')) = Inr sev"
    by (cases "AlertSeverity_call (dict_get d ''severity'' (JStr ''Warning''))")
       (simp_all add: try_then_def)
  from assms have "al_alert_type r = ty \<and> al_severity r = sev"
    by (auto simp add: ty sev try_then_def)
  with ty sev show ?thesis by simp
qed

lemma AlertInstance_from_dict_succeeds:
  assumes "AlertSeverity_call (dict_get d ''severity'' (JStr ''Warning'')) = Inr sev" and
    "parse_or_now parse_date utcnow d ''triggeredAt'' = Inr trig" and
    "parse_if_present parse_date d ''acknowledgedAt'' = Inr ack" and
    "parse_if_present parse_date d ''resolvedAt'' = Inr res"
  shows "AlertInstance_from_dict parse_date utcnow (JObj d) =
    Inr \<lparr>ai_id = dict_get d ''id'' (JStr []),
    ai_alert_id = dict_get d ''alertId'' (JStr []),
    ai_alert_name = dict_get d ''alertName'' (JStr []),
    ai_severity = sev,
    ai_triggered_at = trig,
    ai_acknowledged_at = ack,
    ai_resolved_at = res,
    ai_acknowledged_by = dict_get d ''acknowledgedBy'' JNull,
    ai_resolved_by = dict_get d ''resolvedBy'' JNull,
    ai_message = dict_get d ''message'' JNull\<rparr>"
  by (simp only: AlertInstance_from_dict.simps assms try_then_Inr)

lemma AlertInstance_from_dict_Inr:
  assumes "AlertInstance_from_dict parse_date utcnow (JObj d) = Inr r"
  shows "AlertSeverity_call (dict_get d ''severity'' (JStr ''Warning'')) = Inr (ai_severity r) \<and>
         parse_or_now parse_date utcnow d ''triggeredAt'' = Inr (ai_triggered_at r) \<and>
         parse_if_present parse_date d ''acknowledgedAt'' = Inr (ai_acknowledged_at r) \<and>
         parse_if_present parse_date d ''resolvedAt'' = Inr (ai_resolved_at r)"
proof -
  from assms obtain sev
      where sev: "AlertSeverity_call (dict_get d ''severity'' (JStr ''Warning'')) = Inr sev"
    by (cases "AlertSeverity_call (dict_get d ''severity'' (JStr ''Warning''))")
       (simp_all add: try_then_def)
  from assms sev obtain trig where trig: "parse_or_now parse_date utcnow d ''triggeredAt'' =
      Inr trig"
    by (cases "parse_or_now parse_date utcnow d ''triggeredAt''")
       (simp_all add: try_then_def)
  from assms sev trig obtain ack where ack: "parse_if_present parse_date d ''acknowledgedAt'' =
      Inr ack"
    by (cases "parse_if_present parse_date d ''acknowledgedAt''")
       (simp_all add: try_then_def)
  from assms sev trig ack obtain res where res: "parse_if_present parse_date d ''resolvedAt'' =
      Inr res"
    by (cases "parse_if_present parse_date d ''resolvedAt''")
       (simp_all add: try_then_def)
  from assms have "ai_severity r = sev \<and> ai_triggered_at r = trig \<and> ai_acknowledged_at r = ack \<and>
      ai_resolved_at r = res"
    by (auto simp add: sev trig ack res try_then_def)
  with sev trig ack res show ?thesis by simp
qed

lemma Inl_if_never_Inr:
  assumes "\<And>r. x = Inr r \<Longrightarrow> False"
  shows "\<exists>e. x = Inl e"
  using assms by (cases x) auto

lemma ServerStatus_call_default: "ServerStatus_call (JStr ''Unknown'') = Inr SS_UNKNOWN"
  by (simp add: ServerStatus_call_def ServerStatus_members_def)

lemma JobPriority_call_default: "JobPriority_call (JStr ''Normal'') = Inr JP_NORMAL"
  by (simp add: JobPriority_call_def JobPriority_members_def)

lemma ExecutionStatus_call_default: "ExecutionStatus_call (JStr ''Pending'') = Inr ES_PENDING"
  by (simp add: ExecutionStatus_call_def ExecutionStatus_members_def)

lemma TriggerType_call_default: "TriggerType_call (JStr ''Manual'') = Inr TT_MANUAL"
  by (simp add: TriggerType_call_def TriggerType_members_def)

lemma last_execution_status_arg_absent:
  assumes "map_of d ''lastExecutionStatus'' = None"
  shows "last_execution_status_arg d = Inr None"
  using assms by (simp add: last_execution_status_arg_def dict_get_absent)

lemma LogEntry_from_dict_defaults:
  assumes "\<forall>k\<in>set LogEntry_optional_keys. map_of d k = None"
    and "parse_or_now parse_date utcnow d ''timestamp'' = Inr ts"
    and "LogLevel_call (dict_get d ''level'' (JStr ''Information'')) = Inr lvl"
  shows "LogEntry_from_dict parse_date utcnow (JObj d) =
    Inr \<lparr>le_id = dict_get d ''id'' (JStr []),
         le_timestamp = ts,
         le_level = lvl,
         le_message = dict_get d ''message'' (JStr []),
         le_server_name = JNull,
         le_job_id = JNull,
         le_execution_id = JNull,
         le_category = JNull,
         le_correlation_id = JNull,
         le_exception = JNull,
         le_properties = JNull,
         le_created_at = None\<rparr>"
proof -
  from assms(1) have k: "map_of d ''serverName'' = None" "map_of d ''jobId'' = None"
    "map_of d ''executionId'' = None" "map_of d ''category'' = None"
    "map_of d ''correlationId'' = None" "map_of d ''exception'' = None"
    "map_of d ''properties'' = None" "map_of d ''createdAt'' = None"
    by (simp_all add: LogEntry_optional_keys_def)
  have c: "parse_if_present parse_date d ''createdAt'' = Inr None"
    by (simp add: parse_if_present_absent k)
  show ?thesis
    unfolding LogEntry_from_dict_succeeds [OF assms(2) assms(3) c]
    by (simp add: dict_get_absent k)
qed

lemma Server_from_dict_defaults:
  assumes "\<forall>k\<in>set Server_optional_keys. map_of d k = None"
  shows "Server_from_dict parse_date utcnow (JObj d) =
    Inr \<lparr>sv_server_name = dict_get d ''serverName'' (JStr []),
         sv_display_name = JNull,
         sv_status = SS_UNKNOWN,
         sv_agent_version = JNull,
         sv_last_heartbeat = None,
         sv_is_active = JBool True,
         sv_ip_address = JNull,
         sv_os_info = JNull\<rparr>"
proof -
  from assms have k: "map_of d ''displayName'' = None" "map_of d ''status'' = None"
    "map_of d ''agentVersion'' = None" "map_of d ''lastHeartbeat'' = None"
    "map_of d ''isActive'' = None" "map_of d ''ipAddress'' = None" "map_of d ''osInfo'' = None"
    by (simp_all add: Server_optional_keys_def)
  have 1: "ServerStatus_call (dict_get d ''status'' (JStr ''Unknown'')) = Inr SS_UNKNOWN"
    by (simp add: dict_get_absent k ServerStatus_call_default)
  have 2: "parse_if_present parse_date d ''lastHeartbeat'' = Inr None"
    by (simp add: parse_if_present_absent k)
  show ?thesis
    unfolding Server_from_dict_succeeds [OF 1 2] by (simp add: dict_get_absent k)
qed

lemma Job_from_dict_defaults:
  assumes "\<forall>k\<in>set Job_optional_keys. map_of d k = None"
  shows "Job_from_dict parse_date utcnow (JObj d) =
    Inr \<lparr>jb_job_id = dict_get d ''jobId'' (JStr []),
         jb_display_name = dict_get d ''displayName'' (JStr []),
         jb_server_name = dict_get d ''serverName'' (JStr []),
         jb_description = JNull,
         jb_schedule = JNull,
         jb_priority = JP_NORMAL,
         jb_is_active = JBool True,
         jb_timeout_minutes = JNull,
         jb_last_execution_at = None,
         jb_last_execution_status = None,
         jb_tags = JList []\<rparr>"
proof -
  from assms have k: "map_of d ''description'' = None" "map_of d ''schedule'' = None"
    "map_of d ''priority'' = None" "map_of d ''isActive'' = None"
    "map_of d ''timeoutMinutes'' = None" "map_of d ''lastExecutionAt'' = None"
    "map_of d ''lastExecutionStatus'' = None" "map_of d ''tags'' = None"
    by (simp_all add: Job_optional_keys_def)
  have 1: "JobPriority_call (dict_get d ''priority'' (JStr ''Normal'')) = Inr JP_NORMAL"
    by (simp add: dict_get_absent k JobPriority_call_default)
  have 2: "parse_if_present parse_date d ''lastExecutionAt'' = Inr None"
    by (simp add: parse_if_present_absent k)
  have 3: "last_execution_status_arg d = Inr None"
    by (simp add: last_execution_status_arg_absent k)
  show ?thesis
    unfolding Job_from_dict_succeeds [OF 1 2 3] by (simp add: dict_get_absent k)
qed

lemma Execution_from_dict_defaults:
  assumes "\<forall>k\<in>set Execution_optional_keys. map_of d k = None"
  shows "Execution_from_dict parse_date utcnow (JObj d) =
    Inr \<lparr>ex_id = dict_get d ''id'' (JStr []),
         ex_job_id = dict_get d ''jobId'' (JStr []),
         ex_server_name = dict_get d ''serverName'' (JStr []),
         ex_status = ES_PENDING,
         ex_started_at = None,
         ex_completed_at = None,
         ex_duration_ms = JNull,
         ex_trigger_type = TT_MANUAL,
         ex_triggered_by = JNull,
         ex_error_message = JNull,
         ex_output_message = JNull,
         ex_parameters = JNull\<rparr>"
proof -
  from assms have k: "map_of d ''status'' = None" "map_of d ''startedAt'' = None"
    "map_of d ''completedAt'' = None" "map_of d ''durationMs'' = None"
    "map_of d ''triggerType'' = None" "map_of d ''triggeredBy'' = None"
    "map_of d ''errorMessage'' = None" "map_of d ''outputMessage'' = None"
    "map_of d ''parameters'' = None"
    by (simp_all add: Execution_optional_keys_def)
  have 1: "ExecutionStatus_call (dict_get d ''status'' (JStr ''Pending'')) = Inr ES_PENDING"
    by (simp add: dict_get_absent k ExecutionStatus_call_default)
  have 2: "parse_if_present parse_date d ''startedAt'' = Inr None"
    by (simp add: parse_if_present_absent k)
  have 3: "parse_if_present parse_date d ''completedAt'' = Inr None"
    by (simp add: parse_if_present_absent k)
  have 4: "TriggerType_call (dict_get d ''triggerType'' (JStr ''Manual'')) = Inr TT_MANUAL"
    by (simp add: dict_get_absent k TriggerType_call_default)
  show ?thesis
    unfolding Execution_from_dict_succeeds [OF 1 2 3 4] by (simp add: dict_get_absent k)
qed

lemma Alert_from_dict_defaults:
  assumes "\<forall>k\<in>set Alert_optional_keys. map_of d k = None"
    and "AlertType_call (dict_get d ''alertType'' (JStr ''Custom'')) = Inr ty"
    and "AlertSeverity_call (dict_get d ''severity'' (JStr ''Warning'')) = Inr sev"
  shows "Alert_from_dict (JObj d) =
    Inr \<lparr>al_id = dict_get d ''id'' (JStr []),
         al_name = dict_get d ''name'' (JStr []),
         al_alert_type = ty,
         al_severity = sev,
         al_is_active = JBool True,
         al_description = JNull,
         al_condition = JNull\<rparr>"
proof -
  from assms(1) have k: "map_of d ''isActive'' = None" "map_of d ''description'' = None"
    "map_of d ''condition'' = None"
    by (simp_all add: Alert_optional_keys_def)
  show ?thesis
    unfolding Alert_from_dict_succeeds [OF assms(2) assms(3)] by (simp add: dict_get_absent k)
qed

lemma AlertInstance_from_dict_defaults:
  assumes "\<forall>k\<in>set AlertInstance_optional_keys. map_of d k = None"
    and "AlertSeverity_call (dict_get d ''severity'' (JStr ''Warning'')) = Inr sev"
    and "parse_or_now parse_date utcnow d ''triggeredAt'' = Inr trig"
  shows "AlertInstance_from_dict parse_date utcnow (JObj d) =
    Inr \<lparr>ai_id = dict_get d ''id'' (JStr []),
         ai_alert_id = dict_get d ''alertId'' (JStr []),
         ai_alert_name = dict_get d ''alertName'' (JStr []),
         ai_severity = sev,
         ai_triggered_at = trig,
         ai_acknowledged_at = None,
         ai_resolved_at = None,
         ai_acknowledged_by = JNull,
         ai_resolved_by = JNull,
         ai_message = JNull\<rparr>"
proof -
  from assms(1) have k: "map_of d ''acknowledgedAt'' = None" "map_of d ''resolvedAt'' = None"
    "map_of d ''acknowledgedBy'' = None" "map_of d ''resolvedBy'' = None"
    "map_of d ''message'' = None"
    by (simp_all add: AlertInstance_optional_keys_def)
  have 1: "parse_if_present parse_date d ''acknowledgedAt'' = Inr None"
    by (simp add: parse_if_present_absent k)
  have 2: "parse_if_present parse_date d ''resolvedAt'' = Inr None"
    by (simp add: parse_if_present_absent k)
  show ?thesis
    unfolding AlertInstance_from_dict_succeeds [OF assms(2) assms(3) 1 2]
    by (simp add: dict_get_absent k)
qed

lemma Job_from_dict_fields:
  assumes "Job_from_dict parse_date utcnow (JObj d) = Inr j"
  shows "jb_is_active j = dict_get d ''isActive'' (JBool True) \<and>
         jb_tags j = dict_get d ''tags'' (JList []) \<and>
         JobPriority_call (dict_get d ''priority'' (JStr ''Normal'')) = Inr (jb_priority j)"
proof -
  note s = Job_from_dict_Inr [OF assms]
  from s have 1: "JobPriority_call (dict_get d ''priority'' (JStr ''Normal'')) =
      Inr (jb_priority j)"
    by (rule conjunct1)
  from s have 2: "parse_if_present parse_date d ''lastExecutionAt'' =
      Inr (jb_last_execution_at j)"
    by (rule conjunct2 [THEN conjunct1])
  from s have 3: "last_execution_status_arg d = Inr (jb_last_execution_status j)"
    by (rule conjunct2 [THEN conjunct2])
  from Job_from_dict_succeeds [OF 1 2 3, of utcnow] assms
  have e: "j =
    \<lparr>jb_job_id = dict_get d ''jobId'' (JStr []),
     jb_display_name = dict_get d ''displayName'' (JStr []),
     jb_server_name = dict_get d ''serverName'' (JStr []),
     jb_description = dict_get d ''description'' JNull,
     jb_schedule = dict_get d ''schedule'' JNull,
     jb_priority = jb_priority j,
     jb_is_active = dict_get d ''isActive'' (JBool True),
     jb_timeout_minutes = dict_get d ''timeoutMinutes'' JNull,
     jb_last_execution_at = jb_last_execution_at j,
     jb_last_execution_status = jb_last_execution_status j,
     jb_tags = dict_get d ''tags'' (JList [])\<rparr>"
    by (simp only: sum.inject)
  have a: "jb_is_active j = dict_get d ''isActive'' (JBool True)"
    using arg_cong [OF e, of jb_is_active] by simp
  have t: "jb_tags j = dict_get d ''tags'' (JList [])"
    using arg_cong [OF e, of jb_tags] by simp
  from a t 1 show ?thesis by simp
qed

text \<open>
  Claim C6. For every JSON object that holds a model's required fields and none of its
  optional fields, \<open>from_dict\<close> succeeds and every optional field of the result has its
  documented default (\<open>None\<close> for the optional texts, numbers, mappings and time stamps,
  \<open>true\<close> for the active flags, the empty list for the tags, and Unknown, Normal, Pending and
  Manual for the status, priority and trigger enumerations). A required field holds a value
  of its type: the required enumeration and time-stamp fields hold values their
  constructors accept (\<open>LogEntry\<close> converts \<open>timestamp\<close> and \<open>level\<close>, \<open>Alert\<close> converts
  \<open>alertType\<close> and \<open>severity\<close>, \<open>AlertInstance\<close> converts \<open>severity\<close> and \<open>triggeredAt\<close>);
  \<open>Job\<close>, \<open>Server\<close> and \<open>Execution\<close> have no such required field, so for them nothing is
  asked of the object but the absence of the optional keys. In particular a \<open>Job\<close> read from
  an object with no \<open>isActive\<close> key is active, with no \<open>tags\<close> key has the empty tag list, and
  with no \<open>priority\<close> key has priority Normal.
\<close>

theorem C6_missing_optional_fields_default:
  "((\<forall>k\<in>set Job_optional_keys. map_of d k = None) \<longrightarrow>
      Job_from_dict parse_date utcnow (JObj d) =
        Inr \<lparr>jb_job_id = dict_get d ''jobId'' (JStr []),
             jb_display_name = dict_get d ''displayName'' (JStr []),
             jb_server_name = dict_get d ''serverName'' (JStr []),
             jb_description = JNull,
             jb_schedule = JNull,
             jb_priority = JP_NORMAL,
             jb_is_active = JBool True,
             jb_timeout_minutes = JNull,
             jb_last_execution_at = None,
             jb_last_execution_status = None,
             jb_tags = JList []\<rparr>) \<and>
   ((\<forall>k\<in>set Server_optional_keys. map_of d k = None) \<longrightarrow>
      Server_from_dict parse_date utcnow (JObj d) =
        Inr \<lparr>sv_server_name = dict_get d ''serverName'' (JStr []),
             sv_display_name = JNull,
             sv_status = SS_UNKNOWN,
             sv_agent_version = JNull,
             sv_last_heartbeat = None,
             sv_is_active = JBool True,
             sv_ip_address = JNull,
             sv_os_info = JNull\<rparr>) \<and>
   ((\<forall>k\<in>set Execution_optional_keys. map_of d k = None) \<longrightarrow>
      Execution_from_dict parse_date utcnow (JObj d) =
        Inr \<lparr>ex_id = dict_get d ''id'' (JStr []),
             ex_job_id = dict_get d ''jobId'' (JStr []),
             ex_server_name = dict_get d ''serverName'' (JStr []),
             ex_status = ES_PENDING,
             ex_started_at = None,
             ex_completed_at = None,
             ex_duration_ms = JNull,
             ex_trigger_type = TT_MANUAL,
             ex_triggered_by = JNull,
             ex_error_message = JNull,
             ex_output_message = JNull,
             ex_parameters = JNull\<rparr>) \<and>
   ((\<forall>k\<in>set LogEntry_optional_keys. map_of d k = None) \<and>
    (if truthy (dict_get d ''timestamp'' JNull)
     then parse_date (dict_get d ''timestamp'' JNull) = Some ts else ts = utcnow) \<and>
    LogLevel_call (dict_get d ''level'' (JStr ''Information'')) = Inr lvl \<longrightarrow>
      LogEntry_from_dict parse_date utcnow (JObj d) =
        Inr \<lparr>le_id = dict_get d ''id'' (JStr []),
             le_timestamp = ts,
             le_level = lvl,
             le_message = dict_get d ''message'' (JStr []),
             le_server_name = JNull,
             le_job_id = JNull,
             le_execution_id = JNull,
             le_category = JNull,
             le_correlation_id = JNull,
             le_exception = JNull,
             le_properties = JNull,
             le_created_at = None\<rparr>) \<and>
   ((\<forall>k\<in>set Alert_optional_keys. map_of d k = None) \<and>
    AlertType_call (dict_get d ''alertType'' (JStr ''Custom'')) = Inr ty \<and>
    AlertSeverity_call (dict_get d ''severity'' (JStr ''Warning'')) = Inr sev \<longrightarrow>
      Alert_from_dict (JObj d) =
        Inr \<lparr>al_id = dict_get d ''id'' (JStr []),
             al_name = dict_get d ''name'' (JStr []),
             al_alert_type = ty,
             al_severity = sev,
             al_is_active = JBool True,
             al_description = JNull,
             al_condition = JNull\<rparr>) \<and>
   ((\<forall>k\<in>set AlertInstance_optional_keys. map_of d k = None) \<and>
    AlertSeverity_call (dict_get d ''severity'' (JStr ''Warning'')) = Inr sev \<and>
    (if truthy (dict_get d ''triggeredAt'' JNull)
     then parse_date (dict_get d ''triggeredAt'' JNull) = Some trig else trig = utcnow) \<longrightarrow>
      AlertInstance_from_dict parse_date utcnow (JObj d) =
        Inr \<lparr>ai_id = dict_get d ''id'' (JStr []),
             ai_alert_id = dict_get d ''alertId'' (JStr []),
             ai_alert_name = dict_get d ''alertName'' (JStr []),
             ai_severity = sev,
             ai_triggered_at = trig,
             ai_acknowledged_at = None,
             ai_resolved_at = None,
             ai_acknowledged_by = JNull,
             ai_resolved_by = JNull,
             ai_message = JNull\<rparr>) \<and>
   (\<forall>j. Job_from_dict parse_date utcnow (JObj d) = Inr j \<longrightarrow>
      (map_of d ''isActive'' = None \<longrightarrow> jb_is_active j = JBool True) \<and>
      (map_of d ''tags'' = None \<longrightarrow> jb_tags j = JList []) \<and>
      (map_of d ''priority'' = None \<longrightarrow> jb_priority j = JP_NORMAL))"
proof (intro conjI impI allI)
  assume "\<forall>k\<in>set Job_optional_keys. map_of d k = None"
  then show "Job_from_dict parse_date utcnow (JObj d) =
        Inr \<lparr>jb_job_id = dict_get d ''jobId'' (JStr []),
             jb_display_name = dict_get d ''displayName'' (JStr []),
             jb_server_name = dict_get d ''serverName'' (JStr []),
             jb_description = JNull,
             jb_schedule = JNull,
             jb_priority = JP_NORMAL,
             jb_is_active = JBool True,
             jb_timeout_minutes = JNull,
             jb_last_execution_at = None,
             jb_last_execution_status = None,
             jb_tags = JList []\<rparr>"
    by (rule Job_from_dict_defaults)
next
  assume "\<forall>k\<in>set Server_optional_keys. map_of d k = None"
  then show "Server_from_dict parse_date utcnow (JObj d) =
        Inr \<lparr>sv_server_name = dict_get d ''serverName'' (JStr []),
             sv_display_name = JNull,
             sv_status = SS_UNKNOWN,
             sv_agent_version = JNull,
             sv_last_heartbeat = None,
             sv_is_active = JBool True,
             sv_ip_address = JNull,
             sv_os_info = JNull\<rparr>"
    by (rule Server_from_dict_defaults)
next
  assume "\<forall>k\<in>set Execution_optional_keys. map_of d k = None"
  then show "Execution_from_dict parse_date utcnow (JObj d) =
        Inr \<lparr>ex_id = dict_get d ''id'' (JStr []),
             ex_job_id = dict_get d ''jobId'' (JStr []),
             ex_server_name = dict_get d ''serverName'' (JStr []),
             ex_status = ES_PENDING,
             ex_started_at = None,
             ex_completed_at = None,
             ex_duration_ms = JNull,
             ex_trigger_type = TT_MANUAL,
             ex_triggered_by = JNull,
             ex_error_message = JNull,
             ex_output_message = JNull,
             ex_parameters = JNull\<rparr>"
    by (rule Execution_from_dict_defaults)
next
  assume a: "(\<forall>k\<in>set LogEntry_optional_keys. map_of d k = None) \<and>
    (if truthy (dict_get d ''timestamp'' JNull)
     then parse_date (dict_get d ''timestamp'' JNull) = Some ts else ts = utcnow) \<and>
    LogLevel_call (dict_get d ''level'' (JStr ''Information'')) = Inr lvl"
  then have k: "\<forall>k\<in>set LogEntry_optional_keys. map_of d k = None"
    and l: "LogLevel_call (dict_get d ''level'' (JStr ''Information'')) = Inr lvl"
    by simp_all
  from a have t: "parse_or_now parse_date utcnow d ''timestamp'' = Inr ts"
    by (cases "truthy (dict_get d ''timestamp'' JNull)")
       (simp_all add: parse_or_now_accepted parse_or_now_falsy)
  show "LogEntry_from_dict parse_date utcnow (JObj d) =
        Inr \<lparr>le_id = dict_get d ''id'' (JStr []),
             le_timestamp = ts,
             le_level = lvl,
             le_message = dict_get d ''message'' (JStr []),
             le_server_name = JNull,
             le_job_id = JNull,
             le_execution_id = JNull,
             le_category = JNull,
             le_correlation_id = JNull,
             le_exception = JNull,
             le_properties = JNull,
             le_created_at = None\<rparr>"
    by (rule LogEntry_from_dict_defaults [OF k t l])
next
  assume a: "(\<forall>k\<in>set Alert_optional_keys. map_of d k = None) \<and>
    AlertType_call (dict_get d ''alertType'' (JStr ''Custom'')) = Inr ty \<and>
    AlertSeverity_call (dict_get d ''severity'' (JStr ''Warning'')) = Inr sev"
  then have k: "\<forall>k\<in>set Alert_optional_keys. map_of d k = None"
    and t: "AlertType_call (dict_get d ''alertType'' (JStr ''Custom'')) = Inr ty"
    and s: "AlertSeverity_call (dict_get d ''severity'' (JStr ''Warning'')) = Inr sev"
    by simp_all
  show "Alert_from_dict (JObj d) =
        Inr \<lparr>al_id = dict_get d ''id'' (JStr []),
             al_name = dict_get d ''name'' (JStr []),
             al_alert_type = ty,
             al_severity = sev,
             al_is_active = JBool True,
             al_description = JNull,
             al_condition = JNull\<rparr>"
    by (rule Alert_from_dict_defaults [OF k t s])
next
  assume a: "(\<forall>k\<in>set AlertInstance_optional_keys. map_of d k = None) \<and>
    AlertSeverity_call (dict_get d ''severity'' (JStr ''Warning'')) = Inr sev \<and>
    (if truthy (dict_get d ''triggeredAt'' JNull)
     then parse_date (dict_get d ''triggeredAt'' JNull) = Some trig else trig = utcnow)"
  then have k: "\<forall>k\<in>set AlertInstance_optional_keys. map_of d k = None"
    and s: "AlertSeverity_call (dict_get d ''severity'' (JStr ''Warning'')) = Inr sev"
    by simp_all
  from a have t: "parse_or_now parse_date utcnow d ''triggeredAt'' = Inr trig"
    by (cases "truthy (dict_get d ''triggeredAt'' JNull)")
       (simp_all add: parse_or_now_accepted parse_or_now_falsy)
  show "AlertInstance_from_dict parse_date utcnow (JObj d) =
        Inr \<lparr>ai_id = dict_get d ''id'' (JStr []),
             ai_alert_id = dict_get d ''alertId'' (JStr []),
             ai_alert_name = dict_get d ''alertName'' (JStr []),
             ai_severity = sev,
             ai_triggered_at = trig,
             ai_acknowledged_at = None,
             ai_resolved_at = None,
             ai_acknowledged_by = JNull,
             ai_resolved_by = JNull,
             ai_message = JNull\<rparr>"
    by (rule AlertInstance_from_dict_defaults [OF k s t])
next
  fix j
  assume j: "Job_from_dict parse_date utcnow (JObj d) = Inr j"
    and n: "map_of d ''isActive'' = None"
  from Job_from_dict_fields [OF j] n show "jb_is_active j = JBool True"
    by (simp add: dict_get_absent)
next
  fix j
  assume j: "Job_from_dict parse_date utcnow (JObj d) = Inr j"
    and n: "map_of d ''tags'' = None"
  from Job_from_dict_fields [OF j] n show "jb_tags j = JList []"
    by (simp add: dict_get_absent)
next
  fix j
  assume j: "Job_from_dict parse_date utcnow (JObj d) = Inr j"
    and n: "map_of d ''priority'' = None"
  from Job_from_dict_fields [OF j] n show "jb_priority j = JP_NORMAL"
    by (simp add: dict_get_absent JobPriority_call_default)
qed

theorem C6_missing_optional_fields_default_witness:
  "Job_from_dict (\<lambda>v. None) (0::nat)
     (JObj [(''jobId'', JStr ''J1''), (''displayName'', JStr ''Nightly''),
            (''serverName'', JStr ''web01'')])
   = Inr \<lparr>jb_job_id = JStr ''J1'',
          jb_display_name = JStr ''Nightly'',
          jb_server_name = JStr ''web01'',
          jb_description = JNull,
          jb_schedule = JNull,
          jb_priority = JP_NORMAL,
          jb_is_active = JBool True,
          jb_timeout_minutes = JNull,
          jb_last_execution_at = None,
          jb_last_execution_status = None,
          jb_tags = JList []\<rparr>"
proof -
  let ?d = "[(''jobId'', JStr ''J1''), (''displayName'', JStr ''Nightly''),
            (''serverName'', JStr ''web01'')]"
  have k: "\<forall>k\<in>set Job_optional_keys. map_of ?d k = None"
    by (simp add: Job_optional_keys_def)
  from C6_missing_optional_fields_default [THEN conjunct1, THEN mp, OF k]
  show ?thesis by (simp add: dict_get_def)
qed

section \<open>Model deserialization: time-stamp fields\<close>

lemma LogEntry_timestamps:
  "(\<forall>k\<in>set [''timestamp'', ''createdAt''].
      truthy (dict_get d k JNull) \<and> parse_date (dict_get d k JNull) = None \<longrightarrow>
      (\<exists>e. LogEntry_from_dict parse_date utcnow (JObj d) = Inl e)) \<and>
   (\<forall>r. LogEntry_from_dict parse_date utcnow (JObj d) = Inr r \<longrightarrow>
      ((truthy (dict_get d ''timestamp'' JNull) \<longrightarrow>
          parse_date (dict_get d ''timestamp'' JNull) = Some (le_timestamp r)) \<and>
       (\<not> truthy (dict_get d ''timestamp'' JNull) \<longrightarrow> le_timestamp r = utcnow)) \<and>
      ((truthy (dict_get d ''createdAt'' JNull) \<longrightarrow>
          (\<exists>t. parse_date (dict_get d ''createdAt'' JNull) = Some t \<and> le_created_at r = Some t)) \<and>
       (\<not> truthy (dict_get d ''createdAt'' JNull) \<longrightarrow> le_created_at r = None))) \<and>
   ((\<forall>k\<in>set [''timestamp'', ''createdAt''].
       \<not> truthy (dict_get d k JNull) \<or> parse_date (dict_get d k JNull) \<noteq> None) \<and>
    (\<exists>x. LogLevel_call (dict_get d ''level'' (JStr ''Information'')) = Inr x) \<longrightarrow>
      (\<exists>r. LogEntry_from_dict parse_date utcnow (JObj d) = Inr r))"
proof -
  have A: "\<forall>k\<in>set [''timestamp'', ''createdAt''].
      truthy (dict_get d k JNull) \<and> parse_date (dict_get d k JNull) = None \<longrightarrow>
      (\<exists>e. LogEntry_from_dict parse_date utcnow (JObj d) = Inl e)"
  proof (intro ballI impI)
    fix k
    assume k: "k \<in> set [''timestamp'', ''createdAt'']"
      and rej: "truthy (dict_get d k JNull) \<and> parse_date (dict_get d k JNull) = None"
    show "\<exists>e. LogEntry_from_dict parse_date utcnow (JObj d) = Inl e"
    proof (rule Inl_if_never_Inr)
      fix r
      assume "LogEntry_from_dict parse_date utcnow (JObj d) = Inr r"
      note s = LogEntry_from_dict_Inr [OF this]
      from rej have n: "parse_or_now parse_date utcnow d k = Inl ParserError"
        and o: "parse_if_present parse_date d k = Inl ParserError"
        by (simp_all add: parse_or_now_rejected parse_if_present_rejected)
      from k s n o show False by auto
    qed
  qed
  have B: "\<forall>r. LogEntry_from_dict parse_date utcnow (JObj d) = Inr r \<longrightarrow>
      ((truthy (dict_get d ''timestamp'' JNull) \<longrightarrow>
          parse_date (dict_get d ''timestamp'' JNull) = Some (le_timestamp r)) \<and>
       (\<not> truthy (dict_get d ''timestamp'' JNull) \<longrightarrow> le_timestamp r = utcnow)) \<and>
      ((truthy (dict_get d ''createdAt'' JNull) \<longrightarrow>
          (\<exists>t. parse_date (dict_get d ''createdAt'' JNull) = Some t \<and> le_created_at r = Some t)) \<and>
       (\<not> truthy (dict_get d ''createdAt'' JNull) \<longrightarrow> le_created_at r = None))"
  proof (intro allI impI)
    fix r
    assume "LogEntry_from_dict parse_date utcnow (JObj d) = Inr r"
    note s = LogEntry_from_dict_Inr [OF this]
    from s have s0: "parse_or_now parse_date utcnow d ''timestamp'' = Inr (le_timestamp r)" and
      s2: "parse_if_present parse_date d ''createdAt'' = Inr (le_created_at r)"
      by simp_all
    from parse_or_now_Inr [OF s0] parse_if_present_Inr [OF s2]
    show "((truthy (dict_get d ''timestamp'' JNull) \<longrightarrow>
          parse_date (dict_get d ''timestamp'' JNull) = Some (le_timestamp r)) \<and>
       (\<not> truthy (dict_get d ''timestamp'' JNull) \<longrightarrow> le_timestamp r = utcnow)) \<and>
      ((truthy (dict_get d ''createdAt'' JNull) \<longrightarrow>
          (\<exists>t. parse_date (dict_get d ''createdAt'' JNull) = Some t \<and> le_created_at r = Some t)) \<and>
       (\<not> truthy (dict_get d ''createdAt'' JNull) \<longrightarrow> le_created_at r = None))"
      by blast
  qed
  have C: "(\<forall>k\<in>set [''timestamp'', ''createdAt''].
       \<not> truthy (dict_get d k JNull) \<or> parse_date (dict_get d k JNull) \<noteq> None) \<and>
    (\<exists>x. LogLevel_call (dict_get d ''level'' (JStr ''Information'')) = Inr x) \<longrightarrow>
      (\<exists>r. LogEntry_from_dict parse_date utcnow (JObj d) = Inr r)"
  proof
    assume ok: "(\<forall>k\<in>set [''timestamp'', ''createdAt''].
       \<not> truthy (dict_get d k JNull) \<or> parse_date (dict_get d k JNull) \<noteq> None) \<and>
    (\<exists>x. LogLevel_call (dict_get d ''level'' (JStr ''Information'')) = Inr x)"
    from ok have "\<exists>ts. parse_or_now parse_date utcnow d ''timestamp'' = Inr ts"
      by (intro parse_or_now_ok) simp
    then obtain ts where c0: "parse_or_now parse_date utcnow d ''timestamp'' = Inr ts" ..
    from ok have "\<exists>lvl. LogLevel_call (dict_get d ''level'' (JStr ''Information'')) = Inr lvl"
      by simp
    then obtain lvl where c1: "LogLevel_call (dict_get d ''level'' (JStr ''Information'')) =
        Inr lvl" ..
    from ok have "\<exists>created. parse_if_present parse_date d ''createdAt'' = Inr created"
      by (intro parse_if_present_ok) simp
    then obtain created where c2: "parse_if_present parse_date d ''createdAt'' = Inr created" ..
    from LogEntry_from_dict_succeeds [OF c0 c1 c2]
    show "\<exists>r. LogEntry_from_dict parse_date utcnow (JObj d) = Inr r"
      by (rule exI)
  qed
  from A B C show ?thesis by (intro conjI)
qed

lemma Server_timestamps:
  "(\<forall>k\<in>set [''lastHeartbeat''].
      truthy (dict_get d k JNull) \<and> parse_date (dict_get d k JNull) = None \<longrightarrow>
      (\<exists>e. Server_from_dict parse_date utcnow (JObj d) = Inl e)) \<and>
   (\<forall>r. Server_from_dict parse_date utcnow (JObj d) = Inr r \<longrightarrow>
      ((truthy (dict_get d ''lastHeartbeat'' JNull) \<longrightarrow>
          (\<exists>t. parse_date (dict_get d ''lastHeartbeat'' JNull) = Some t \<and> sv_last_heartbeat r =
              Some t)) \<and>
       (\<not> truthy (dict_get d ''lastHeartbeat'' JNull) \<longrightarrow> sv_last_heartbeat r = None))) \<and>
   ((\<forall>k\<in>set [''lastHeartbeat''].
       \<not> truthy (dict_get d k JNull) \<or> parse_date (dict_get d k JNull) \<noteq> None) \<and>
    (\<exists>x. ServerStatus_call (dict_get d ''status'' (JStr ''Unknown'')) = Inr x) \<longrightarrow>
      (\<exists>r. Server_from_dict parse_date utcnow (JObj d) = Inr r))"
proof -
  have A: "\<forall>k\<in>set [''lastHeartbeat''].
      truthy (dict_get d k JNull) \<and> parse_date (dict_get d k JNull) = None \<longrightarrow>
      (\<exists>e. Server_from_dict parse_date utcnow (JObj d) = Inl e)"
  proof (intro ballI impI)
    fix k
    assume k: "k \<in> set [''lastHeartbeat'']"
      and rej: "truthy (dict_get d k JNull) \<and> parse_date (dict_get d k JNull) = None"
    show "\<exists>e. Server_from_dict parse_date utcnow (JObj d) = Inl e"
    proof (rule Inl_if_never_Inr)
      fix r
      assume "Server_from_dict parse_date utcnow (JObj d) = Inr r"
      note s = Server_from_dict_Inr [OF this]
      from rej have n: "parse_or_now parse_date utcnow d k = Inl ParserError"
        and o: "parse_if_present parse_date d k = Inl ParserError"
        by (simp_all add: parse_or_now_rejected parse_if_present_rejected)
      from k s n o show False by auto
    qed
  qed
  have B: "\<forall>r. Server_from_dict parse_date utcnow (JObj d) = Inr r \<longrightarrow>
      ((truthy (dict_get d ''lastHeartbeat'' JNull) \<longrightarrow>
          (\<exists>t. parse_date (dict_get d ''lastHeartbeat'' JNull) = Some t \<and> sv_last_heartbeat r =
              Some t)) \<and>
       (\<not> truthy (dict_get d ''lastHeartbeat'' JNull) \<longrightarrow> sv_last_heartbeat r = None))"
  proof (intro allI impI)
    fix r
    assume "Server_from_dict parse_date utcnow (JObj d) = Inr r"
    note s = Server_from_dict_Inr [OF this]
    from s have s1: "parse_if_present parse_date d ''lastHeartbeat'' = Inr (sv_last_heartbeat r)"
      by simp_all
    from parse_if_present_Inr [OF s1]
    show "((truthy (dict_get d ''lastHeartbeat'' JNull) \<longrightarrow>
          (\<exists>t. parse_date (dict_get d ''lastHeartbeat'' JNull) = Some t \<and> sv_last_heartbeat r =
              Some t)) \<and>
       (\<not> truthy (dict_get d ''lastHeartbeat'' JNull) \<longrightarrow> sv_last_heartbeat r = None))"
      by blast
  qed
  have C: "(\<forall>k\<in>set [''lastHeartbeat''].
       \<not> truthy (dict_get d k JNull) \<or> parse_date (dict_get d k JNull) \<noteq> None) \<and>
    (\<exists>x. ServerStatus_call (dict_get d ''status'' (JStr ''Unknown'')) = Inr x) \<longrightarrow>
      (\<exists>r. Server_from_dict parse_date utcnow (JObj d) = Inr r)"
  proof
    assume ok: "(\<forall>k\<in>set [''lastHeartbeat''].
       \<not> truthy (dict_get d k JNull) \<or> parse_date (dict_get d k JNull) \<noteq> None) \<and>
    (\<exists>x. ServerStatus_call (dict_get d ''status'' (JStr ''Unknown'')) = Inr x)"
    from ok have "\<exists>st. ServerStatus_call (dict_get d ''status'' (JStr ''Unknown'')) = Inr st"
      by simp
    then obtain st where c0: "ServerStatus_call (dict_get d ''status'' (JStr ''Unknown'')) =
        Inr st" ..
    from ok have "\<exists>hb. parse_if_present parse_date d ''lastHeartbeat'' = Inr hb"
      by (intro parse_if_present_ok) simp
    then obtain hb where c1: "parse_if_present parse_date d ''lastHeartbeat'' = Inr hb" ..
    from Server_from_dict_succeeds [OF c0 c1]
    show "\<exists>r. Server_from_dict parse_date utcnow (JObj d) = Inr r"
      by (rule exI)
  qed
  from A B C show ?thesis by (intro conjI)
qed

lemma Job_timestamps:
  "(\<forall>k\<in>set [''lastExecutionAt''].
      truthy (dict_get d k JNull) \<and> parse_date (dict_get d k JNull) = None \<longrightarrow>
      (\<exists>e. Job_from_dict parse_date utcnow (JObj d) = Inl e)) \<and>
   (\<forall>r. Job_from_dict parse_date utcnow (JObj d) = Inr r \<longrightarrow>
      ((truthy (dict_get d ''lastExecutionAt'' JNull) \<longrightarrow>
          (\<exists>t. parse_date (dict_get d ''lastExecutionAt'' JNull) = Some t \<and>
              jb_last_execution_at r = Some t)) \<and>
       (\<not> truthy (dict_get d ''lastExecutionAt'' JNull) \<longrightarrow> jb_last_execution_at r = None))) \<and>
   ((\<forall>k\<in>set [''lastExecutionAt''].
       \<not> truthy (dict_get d k JNull) \<or> parse_date (dict_get d k JNull) \<noteq> None) \<and>
    (\<exists>x. JobPriority_call (dict_get d ''priority'' (JStr ''Normal'')) = Inr x) \<and>
    (\<exists>x. last_execution_status_arg d = Inr x) \<longrightarrow>
      (\<exists>r. Job_from_dict parse_date utcnow (JObj d) = Inr r))"
proof -
  have A: "\<forall>k\<in>set [''lastExecutionAt''].
      truthy (dict_get d k JNull) \<and> parse_date (dict_get d k JNull) = None \<longrightarrow>
      (\<exists>e. Job_from_dict parse_date utcnow (JObj d) = Inl e)"
  proof (intro ballI impI)
    fix k
    assume k: "k \<in> set [''lastExecutionAt'']"
      and rej: "truthy (dict_get d k JNull) \<and> parse_date (dict_get d k JNull) = None"
    show "\<exists>e. Job_from_dict parse_date utcnow (JObj d) = Inl e"
    proof (rule Inl_if_never_Inr)
      fix r
      assume "Job_from_dict parse_date utcnow (JObj d) = Inr r"
      note s = Job_from_dict_Inr [OF this]
      from rej have n: "parse_or_now parse_date utcnow d k = Inl ParserError"
        and o: "parse_if_present parse_date d k = Inl ParserError"
        by (simp_all add: parse_or_now_rejected parse_if_present_rejected)
      from k s n o show False by auto
    qed
  qed
  have B: "\<forall>r. Job_from_dict parse_date utcnow (JObj d) = Inr r \<longrightarrow>
      ((truthy (dict_get d ''lastExecutionAt'' JNull) \<longrightarrow>
          (\<exists>t. parse_date (dict_get d ''lastExecutionAt'' JNull) = Some t \<and>
              jb_last_execution_at r = Some t)) \<and>
       (\<not> truthy (dict_get d ''lastExecutionAt'' JNull) \<longrightarrow> jb_last_execution_at r = None))"
  proof (intro allI impI)
    fix r
    assume "Job_from_dict parse_date utcnow (JObj d) = Inr r"
    note s = Job_from_dict_Inr [OF this]
    from s have s1: "parse_if_present parse_date d ''lastExecutionAt'' =
        Inr (jb_last_execution_at r)"
      by simp_all
    from parse_if_present_Inr [OF s1]
    show "((truthy (dict_get d ''lastExecutionAt'' JNull) \<longrightarrow>
          (\<exists>t. parse_date (dict_get d ''lastExecutionAt'' JNull) = Some t \<and>
              jb_last_execution_at r = Some t)) \<and>
       (\<not> truthy (dict_get d ''lastExecutionAt'' JNull) \<longrightarrow> jb_last_execution_at r = None))"
      by blast
  qed
  have C: "(\<forall>k\<in>set [''lastExecutionAt''].
       \<not> truthy (dict_get d k JNull) \<or> parse_date (dict_get d k JNull) \<noteq> None) \<and>
    (\<exists>x. JobPriority_call (dict_get d ''priority'' (JStr ''Normal'')) = Inr x) \<and>
    (\<exists>x. last_execution_status_arg d = Inr x) \<longrightarrow>
      (\<exists>r. Job_from_dict parse_date utcnow (JObj d) = Inr r)"
  proof
    assume ok: "(\<forall>k\<in>set [''lastExecutionAt''].
       \<not> truthy (dict_get d k JNull) \<or> parse_date (dict_get d k JNull) \<noteq> None) \<and>
    (\<exists>x. JobPriority_call (dict_get d ''priority'' (JStr ''Normal'')) = Inr x) \<and>
    (\<exists>x. last_execution_status_arg d = Inr x)"
    from ok have "\<exists>prio. JobPriority_call (dict_get d ''priority'' (JStr ''Normal'')) = Inr prio"
      by simp
    then obtain prio where c0: "JobPriority_call (dict_get d ''priority'' (JStr ''Normal'')) =
        Inr prio" ..
    from ok have "\<exists>last_at. parse_if_present parse_date d ''lastExecutionAt'' = Inr last_at"
      by (intro parse_if_present_ok) simp
    then obtain last_at where c1: "parse_if_present parse_date d ''lastExecutionAt'' =
        Inr last_at" ..
    from ok have "\<exists>last_status. last_execution_status_arg d = Inr last_status"
      by simp
    then obtain last_status where c2: "last_execution_status_arg d = Inr last_status" ..
    from Job_from_dict_succeeds [OF c0 c1 c2]
    show "\<exists>r. Job_from_dict parse_date utcnow (JObj d) = Inr r"
      by (rule exI)
  qed
  from A B C show ?thesis by (intro conjI)
qed

lemma Execution_timestamps:
  "(\<forall>k\<in>set [''startedAt'', ''completedAt''].
      truthy (dict_get d k JNull) \<and> parse_date (dict_get d k JNull) = None \<longrightarrow>
      (\<exists>e. Execution_from_dict parse_date utcnow (JObj d) = Inl e)) \<and>
   (\<forall>r. Execution_from_dict parse_date utcnow (JObj d) = Inr r \<longrightarrow>
      ((truthy (dict_get d ''startedAt'' JNull) \<longrightarrow>
          (\<exists>t. parse_date (dict_get d ''startedAt'' JNull) = Some t \<and> ex_started_at r = Some t)) \<and>
       (\<not> truthy (dict_get d ''startedAt'' JNull) \<longrightarrow> ex_started_at r = None)) \<and>
      ((truthy (dict_get d ''completedAt'' JNull) \<longrightarrow>
          (\<exists>t. parse_date (dict_get d ''completedAt'' JNull) = Some t \<and> ex_completed_at r =
              Some t)) \<and>
       (\<not> truthy (dict_get d ''completedAt'' JNull) \<longrightarrow> ex_completed_at r = None))) \<and>
   ((\<forall>k\<in>set [''startedAt'', ''completedAt''].
       \<not> truthy (dict_get d k JNull) \<or> parse_date (dict_get d k JNull) \<noteq> None) \<and>
    (\<exists>x. ExecutionStatus_call (dict_get d ''status'' (JStr ''Pending'')) = Inr x) \<and>
    (\<exists>x. TriggerType_call (dict_get d ''triggerType'' (JStr ''Manual'')) = Inr x) \<longrightarrow>
      (\<exists>r. Execution_from_dict parse_date utcnow (JObj d) = Inr r))"
proof -
  have A: "\<forall>k\<in>set [''startedAt'', ''completedAt''].
      truthy (dict_get d k JNull) \<and> parse_date (dict_get d k JNull) = None \<longrightarrow>
      (\<exists>e. Execution_from_dict parse_date utcnow (JObj d) = Inl e)"
  proof (intro ballI impI)
    fix k
    assume k: "k \<in> set [''startedAt'', ''completedAt'']"
      and rej: "truthy (dict_get d k JNull) \<and> parse_date (dict_get d k JNull) = None"
    show "\<exists>e. Execution_from_dict parse_date utcnow (JObj d) = Inl e"
    proof (rule Inl_if_never_Inr)
      fix r
      assume "Execution_from_dict parse_date utcnow (JObj d) = Inr r"
      note s = Execution_from_dict_Inr [OF this]
      from rej have n: "parse_or_now parse_date utcnow d k = Inl ParserError"
        and o: "parse_if_present parse_date d k = Inl ParserError"
        by (simp_all add: parse_or_now_rejected parse_if_present_rejected)
      from k s n o show False by auto
    qed
  qed
  have B: "\<forall>r. Execution_from_dict parse_date utcnow (JObj d) = Inr r \<longrightarrow>
      ((truthy (dict_get d ''startedAt'' JNull) \<longrightarrow>
          (\<exists>t. parse_date (dict_get d ''startedAt'' JNull) = Some t \<and> ex_started_at r = Some t)) \<and>
       (\<not> truthy (dict_get d ''startedAt'' JNull) \<longrightarrow> ex_started_at r = None)) \<and>
      ((truthy (dict_get d ''completedAt'' JNull) \<longrightarrow>
          (\<exists>t. parse_date (dict_get d ''completedAt'' JNull) = Some t \<and> ex_completed_at r =
              Some t)) \<and>
       (\<not> truthy (dict_get d ''completedAt'' JNull) \<longrightarrow> ex_completed_at r = None))"
  proof (intro allI impI)
    fix r
    assume "Execution_from_dict parse_date utcnow (JObj d) = Inr r"
    note s = Execution_from_dict_Inr [OF this]
    from s have s1: "parse_if_present parse_date d ''startedAt'' = Inr (ex_started_at r)" and
      s2: "parse_if_present parse_date d ''completedAt'' = Inr (ex_completed_at r)"
      by simp_all
    from parse_if_present_Inr [OF s1] parse_if_present_Inr [OF s2]
    show "((truthy (dict_get d ''startedAt'' JNull) \<longrightarrow>
          (\<exists>t. parse_date (dict_get d ''startedAt'' JNull) = Some t \<and> ex_started_at r = Some t)) \<and>
       (\<not> truthy (dict_get d ''startedAt'' JNull) \<longrightarrow> ex_started_at r = None)) \<and>
      ((truthy (dict_get d ''completedAt'' JNull) \<longrightarrow>
          (\<exists>t. parse_date (dict_get d ''completedAt'' JNull) = Some t \<and> ex_completed_at r =
              Some t)) \<and>
       (\<not> truthy (dict_get d ''completedAt'' JNull) \<longrightarrow> ex_completed_at r = None))"
      by blast
  qed
  have C: "(\<forall>k\<in>set [''startedAt'', ''completedAt''].
       \<not> truthy (dict_get d k JNull) \<or> parse_date (dict_get d k JNull) \<noteq> None) \<and>
    (\<exists>x. ExecutionStatus_call (dict_get d ''status'' (JStr ''Pending'')) = Inr x) \<and>
    (\<exists>x. TriggerType_call (dict_get d ''triggerType'' (JStr ''Manual'')) = Inr x) \<longrightarrow>
      (\<exists>r. Execution_from_dict parse_date utcnow (JObj d) = Inr r)"
  proof
    assume ok: "(\<forall>k\<in>set [''startedAt'', ''completedAt''].
       \<not> truthy (dict_get d k JNull) \<or> parse_date (dict_get d k JNull) \<noteq> None) \<and>
    (\<exists>x. ExecutionStatus_call (dict_get d ''status'' (JStr ''Pending'')) = Inr x) \<and>
    (\<exists>x. TriggerType_call (dict_get d ''triggerType'' (JStr ''Manual'')) = Inr x)"
    from ok have "\<exists>st. ExecutionStatus_call (dict_get d ''status'' (JStr ''Pending'')) = Inr st"
      by simp
    then obtain st where c0: "ExecutionStatus_call (dict_get d ''status'' (JStr ''Pending'')) =
        Inr st" ..
    from ok have "\<exists>started. parse_if_present parse_date d ''startedAt'' = Inr started"
      by (intro parse_if_present_ok) simp
    then obtain started where c1: "parse_if_present parse_date d ''startedAt'' = Inr started" ..
    from ok have "\<exists>completed. parse_if_present parse_date d ''completedAt'' = Inr completed"
      by (intro parse_if_present_ok) simp
    then obtain completed where c2: "parse_if_present parse_date d ''completedAt'' =
        Inr completed" ..
    from ok have "\<exists>trig. TriggerType_call (dict_get d ''triggerType'' (JStr ''Manual'')) = Inr trig"
      by simp
    then obtain trig where c3: "TriggerType_call (dict_get d ''triggerType'' (JStr ''Manual'')) =
        Inr trig" ..
    from Execution_from_dict_succeeds [OF c0 c1 c2 c3]
    show "\<exists>r. Execution_from_dict parse_date utcnow (JObj d) = Inr r"
      by (rule exI)
  qed
  from A B C show ?thesis by (intro conjI)
qed

lemma AlertInstance_timestamps:
  "(\<forall>k\<in>set [''triggeredAt'', ''acknowledgedAt'', ''resolvedAt''].
      truthy (dict_get d k JNull) \<and> parse_date (dict_get d k JNull) = None \<longrightarrow>
      (\<exists>e. AlertInstance_from_dict parse_date utcnow (JObj d) = Inl e)) \<and>
   (\<forall>r. AlertInstance_from_dict parse_date utcnow (JObj d) = Inr r \<longrightarrow>
      ((truthy (dict_get d ''triggeredAt'' JNull) \<longrightarrow>
          parse_date (dict_get d ''triggeredAt'' JNull) = Some (ai_triggered_at r)) \<and>
       (\<not> truthy (dict_get d ''triggeredAt'' JNull) \<longrightarrow> ai_triggered_at r = utcnow)) \<and>
      ((truthy (dict_get d ''acknowledgedAt'' JNull) \<longrightarrow>
          (\<exists>t. parse_date (dict_get d ''acknowledgedAt'' JNull) = Some t \<and> ai_acknowledged_at r =
              Some t)) \<and>
       (\<not> truthy (dict_get d ''acknowledgedAt'' JNull) \<longrightarrow> ai_acknowledged_at r = None)) \<and>
      ((truthy (dict_get d ''resolvedAt'' JNull) \<longrightarrow>
          (\<exists>t. parse_date (dict_get d ''resolvedAt'' JNull) = Some t \<and> ai_resolved_at r = Some t)) \<and>
       (\<not> truthy (dict_get d ''resolvedAt'' JNull) \<longrightarrow> ai_resolved_at r = None))) \<and>
   ((\<forall>k\<in>set [''triggeredAt'', ''acknowledgedAt'', ''resolvedAt''].
       \<not> truthy (dict_get d k JNull) \<or> parse_date (dict_get d k JNull) \<noteq> None) \<and>
    (\<exists>x. AlertSeverity_call (dict_get d ''severity'' (JStr ''Warning'')) = Inr x) \<longrightarrow>
      (\<exists>r. AlertInstance_from_dict parse_date utcnow (JObj d) = Inr r))"
proof -
  have A: "\<forall>k\<in>set [''triggeredAt'', ''acknowledgedAt'', ''resolvedAt''].
      truthy (dict_get d k JNull) \<and> parse_date (dict_get d k JNull) = None \<longrightarrow>
      (\<exists>e. AlertInstance_from_dict parse_date utcnow (JObj d) = Inl e)"
  proof (intro ballI impI)
    fix k
    assume k: "k \<in> set [''triggeredAt'', ''acknowledgedAt'', ''resolvedAt'']"
      and rej: "truthy (dict_get d k JNull) \<and> parse_date (dict_get d k JNull) = None"
    show "\<exists>e. AlertInstance_from_dict parse_date utcnow (JObj d) = Inl e"
    proof (rule Inl_if_never_Inr)
      fix r
      assume "AlertInstance_from_dict parse_date utcnow (JObj d) = Inr r"
      note s = AlertInstance_from_dict_Inr [OF this]
      from rej have n: "parse_or_now parse_date utcnow d k = Inl ParserError"
        and o: "parse_if_present parse_date d k = Inl ParserError"
        by (simp_all add: parse_or_now_rejected parse_if_present_rejected)
      from k s n o show False by auto
    qed
  qed
  have B: "\<forall>r. AlertInstance_from_dict parse_date utcnow (JObj d) = Inr r \<longrightarrow>
      ((truthy (dict_get d ''triggeredAt'' JNull) \<longrightarrow>
          parse_date (dict_get d ''triggeredAt'' JNull) = Some (ai_triggered_at r)) \<and>
       (\<not> truthy (dict_get d ''triggeredAt'' JNull) \<longrightarrow> ai_triggered_at r = utcnow)) \<and>
      ((truthy (dict_get d ''acknowledgedAt'' JNull) \<longrightarrow>
          (\<exists>t. parse_date (dict_get d ''acknowledgedAt'' JNull) = Some t \<and> ai_acknowledged_at r =
              Some t)) \<and>
       (\<not> truthy (dict_get d ''acknowledgedAt'' JNull) \<longrightarrow> ai_acknowledged_at r = None)) \<and>
      ((truthy (dict_get d ''resolvedAt'' JNull) \<longrightarrow>
          (\<exists>t. parse_date (dict_get d ''resolvedAt'' JNull) = Some t \<and> ai_resolved_at r = Some t)) \<and>
       (\<not> truthy (dict_get d ''resolvedAt'' JNull) \<longrightarrow> ai_resolved_at r = None))"
  proof (intro allI impI)
    fix r
    assume "AlertInstance_from_dict parse_date utcnow (JObj d) = Inr r"
    note s = AlertInstance_from_dict_Inr [OF this]
    from s have s1: "parse_or_now parse_date utcnow d ''triggeredAt'' = Inr (ai_triggered_at r)" and
      s2: "parse_if_present parse_date d ''acknowledgedAt'' = Inr (ai_acknowledged_at r)" and
      s3: "parse_if_present parse_date d ''resolvedAt'' = Inr (ai_resolved_at r)"
      by simp_all
    from parse_or_now_Inr [OF s1] parse_if_present_Inr [OF s2] parse_if_present_Inr [OF s3]
    show "((truthy (dict_get d ''triggeredAt'' JNull) \<longrightarrow>
          parse_date (dict_get d ''triggeredAt'' JNull) = Some (ai_triggered_at r)) \<and>
       (\<not> truthy (dict_get d ''triggeredAt'' JNull) \<longrightarrow> ai_triggered_at r = utcnow)) \<and>
      ((truthy (dict_get d ''acknowledgedAt'' JNull) \<longrightarrow>
          (\<exists>t. parse_date (dict_get d ''acknowledgedAt'' JNull) = Some t \<and> ai_acknowledged_at r =
              Some t)) \<and>
       (\<not> truthy (dict_get d ''acknowledgedAt'' JNull) \<longrightarrow> ai_acknowledged_at r = None)) \<and>
      ((truthy (dict_get d ''resolvedAt'' JNull) \<longrightarrow>
          (\<exists>t. parse_date (dict_get d ''resolvedAt'' JNull) = Some t \<and> ai_resolved_at r = Some t)) \<and>
       (\<not> truthy (dict_get d ''resolvedAt'' JNull) \<longrightarrow> ai_resolved_at r = None))"
      by blast
  qed
  have C: "(\<forall>k\<in>set [''triggeredAt'', ''acknowledgedAt'', ''resolvedAt''].
       \<not> truthy (dict_get d k JNull) \<or> parse_date (dict_get d k JNull) \<noteq> None) \<and>
    (\<exists>x. AlertSeverity_call (dict_get d ''severity'' (JStr ''Warning'')) = Inr x) \<longrightarrow>
      (\<exists>r. AlertInstance_from_dict parse_date utcnow (JObj d) = Inr r)"
  proof
    assume ok: "(\<forall>k\<in>set [''triggeredAt'', ''acknowledgedAt'', ''resolvedAt''].
       \<not> truthy (dict_get d k JNull) \<or> parse_date (dict_get d k JNull) \<noteq> None) \<and>
    (\<exists>x. AlertSeverity_call (dict_get d ''severity'' (JStr ''Warning'')) = Inr x)"
    from ok have "\<exists>sev. AlertSeverity_call (dict_get d ''severity'' (JStr ''Warning'')) = Inr sev"
      by simp
    then obtain sev where c0: "AlertSeverity_call (dict_get d ''severity'' (JStr ''Warning'')) =
        Inr sev" ..
    from ok have "\<exists>trig. parse_or_now parse_date utcnow d ''triggeredAt'' = Inr trig"
      by (intro parse_or_now_ok) simp
    then obtain trig where c1: "parse_or_now parse_date utcnow d ''triggeredAt'' = Inr trig" ..
    from ok have "\<exists>ack. parse_if_present parse_date d ''acknowledgedAt'' = Inr ack"
      by (intro parse_if_present_ok) simp
    then obtain ack where c2: "parse_if_present parse_date d ''acknowledgedAt'' = Inr ack" ..
    from ok have "\<exists>res. parse_if_present parse_date d ''resolvedAt'' = Inr res"
      by (intro parse_if_present_ok) simp
    then obtain res where c3: "parse_if_present parse_date d ''resolvedAt'' = Inr res" ..
    from AlertInstance_from_dict_succeeds [OF c0 c1 c2 c3]
    show "\<exists>r. AlertInstance_from_dict parse_date utcnow (JObj d) = Inr r"
      by (rule exI)
  qed
  from A B C show ?thesis by (intro conjI)
qed

text \<open>
  Claim C3, as stated, fails: in the object \<open>{"serverName": "web01", "lastHeartbeat": null}\<close>
  the time-stamp field is present and its value is no ISO-8601 text (the parser of this
  example accepts nothing at all), yet \<open>Server.from_dict\<close> succeeds. The guard
  \<open>if data.get("lastHeartbeat")\<close> skips the parser for every falsy value.
\<close>

theorem C3_falsy_timestamp_counterexample:
  "Server_from_dict (\<lambda>v. None) (0::nat)
     (JObj [(''serverName'', JStr ''web01''), (''lastHeartbeat'', JNull)])
   = Inr \<lparr>sv_server_name = JStr ''web01'',
          sv_display_name = JNull,
          sv_status = SS_UNKNOWN,
          sv_agent_version = JNull,
          sv_last_heartbeat = None,
          sv_is_active = JBool True,
          sv_ip_address = JNull,
          sv_os_info = JNull\<rparr>"
  by (simp add: dict_get_def ServerStatus_call_def ServerStatus_members_def
      parse_if_present_def try_then_def)

text \<open>
  Claim C3, amended. For each model with time-stamp fields (\<open>LogEntry\<close>: \<open>timestamp\<close>,
  \<open>createdAt\<close>; \<open>Server\<close>: \<open>lastHeartbeat\<close>; \<open>Job\<close>: \<open>lastExecutionAt\<close>; \<open>Execution\<close>:
  \<open>startedAt\<close>, \<open>completedAt\<close>; \<open>AlertInstance\<close>: \<open>triggeredAt\<close>, \<open>acknowledgedAt\<close>,
  \<open>resolvedAt\<close>) and every JSON object: when a time-stamp field holds a truthy value that
  the date parser rejects, \<open>from_dict\<close> fails; every result of \<open>from_dict\<close> carries, for each
  time-stamp field with a truthy value, the time stamp the parser returns for that value;
  a time-stamp field that is missing or falsy (null, the empty string, ...) is not parsed
  and gives the field's default (the current time for \<open>timestamp\<close> and \<open>triggeredAt\<close>,
  \<open>None\<close> for the others); and \<open>from_dict\<close> succeeds when every time-stamp field is falsy or
  accepted by the parser and the enumeration fields are accepted by their constructors.
\<close>

theorem C3_timestamp_fields:
  "((\<forall>k\<in>set [''timestamp'', ''createdAt''].
      truthy (dict_get d k JNull) \<and> parse_date (dict_get d k JNull) = None \<longrightarrow>
      (\<exists>e. LogEntry_from_dict parse_date utcnow (JObj d) = Inl e)) \<and>
   (\<forall>r. LogEntry_from_dict parse_date utcnow (JObj d) = Inr r \<longrightarrow>
      ((truthy (dict_get d ''timestamp'' JNull) \<longrightarrow>
          parse_date (dict_get d ''timestamp'' JNull) = Some (le_timestamp r)) \<and>
       (\<not> truthy (dict_get d ''timestamp'' JNull) \<longrightarrow> le_timestamp r = utcnow)) \<and>
      ((truthy (dict_get d ''createdAt'' JNull) \<longrightarrow>
          (\<exists>t. parse_date (dict_get d ''createdAt'' JNull) = Some t \<and> le_created_at r = Some t)) \<and>
       (\<not> truthy (dict_get d ''createdAt'' JNull) \<longrightarrow> le_created_at r = None))) \<and>
   ((\<forall>k\<in>set [''timestamp'', ''createdAt''].
       \<not> truthy (dict_get d k JNull) \<or> parse_date (dict_get d k JNull) \<noteq> None) \<and>
    (\<exists>x. LogLevel_call (dict_get d ''level'' (JStr ''Information'')) = Inr x) \<longrightarrow>
      (\<exists>r. LogEntry_from_dict parse_date utcnow (JObj d) = Inr r))) \<and>
   ((\<forall>k\<in>set [''lastHeartbeat''].
      truthy (dict_get d k JNull) \<and> parse_date (dict_get d k JNull) = None \<longrightarrow>
      (\<exists>e. Server_from_dict parse_date utcnow (JObj d) = Inl e)) \<and>
   (\<forall>r. Server_from_dict parse_date utcnow (JObj d) = Inr r \<longrightarrow>
      ((truthy (dict_get d ''lastHeartbeat'' JNull) \<longrightarrow>
          (\<exists>t. parse_date (dict_get d ''lastHeartbeat'' JNull) = Some t \<and> sv_last_heartbeat r =
              Some t)) \<and>
       (\<not> truthy (dict_get d ''lastHeartbeat'' JNull) \<longrightarrow> sv_last_heartbeat r = None))) \<and>
   ((\<forall>k\<in>set [''lastHeartbeat''].
       \<not> truthy (dict_get d k JNull) \<or> parse_date (dict_get d k JNull) \<noteq> None) \<and>
    (\<exists>x. ServerStatus_call (dict_get d ''status'' (JStr ''Unknown'')) = Inr x) \<longrightarrow>
      (\<exists>r. Server_from_dict parse_date utcnow (JObj d) = Inr r))) \<and>
   ((\<forall>k\<in>set [''lastExecutionAt''].
      truthy (dict_get d k JNull) \<and> parse_date (dict_get d k JNull) = None \<longrightarrow>
      (\<exists>e. Job_from_dict parse_date utcnow (JObj d) = Inl e)) \<and>
   (\<forall>r. Job_from_dict parse_date utcnow (JObj d) = Inr r \<longrightarrow>
      ((truthy (dict_get d ''lastExecutionAt'' JNull) \<longrightarrow>
          (\<exists>t. parse_date (dict_get d ''lastExecutionAt'' JNull) = Some t \<and>
              jb_last_execution_at r = Some t)) \<and>
       (\<not> truthy (dict_get d ''lastExecutionAt'' JNull) \<longrightarrow> jb_last_execution_at r = None))) \<and>
   ((\<forall>k\<in>set [''lastExecutionAt''].
       \<not> truthy (dict_get d k JNull) \<or> parse_date (dict_get d k JNull) \<noteq> None) \<and>
    (\<exists>x. JobPriority_call (dict_get d ''priority'' (JStr ''Normal'')) = Inr x) \<and>
    (\<exists>x. last_execution_status_arg d = Inr x) \<longrightarrow>
      (\<exists>r. Job_from_dict parse_date utcnow (JObj d) = Inr r))) \<and>
   ((\<forall>k\<in>set [''startedAt'', ''completedAt''].
      truthy (dict_get d k JNull) \<and> parse_date (dict_get d k JNull) = None \<longrightarrow>
      (\<exists>e. Execution_from_dict parse_date utcnow (JObj d) = Inl e)) \<and>
   (\<forall>r. Execution_from_dict parse_date utcnow (JObj d) = Inr r \<longrightarrow>
      ((truthy (dict_get d ''startedAt'' JNull) \<longrightarrow>
          (\<exists>t. parse_date (dict_get d ''startedAt'' JNull) = Some t \<and> ex_started_at r = Some t)) \<and>
       (\<not> truthy (dict_get d ''startedAt'' JNull) \<longrightarrow> ex_started_at r = None)) \<and>
      ((truthy (dict_get d ''completedAt'' JNull) \<longrightarrow>
          (\<exists>t. parse_date (dict_get d ''completedAt'' JNull) = Some t \<and> ex_completed_at r =
              Some t)) \<and>
       (\<not> truthy (dict_get d ''completedAt'' JNull) \<longrightarrow> ex_completed_at r = None))) \<and>
   ((\<forall>k\<in>set [''startedAt'', ''completedAt''].
       \<not> truthy (dict_get d k JNull) \<or> parse_date (dict_get d k JNull) \<noteq> None) \<and>
    (\<exists>x. ExecutionStatus_call (dict_get d ''status'' (JStr ''Pending'')) = Inr x) \<and>
    (\<exists>x. TriggerType_call (dict_get d ''triggerType'' (JStr ''Manual'')) = Inr x) \<longrightarrow>
      (\<exists>r. Execution_from_dict parse_date utcnow (JObj d) = Inr r))) \<and>
   ((\<forall>k\<in>set [''triggeredAt'', ''acknowledgedAt'', ''resolvedAt''].
      truthy (dict_get d k JNull) \<and> parse_date (dict_get d k JNull) = None \<longrightarrow>
      (\<exists>e. AlertInstance_from_dict parse_date utcnow (JObj d) = Inl e)) \<and>
   (\<forall>r. AlertInstance_from_dict parse_date utcnow (JObj d) = Inr r \<longrightarrow>
      ((truthy (dict_get d ''triggeredAt'' JNull) \<longrightarrow>
          parse_date (dict_get d ''triggeredAt'' JNull) = Some (ai_triggered_at r)) \<and>
       (\<not> truthy (dict_get d ''triggeredAt'' JNull) \<longrightarrow> ai_triggered_at r = utcnow)) \<and>
      ((truthy (dict_get d ''acknowledgedAt'' JNull) \<longrightarrow>
          (\<exists>t. parse_date (dict_get d ''acknowledgedAt'' JNull) = Some t \<and> ai_acknowledged_at r =
              Some t)) \<and>
       (\<not> truthy (dict_get d ''acknowledgedAt'' JNull) \<longrightarrow> ai_acknowledged_at r = None)) \<and>
      ((truthy (dict_get d ''resolvedAt'' JNull) \<longrightarrow>
          (\<exists>t. parse_date (dict_get d ''resolvedAt'' JNull) = Some t \<and> ai_resolved_at r = Some t)) \<and>
       (\<not> truthy (dict_get d ''resolvedAt'' JNull) \<longrightarrow> ai_resolved_at r = None))) \<and>
   ((\<forall>k\<in>set [''triggeredAt'', ''acknowledgedAt'', ''resolvedAt''].
       \<not> truthy (dict_get d k JNull) \<or> parse_date (dict_get d k JNull) \<noteq> None) \<and>
    (\<exists>x. AlertSeverity_call (dict_get d ''severity'' (JStr ''Warning'')) = Inr x) \<longrightarrow>
      (\<exists>r. AlertInstance_from_dict parse_date utcnow (JObj d) = Inr r)))"
  by (rule conjI [OF LogEntry_timestamps conjI [OF Server_timestamps conjI [OF Job_timestamps
        conjI [OF Execution_timestamps AlertInstance_timestamps]]]])

theorem C3_timestamp_fields_witness:
  "(\<exists>r. Server_from_dict
          (\<lambda>v. if v = JStr ''2024-05-01T10:00:00Z'' then Some (1714557600::nat) else None) 0
          (JObj [(''serverName'', JStr ''web01''),
                 (''lastHeartbeat'', JStr ''2024-05-01T10:00:00Z'')]) = Inr r \<and>
        sv_last_heartbeat r = Some 1714557600) \<and>
   (\<exists>e. Server_from_dict
          (\<lambda>v. if v = JStr ''2024-05-01T10:00:00Z'' then Some (1714557600::nat) else None) 0
          (JObj [(''serverName'', JStr ''web01''), (''lastHeartbeat'', JStr ''yesterday'')])
        = Inl e)"
proof -
  let ?p = "\<lambda>v. if v = JStr ''2024-05-01T10:00:00Z'' then Some (1714557600::nat) else None"
  let ?d = "[(''serverName'', JStr ''web01''), (''lastHeartbeat'', JStr ''2024-05-01T10:00:00Z'')]"
  let ?d' = "[(''serverName'', JStr ''web01''), (''lastHeartbeat'', JStr ''yesterday'')]"
  note good = C3_timestamp_fields [where d = ?d and parse_date = ?p and utcnow = 0,
      THEN conjunct2, THEN conjunct1]
  note bad = C3_timestamp_fields [where d = ?d' and parse_date = ?p and utcnow = 0,
      THEN conjunct2, THEN conjunct1]
  have v: "dict_get ?d ''lastHeartbeat'' JNull = JStr ''2024-05-01T10:00:00Z''"
    by (simp add: dict_get_def)
  have ok: "(\<forall>k\<in>set [''lastHeartbeat''].
       \<not> truthy (dict_get ?d k JNull) \<or> ?p (dict_get ?d k JNull) \<noteq> None) \<and>
    (\<exists>x. ServerStatus_call (dict_get ?d ''status'' (JStr ''Unknown'')) = Inr x)"
    by (simp add: dict_get_def ServerStatus_call_default)
  from good [THEN conjunct2, THEN conjunct2, THEN mp, OF ok]
  obtain r where r: "Server_from_dict ?p 0 (JObj ?d) = Inr r" ..
  from good [THEN conjunct2, THEN conjunct1, THEN spec, THEN mp, OF r]
  have "truthy (dict_get ?d ''lastHeartbeat'' JNull) \<longrightarrow>
          (\<exists>t. ?p (dict_get ?d ''lastHeartbeat'' JNull) = Some t \<and> sv_last_heartbeat r = Some t)"
    by (rule conjunct1)
  then have "sv_last_heartbeat r = Some 1714557600"
    unfolding v by simp
  with r have 1: "\<exists>r. Server_from_dict ?p 0 (JObj ?d) = Inr r \<and>
      sv_last_heartbeat r = Some 1714557600"
    by blast
  have k: "''lastHeartbeat'' \<in> set [''lastHeartbeat'']" by simp
  have rej: "truthy (dict_get ?d' ''lastHeartbeat'' JNull) \<and>
      ?p (dict_get ?d' ''lastHeartbeat'' JNull) = None"
    by (simp add: dict_get_def)
  from bad [THEN conjunct1, THEN bspec, OF k, THEN mp, OF rej]
  have 2: "\<exists>e. Server_from_dict ?p 0 (JObj ?d') = Inl e" .
  from 1 2 show ?thesis by (rule conjI)
qed

end
